theory Spec2Isabelle
  imports Complex_Main "HOL-Library.Log_Nat"
begin

section \<open>Values decoded by encoding/json\<close>

text \<open>
  The package decodes every response body into Go's untyped representation:
  \<^verbatim>\<open>json.Unmarshal\<close> stores \<^verbatim>\<open>nil\<close> for JSON null, a \<^verbatim>\<open>bool\<close>, a \<^verbatim>\<open>float64\<close> for every
  number, a \<^verbatim>\<open>string\<close>, a \<^verbatim>\<open>[]interface{}\<close> for an array and a
  \<^verbatim>\<open>map[string]interface{}\<close> for an object. A map is kept as an association list read
  with \<open>map_of\<close>. A \<^verbatim>\<open>float64\<close> that a JSON number decodes to is a finite value, kept as
  the real number it denotes.
\<close>

datatype json =
    JNull
  | JBool bool
  | JNumber real
  | JString string
  | JArray "json list"
  | JObject "(string \<times> json) list"

text \<open>
  Indexing a Go map: \<^verbatim>\<open>m["k"]\<close> is the zero value \<^verbatim>\<open>nil\<close> when the key is missing, so a
  missing key and a key holding JSON null read the same.
\<close>

definition index_map :: "(string \<times> json) list \<Rightarrow> string \<Rightarrow> json" where
  "index_map m k = (case map_of m k of None \<Rightarrow> JNull | Some v \<Rightarrow> v)"

text \<open>
  The single-value type assertions \<^verbatim>\<open>v.(T)\<close> of the source panic when the dynamic type
  of \<open>v\<close> is not \<open>T\<close> (also when \<open>v\<close> is \<^verbatim>\<open>nil\<close>). \<open>None\<close> is that panic.
\<close>

fun assert_map :: "json \<Rightarrow> (string \<times> json) list option" where
  "assert_map (JObject m) = Some m"
| "assert_map _ = None"

fun assert_slice :: "json \<Rightarrow> json list option" where
  "assert_slice (JArray vs) = Some vs"
| "assert_slice _ = None"

fun assert_string :: "json \<Rightarrow> string option" where
  "assert_string (JString s) = Some s"
| "assert_string _ = None"

fun assert_float64 :: "json \<Rightarrow> real option" where
  "assert_float64 (JNumber x) = Some x"
| "assert_float64 _ = None"

section \<open>Arithmetic of float64\<close>

text \<open>
  A finite \<^verbatim>\<open>float64\<close> is kept as the real number it denotes. An operation on \<^verbatim>\<open>float64\<close>
  gives the exact result rounded to 53 significant bits: to the nearest number with 53
  bits, and on a tie to the one whose last bit is even. \<open>exponent x\<close> is the binary
  exponent of \<open>x\<close>, the \<open>e\<close> with \<open>2 ^ e \<le> \<bar>x\<bar> < 2 ^ (e + 1)\<close>, counted from the bits of
  the integer part of \<open>\<bar>x\<bar>\<close>, or of \<open>1 / \<bar>x\<bar>\<close> when \<open>\<bar>x\<bar> < 1\<close>; \<open>ulp64 x\<close> is the weight of the
  last of the 53 bits at that exponent, and \<open>round64 x\<close> the multiple of it nearest to \<open>x\<close>.
  The numbers rounded below are 0 or between \<open>2 ^ (- 42)\<close> and \<open>2 ^ 22\<close> in size; the
  subnormal numbers and overflow, which they are far from, are not modelled.
\<close>

definition exponent :: "real \<Rightarrow> int" where
  "exponent x =
     (if 1 \<le> \<bar>x\<bar> then bitlen \<lfloor>\<bar>x\<bar>\<rfloor> - 1 else - bitlen (\<lceil>1 / \<bar>x\<bar>\<rceil> - 1))"

definition ulp64 :: "real \<Rightarrow> real" where
  "ulp64 x =
     (let e = exponent x - 52 in if 0 \<le> e then 2 ^ nat e else 1 / 2 ^ nat (- e))"

definition round_even :: "real \<Rightarrow> int" where
  "round_even y =
     (let f = \<lfloor>y\<rfloor>; r = y - of_int f
      in if r < 1 / 2 then f else if 1 / 2 < r then f + 1 else if even f then f else f + 1)"

definition round64 :: "real \<Rightarrow> real" where
  "round64 x = (if x = 0 then 0 else ulp64 x * of_int (round_even (x / ulp64 x)))"

text \<open>The integer left when the fraction of \<open>x\<close> is discarded (towards zero).\<close>

definition trunc :: "real \<Rightarrow> int" where
  "trunc x = (if 0 \<le> x then \<lfloor>x\<rfloor> else \<lceil>x\<rceil>)"

section \<open>Times, durations and formatting\<close>

text \<open>
  A \<^verbatim>\<open>time.Time\<close> is an instant, counted in nanoseconds on the integer line; a
  \<^verbatim>\<open>time.Duration\<close> is a signed 64-bit count of nanoseconds.
\<close>

type_synonym time = int
type_synonym duration = int

definition Minute :: duration where "Minute = 60000000000"
definition Hour :: duration where "Hour = 3600000000000"
definition maxDuration :: duration where "maxDuration = 2 ^ 63 - 1"
definition minDuration :: duration where "minDuration = - (2 ^ 63)"

definition time_Before :: "time \<Rightarrow> time \<Rightarrow> bool" where
  "time_Before t u = (t < u)"

text \<open>\<^verbatim>\<open>t.Sub(u)\<close> is \<open>t - u\<close>, clamped to the range of a \<^verbatim>\<open>Duration\<close>.\<close>

definition time_Sub :: "time \<Rightarrow> time \<Rightarrow> duration" where
  "time_Sub t u =
     (let d = t - u in
      if maxDuration < d then maxDuration else if d < minDuration then minDuration else d)"

text \<open>
  Go's integer division \<^verbatim>\<open>a / b\<close> truncates towards zero, and the remainder \<^verbatim>\<open>a % b\<close> takes
  the sign of \<open>a\<close>.
\<close>

definition quot :: "int \<Rightarrow> int \<Rightarrow> int" where
  "quot a b = (if (a < 0) = (b < 0) then \<bar>a\<bar> div \<bar>b\<bar> else - (\<bar>a\<bar> div \<bar>b\<bar>))"

definition rem :: "int \<Rightarrow> int \<Rightarrow> int" where
  "rem a b = a - b * quot a b"

text \<open>
  \<^verbatim>\<open>Duration.Hours\<close> of package \<^verbatim>\<open>time\<close>: \<^verbatim>\<open>hour := d / Hour\<close>, \<^verbatim>\<open>nsec := d % Hour\<close> and
  \<^verbatim>\<open>return float64(hour) + float64(nsec)/(60*60*1e9)\<close>. The two conversions are exact
  (both integers are below \<open>2 ^ 53\<close> in size); the quotient and the sum are rounded.
\<close>

definition Duration_Hours :: "duration \<Rightarrow> real" where
  "Duration_Hours d =
     (let hour = quot d Hour; nsec = rem d Hour
      in round64 (of_int hour + round64 (of_int nsec / 3600000000000)))"

text \<open>
  \<^verbatim>\<open>int(blockSize.Hours())\<close>. The hours of a \<^verbatim>\<open>Duration\<close> are at most 2562048 in size, inside
  the range of \<^verbatim>\<open>int\<close>, where the conversion discards the fraction.
\<close>

definition whole_hours :: "duration \<Rightarrow> int" where
  "whole_hours d = trunc (Duration_Hours d)"

text \<open>Decimal digits of a natural number, as \<^verbatim>\<open>%d\<close> prints them.\<close>

definition digit :: "nat \<Rightarrow> char" where
  "digit n = ''0123456789'' ! n"

function itoa_nat :: "nat \<Rightarrow> string" where
  "itoa_nat n =
     (if n < 10 then [digit n]
      else itoa_nat (n div 10) @ [digit (n mod 10)])"
  by pat_completeness auto
termination
  by (relation "measure id") auto

declare itoa_nat.simps [simp del]

text \<open>
  \<^verbatim>\<open>%0wd\<close> (\<open>w = 0\<close> for plain \<^verbatim>\<open>%d\<close>): zero padding to width \<open>w\<close>; a minus sign takes
  one column of the width.
\<close>

definition fmt_d :: "nat \<Rightarrow> int \<Rightarrow> string" where
  "fmt_d w n =
     (let ds = itoa_nat (nat \<bar>n\<bar>); p = (if n < 0 then w - 1 else w)
      in (if n < 0 then ''-'' else '''') @ replicate (p - length ds) (CHR ''0'') @ ds)"

section \<open>Domain records and errors\<close>

record Intensity =
  From :: time
  To :: time
  Forecast :: int
  Actual :: int
  Index :: string

record Statistics =
  From_s :: time
  To_s :: time
  Max_s :: int
  Average_s :: int
  Min_s :: int
  Index_s :: string

record IntensityFactors =
  Biomass :: int
  Coal :: int
  DutchImports :: int
  FrenchImports :: int
  IrishImports :: int
  GasCombinedCycle :: int
  GasOpenCycle :: int
  Hydro :: int
  Nuclear :: int
  Oil :: int
  Other :: int
  PumpedStorage :: int
  Solar :: int
  Wind :: int

text \<open>
  Every error of the package is an \<^verbatim>\<open>fmt.Errorf\<close> message; a constructor stands for one
  message format and carries its arguments. The first three come from the libraries.
\<close>

datatype error =
    TransportError string
  | SyntaxError
  | UnmarshalTypeError
  | FailedToUnmarshalJSON string
  | APIError string string
  | UnexpectedEntries string
  | InvalidSettlementPeriod int
  | NotStrictlyEarlier time time
  | RangeTooLarge time time
  | InvalidBlocksize duration

text \<open>
  What a call gives its caller: the returned value (with a \<^verbatim>\<open>nil\<close> error), the returned
  error, or a run-time panic that unwinds through the caller.
\<close>

datatype 'a outcome = Value 'a | Error error | Panic

section \<open>External collaborators\<close>

text \<open>
  What the parser of \<^verbatim>\<open>encoding/json\<close> finds in a text: a syntax error, a number too
  large for a \<^verbatim>\<open>float64\<close> (then \<^verbatim>\<open>json.Unmarshal\<close> returns an \<^verbatim>\<open>UnmarshalTypeError\<close>), or the
  value of the text.
\<close>

datatype parsed = Invalid | OutOfRange | Decoded json

text \<open>
  The libraries the package calls are parameters of the model: the JSON parser, applied
  to a text without white space around it, \<^verbatim>\<open>time.Parse\<close> and \<^verbatim>\<open>Time.Format\<close> with the
  layout \<^verbatim>\<open>natGridTimeFormat\<close>, \<^verbatim>\<open>Time.Date\<close>, and the HTTP transport, which maps a URL to
  the body read or to the message of its failure. The last parameter is the result of
  the conversion \<^verbatim>\<open>int(f)\<close> for a \<^verbatim>\<open>float64\<close> outside the range of \<^verbatim>\<open>int\<close>, which the
  language leaves to the implementation.
\<close>

record env =
  json_parse :: "string \<Rightarrow> parsed"
  time_Parse :: "string \<Rightarrow> time option"
  time_Format :: "time \<Rightarrow> string"
  time_Date :: "time \<Rightarrow> int \<times> int \<times> int"
  http_Get :: "string \<Rightarrow> string + string"
  int_overflow :: "real \<Rightarrow> int"

record APIHandler =
  serverAddress :: string

definition natGridServerAddress :: string where
  "natGridServerAddress = ''https://api.carbonintensity.org.uk''"

definition NewCarbonIntensityAPIHandler :: APIHandler where
  "NewCarbonIntensityAPIHandler = \<lparr>serverAddress = natGridServerAddress\<rparr>"

text \<open>
  The white space of JSON, and the bytes of the one value in a body: the body without
  the white space before and after the value. What the library finds in a body is what
  the parser finds in these bytes; \<open>json_decode\<close> is the value, when there is one.
\<close>

definition is_space :: "char \<Rightarrow> bool" where
  "is_space c = (c = CHR '' '' \<or> c = CHR 0x09 \<or> c = CHR 0x0A \<or> c = CHR 0x0D)"

definition value_bytes :: "string \<Rightarrow> string" where
  "value_bytes b = rev (dropWhile is_space (rev (dropWhile is_space b)))"

definition decode_text :: "env \<Rightarrow> string \<Rightarrow> parsed" where
  "decode_text E b = json_parse E (value_bytes b)"

definition json_decode :: "env \<Rightarrow> string \<Rightarrow> json option" where
  "json_decode E b = (case decode_text E b of Decoded j \<Rightarrow> Some j | _ \<Rightarrow> None)"

text \<open>
  The conversion \<^verbatim>\<open>int(f)\<close> of a \<^verbatim>\<open>float64\<close> discards the fraction. An \<^verbatim>\<open>int\<close> has 64 bits;
  when the result does not fit, the implementation chooses the \<^verbatim>\<open>int\<close>.
\<close>

definition go_int :: "env \<Rightarrow> real \<Rightarrow> int" where
  "go_int E f =
     (if - (2 ^ 63) \<le> trunc f \<and> trunc f < 2 ^ 63 then trunc f else int_overflow E f)"

text \<open>\<^verbatim>\<open>unmarshalInt(val, valIfNil)\<close>; \<open>None\<close> is the panic of \<^verbatim>\<open>val.(float64)\<close>.\<close>

definition unmarshalInt :: "env \<Rightarrow> json \<Rightarrow> int \<Rightarrow> int option" where
  "unmarshalInt E val valIfNil =
     (if val = JNull then Some valIfNil
      else case assert_float64 val of None \<Rightarrow> None | Some f \<Rightarrow> Some (go_int E f))"

text \<open>
  \<^verbatim>\<open>json.Unmarshal(data, &decoded)\<close> for a \<^verbatim>\<open>map[string]interface{}\<close>: a syntax error,
  a type error for a number that is too large, the map of an object, the untouched \<^verbatim>\<open>nil\<close>
  map for JSON null (reading it gives \<^verbatim>\<open>nil\<close> for every key), a type error for any other
  value.
\<close>

definition json_Unmarshal_map :: "env \<Rightarrow> string \<Rightarrow> error + (string \<times> json) list" where
  "json_Unmarshal_map E data =
     (case decode_text E data of
        Invalid \<Rightarrow> Inl SyntaxError
      | OutOfRange \<Rightarrow> Inl UnmarshalTypeError
      | Decoded (JObject m) \<Rightarrow> Inr m
      | Decoded JNull \<Rightarrow> Inr []
      | Decoded _ \<Rightarrow> Inl UnmarshalTypeError)"

section \<open>Decoding the intensity and statistics responses\<close>

text \<open>
  The error branch that the three decoders share, entered when \<^verbatim>\<open>"error"\<close> is not \<^verbatim>\<open>nil\<close>:
  \<^verbatim>\<open>errorMap := decoded["error"].(map[string]interface{})\<close>, then the error built from
  \<^verbatim>\<open>errorMap["code"].(string)\<close> and \<^verbatim>\<open>errorMap["message"].(string)\<close>.
\<close>

definition api_error :: "json \<Rightarrow> 'a outcome" where
  "api_error e =
     (case assert_map e of
        None \<Rightarrow> Panic
      | Some errorMap \<Rightarrow>
          (case assert_string (index_map errorMap ''code'') of
             None \<Rightarrow> Panic
           | Some code \<Rightarrow>
               (case assert_string (index_map errorMap ''message'') of
                  None \<Rightarrow> Panic
                | Some message \<Rightarrow> Error (APIError code message))))"

text \<open>
  One pass of the loop over the entries of \<^verbatim>\<open>"data"\<close> either appends a record, leaves the
  whole method with \<^verbatim>\<open>return nil\<close> (the two branches taken when \<^verbatim>\<open>time.Parse\<close> fails),
  or panics in a type assertion.
\<close>

datatype 'a step = Append 'a | ReturnNil | Fault

definition intensity_entry :: "env \<Rightarrow> json \<Rightarrow> Intensity step" where
  "intensity_entry E v =
     (case assert_map v of None \<Rightarrow> Fault | Some decodedDataEntry \<Rightarrow>
      (case assert_string (index_map decodedDataEntry ''to'') of None \<Rightarrow> Fault | Some toStr \<Rightarrow>
      (case time_Parse E toStr of None \<Rightarrow> ReturnNil | Some toTime \<Rightarrow>
      (case assert_string (index_map decodedDataEntry ''from'') of None \<Rightarrow> Fault | Some fromStr \<Rightarrow>
      (case time_Parse E fromStr of None \<Rightarrow> ReturnNil | Some fromTime \<Rightarrow>
      (case assert_map (index_map decodedDataEntry ''intensity'') of None \<Rightarrow> Fault
       | Some decodedIntensity \<Rightarrow>
      (case unmarshalInt E (index_map decodedIntensity ''forecast'') (- 1) of None \<Rightarrow> Fault
       | Some forecast \<Rightarrow>
      (case unmarshalInt E (index_map decodedIntensity ''actual'') (- 1) of None \<Rightarrow> Fault
       | Some actual \<Rightarrow>
      (case assert_string (index_map decodedIntensity ''index'') of None \<Rightarrow> Fault
       | Some idx \<Rightarrow>
         Append \<lparr>From = fromTime, To = toTime, Forecast = forecast, Actual = actual,
                 Index = idx\<rparr>)))))))))"

definition statistics_entry :: "env \<Rightarrow> json \<Rightarrow> Statistics step" where
  "statistics_entry E v =
     (case assert_map v of None \<Rightarrow> Fault | Some decodedDataEntry \<Rightarrow>
      (case assert_string (index_map decodedDataEntry ''to'') of None \<Rightarrow> Fault | Some toStr \<Rightarrow>
      (case time_Parse E toStr of None \<Rightarrow> ReturnNil | Some toTime \<Rightarrow>
      (case assert_string (index_map decodedDataEntry ''from'') of None \<Rightarrow> Fault | Some fromStr \<Rightarrow>
      (case time_Parse E fromStr of None \<Rightarrow> ReturnNil | Some fromTime \<Rightarrow>
      (case assert_map (index_map decodedDataEntry ''intensity'') of None \<Rightarrow> Fault
       | Some decodedIntensity \<Rightarrow>
      (case unmarshalInt E (index_map decodedIntensity ''max'') (- 1) of None \<Rightarrow> Fault
       | Some mx \<Rightarrow>
      (case unmarshalInt E (index_map decodedIntensity ''average'') (- 1) of None \<Rightarrow> Fault
       | Some average \<Rightarrow>
      (case unmarshalInt E (index_map decodedIntensity ''min'') (- 1) of None \<Rightarrow> Fault
       | Some mn \<Rightarrow>
      (case assert_string (index_map decodedIntensity ''index'') of None \<Rightarrow> Fault
       | Some idx \<Rightarrow>
         Append \<lparr>From_s = fromTime, To_s = toTime, Max_s = mx, Average_s = average,
                 Min_s = mn, Index_s = idx\<rparr>))))))))))"

text \<open>
  The loop \<^verbatim>\<open>for _, value := range decodedData\<close> with the entries appended so far; the
  same loop serves both responses, given the body of one pass.
\<close>

fun entries_loop :: "(json \<Rightarrow> 'a step) \<Rightarrow> json list \<Rightarrow> 'a list \<Rightarrow> 'a list outcome" where
  "entries_loop body [] entries = Value entries"
| "entries_loop body (v # vs) entries =
     (case body v of
        Fault \<Rightarrow> Panic
      | ReturnNil \<Rightarrow> Value entries
      | Append newEntry \<Rightarrow> entries_loop body vs (entries @ [newEntry]))"

text \<open>
  \<^verbatim>\<open>UnmarshalJSON\<close> of a response whose \<open>entries\<close> are still empty, as in every caller:
  \<open>Value es\<close> when the method returns \<^verbatim>\<open>nil\<close> and leaves \<open>es\<close> in \<open>entries\<close>, \<open>Error\<close> when
  it returns an error.
\<close>

definition UnmarshalJSON :: "(json \<Rightarrow> 'a step) \<Rightarrow> env \<Rightarrow> string \<Rightarrow> 'a list outcome" where
  "UnmarshalJSON body E data =
     (case json_Unmarshal_map E data of
        Inl err \<Rightarrow> Error err
      | Inr decoded \<Rightarrow>
          if index_map decoded ''data'' = JNull then
            (if index_map decoded ''error'' = JNull then Error (FailedToUnmarshalJSON data)
             else api_error (index_map decoded ''error''))
          else
            (case assert_slice (index_map decoded ''data'') of
               None \<Rightarrow> Panic
             | Some decodedData \<Rightarrow> entries_loop body decodedData []))"

definition intensityResponse_UnmarshalJSON :: "env \<Rightarrow> string \<Rightarrow> Intensity list outcome" where
  "intensityResponse_UnmarshalJSON E data = UnmarshalJSON (intensity_entry E) E data"

definition statisticsResponse_UnmarshalJSON :: "env \<Rightarrow> string \<Rightarrow> Statistics list outcome" where
  "statisticsResponse_UnmarshalJSON E data = UnmarshalJSON (statistics_entry E) E data"

text \<open>
  \<^verbatim>\<open>json.Unmarshal(responseBytes, &response)\<close> for a response with its own
  \<^verbatim>\<open>UnmarshalJSON\<close>: the library checks the syntax of the whole body and returns its
  error, or hands the method the bytes of the value, without the white space around it.
  The method's error is returned; its panic is not recovered.
\<close>

definition json_Unmarshal :: "(env \<Rightarrow> string \<Rightarrow> 'a outcome) \<Rightarrow> env \<Rightarrow> string \<Rightarrow> 'a outcome" where
  "json_Unmarshal method E responseBytes =
     (case decode_text E responseBytes of
        Invalid \<Rightarrow> Error SyntaxError
      | _ \<Rightarrow> method E (value_bytes responseBytes))"

section \<open>The public operations\<close>

text \<open>
  A call of a public operation gives the URLs it asked the transport for, in order, and
  its outcome. \<^verbatim>\<open>getAPIResponse\<close> is the only place that reaches the transport.
\<close>

type_synonym 'a call = "string list \<times> 'a outcome"

definition getAPIResponse :: "env \<Rightarrow> APIHandler \<Rightarrow> string \<Rightarrow> string list \<times> (string + string)" where
  "getAPIResponse E ah resource =
     (let url = serverAddress ah @ resource in ([url], http_Get E url))"

text \<open>
  The check that ends the operations returning one record, applied to the outcome of the
  decode: an error is passed on; otherwise
  \<^verbatim>\<open>if len(response.entries) != 1 { return nil, fmt.Errorf(...) }\<close> and
  \<^verbatim>\<open>return response.entries[0], nil\<close>.
\<close>

definition single_entry :: "string \<Rightarrow> 'a list outcome \<Rightarrow> 'a outcome" where
  "single_entry responseBytes r =
     (case r of
        Panic \<Rightarrow> Panic
      | Error err \<Rightarrow> Error err
      | Value entries \<Rightarrow>
          if length entries \<noteq> 1 then Error (UnexpectedEntries responseBytes)
          else Value (entries ! 0))"

text \<open>The path \<^verbatim>\<open>%04d-%02d-%02d\<close> of \<^verbatim>\<open>date.Date()\<close>.\<close>

definition date_path :: "env \<Rightarrow> time \<Rightarrow> string" where
  "date_path E date =
     (case time_Date E date of
        (year, month, day) \<Rightarrow> fmt_d 4 year @ ''-'' @ fmt_d 2 month @ ''-'' @ fmt_d 2 day)"

definition GetIntensityForDay :: "env \<Rightarrow> APIHandler \<Rightarrow> time \<Rightarrow> Intensity list call" where
  "GetIntensityForDay E ah date =
     (case getAPIResponse E ah (''/intensity/date/'' @ date_path E date) of
        (reqs, Inl err) \<Rightarrow> (reqs, Error (TransportError err))
      | (reqs, Inr responseBytes) \<Rightarrow>
          (reqs, json_Unmarshal intensityResponse_UnmarshalJSON E responseBytes))"

definition GetIntensityForDayAndSettlementPeriod :: "env \<Rightarrow> APIHandler \<Rightarrow> time \<Rightarrow> int \<Rightarrow> Intensity call" where
  "GetIntensityForDayAndSettlementPeriod E ah date settlementPeriod =
     (if settlementPeriod < 1 \<or> 48 < settlementPeriod
      then ([], Error (InvalidSettlementPeriod settlementPeriod))
      else case getAPIResponse E ah (''/intensity/date/'' @ date_path E date @ ''/'' @ fmt_d 0 settlementPeriod) of
        (reqs, Inl err) \<Rightarrow> (reqs, Error (TransportError err))
      | (reqs, Inr responseBytes) \<Rightarrow>
          (reqs, single_entry responseBytes
                   (json_Unmarshal intensityResponse_UnmarshalJSON E responseBytes)))"

definition GetTodaysIntensity :: "env \<Rightarrow> APIHandler \<Rightarrow> Intensity list call" where
  "GetTodaysIntensity E ah =
     (case getAPIResponse E ah (''/intensity/date'') of
        (reqs, Inl err) \<Rightarrow> (reqs, Error (TransportError err))
      | (reqs, Inr responseBytes) \<Rightarrow>
          (reqs, json_Unmarshal intensityResponse_UnmarshalJSON E responseBytes))"

definition GetIntensityForTimePeriod :: "env \<Rightarrow> APIHandler \<Rightarrow> time \<Rightarrow> Intensity call" where
  "GetIntensityForTimePeriod E ah t =
     (case getAPIResponse E ah (''/intensity/'' @ time_Format E t) of
        (reqs, Inl err) \<Rightarrow> (reqs, Error (TransportError err))
      | (reqs, Inr responseBytes) \<Rightarrow>
          (reqs, single_entry responseBytes
                   (json_Unmarshal intensityResponse_UnmarshalJSON E responseBytes)))"

definition GetCurrentIntensity :: "env \<Rightarrow> APIHandler \<Rightarrow> Intensity call" where
  "GetCurrentIntensity E ah =
     (case getAPIResponse E ah (''/intensity'') of
        (reqs, Inl err) \<Rightarrow> (reqs, Error (TransportError err))
      | (reqs, Inr responseBytes) \<Rightarrow>
          (reqs, single_entry responseBytes
                   (json_Unmarshal intensityResponse_UnmarshalJSON E responseBytes)))"

definition GetIntensityBetween :: "env \<Rightarrow> APIHandler \<Rightarrow> time \<Rightarrow> time \<Rightarrow> Intensity list call" where
  "GetIntensityBetween E ah t_from t_to =
     (if \<not> time_Before t_from t_to then ([], Error (NotStrictlyEarlier t_from t_to))
      else if Hour * 24 * 30 < time_Sub t_to t_from then ([], Error (RangeTooLarge t_from t_to))
      else case getAPIResponse E ah (''/intensity/'' @ time_Format E t_from @ ''/'' @ time_Format E t_to) of
        (reqs, Inl err) \<Rightarrow> (reqs, Error (TransportError err))
      | (reqs, Inr responseBytes) \<Rightarrow>
          (reqs, json_Unmarshal intensityResponse_UnmarshalJSON E responseBytes))"

definition GetNext24HourIntensity :: "env \<Rightarrow> APIHandler \<Rightarrow> time \<Rightarrow> Intensity list call" where
  "GetNext24HourIntensity E ah t_from =
     (case getAPIResponse E ah (''/intensity/'' @ time_Format E t_from @ ''/fw24h'') of
        (reqs, Inl err) \<Rightarrow> (reqs, Error (TransportError err))
      | (reqs, Inr responseBytes) \<Rightarrow>
          (reqs, json_Unmarshal intensityResponse_UnmarshalJSON E responseBytes))"

definition GetNext48HourIntensity :: "env \<Rightarrow> APIHandler \<Rightarrow> time \<Rightarrow> Intensity list call" where
  "GetNext48HourIntensity E ah t_from =
     (case getAPIResponse E ah (''/intensity/'' @ time_Format E t_from @ ''/fw48h'') of
        (reqs, Inl err) \<Rightarrow> (reqs, Error (TransportError err))
      | (reqs, Inr responseBytes) \<Rightarrow>
          (reqs, json_Unmarshal intensityResponse_UnmarshalJSON E responseBytes))"

definition GetPrior24HourIntensity :: "env \<Rightarrow> APIHandler \<Rightarrow> time \<Rightarrow> Intensity list call" where
  "GetPrior24HourIntensity E ah t_from =
     (case getAPIResponse E ah (''/intensity/'' @ time_Format E t_from @ ''/pt24h'') of
        (reqs, Inl err) \<Rightarrow> (reqs, Error (TransportError err))
      | (reqs, Inr responseBytes) \<Rightarrow>
          (reqs, json_Unmarshal intensityResponse_UnmarshalJSON E responseBytes))"

text \<open>
  The fuel-mix factors. \<^verbatim>\<open>int(factorDict[k].(float64))\<close> panics on a missing key, on JSON
  null and on any value that is not a number.
\<close>

definition factor :: "env \<Rightarrow> (string \<times> json) list \<Rightarrow> string \<Rightarrow> int option" where
  "factor E factorDict k = map_option (go_int E) (assert_float64 (index_map factorDict k))"

definition factors_of :: "env \<Rightarrow> (string \<times> json) list \<Rightarrow> IntensityFactors option" where
  "factors_of E d =
     (case factor E d ''Biomass'' of None \<Rightarrow> None | Some biomass \<Rightarrow>
      (case factor E d ''Coal'' of None \<Rightarrow> None | Some coal \<Rightarrow>
      (case factor E d ''Dutch Imports'' of None \<Rightarrow> None | Some dutch \<Rightarrow>
      (case factor E d ''French Imports'' of None \<Rightarrow> None | Some french \<Rightarrow>
      (case factor E d ''Gas (Combined Cycle)'' of None \<Rightarrow> None | Some gasCombined \<Rightarrow>
      (case factor E d ''Gas (Open Cycle)'' of None \<Rightarrow> None | Some gasOpen \<Rightarrow>
      (case factor E d ''Hydro'' of None \<Rightarrow> None | Some hydro \<Rightarrow>
      (case factor E d ''Irish Imports'' of None \<Rightarrow> None | Some irish \<Rightarrow>
      (case factor E d ''Nuclear'' of None \<Rightarrow> None | Some nuclear \<Rightarrow>
      (case factor E d ''Oil'' of None \<Rightarrow> None | Some oil \<Rightarrow>
      (case factor E d ''Other'' of None \<Rightarrow> None | Some other \<Rightarrow>
      (case factor E d ''Pumped Storage'' of None \<Rightarrow> None | Some pumped \<Rightarrow>
      (case factor E d ''Solar'' of None \<Rightarrow> None | Some solar \<Rightarrow>
      (case factor E d ''Wind'' of None \<Rightarrow> None | Some wind \<Rightarrow>
         Some \<lparr>Biomass = biomass, Coal = coal, DutchImports = dutch, FrenchImports = french,
               IrishImports = irish, GasCombinedCycle = gasCombined, GasOpenCycle = gasOpen,
               Hydro = hydro, Nuclear = nuclear, Oil = oil, Other = other,
               PumpedStorage = pumped, Solar = solar, Wind = wind\<rparr>))))))))))))))"

text \<open>The part of \<^verbatim>\<open>GetIntensityFactors\<close> that follows the transport: the decode.\<close>

definition decode_factors :: "env \<Rightarrow> string \<Rightarrow> IntensityFactors outcome" where
  "decode_factors E responseBytes =
     (case json_Unmarshal_map E responseBytes of
        Inl err \<Rightarrow> Error err
      | Inr response \<Rightarrow>
          if index_map response ''data'' = JNull then
            (if index_map response ''error'' = JNull
             then Error (FailedToUnmarshalJSON responseBytes)
             else api_error (index_map response ''error''))
          else
            (case assert_slice (index_map response ''data'') of
               None \<Rightarrow> Panic
             | Some responseData \<Rightarrow>
                 if length responseData \<noteq> 1 then Error (UnexpectedEntries responseBytes)
                 else
                   (case assert_map (responseData ! 0) of
                      None \<Rightarrow> Panic
                    | Some factorDict \<Rightarrow>
                        (case factors_of E factorDict of
                           None \<Rightarrow> Panic
                         | Some factors \<Rightarrow> Value factors))))"

definition GetIntensityFactors :: "env \<Rightarrow> APIHandler \<Rightarrow> IntensityFactors call" where
  "GetIntensityFactors E ah =
     (case getAPIResponse E ah (''/intensity/factors'') of
        (reqs, Inl err) \<Rightarrow> (reqs, Error (TransportError err))
      | (reqs, Inr responseBytes) \<Rightarrow> (reqs, decode_factors E responseBytes))"

definition GetStatistics :: "env \<Rightarrow> APIHandler \<Rightarrow> time \<Rightarrow> time \<Rightarrow> Statistics call" where
  "GetStatistics E ah t_from t_to =
     (if \<not> time_Before t_from t_to then ([], Error (NotStrictlyEarlier t_from t_to))
      else if Hour * 24 * 30 < time_Sub t_to t_from then ([], Error (RangeTooLarge t_from t_to))
      else case getAPIResponse E ah (''/intensity/stats/'' @ time_Format E t_from @ ''/'' @ time_Format E t_to) of
        (reqs, Inl err) \<Rightarrow> (reqs, Error (TransportError err))
      | (reqs, Inr responseBytes) \<Rightarrow>
          (reqs, single_entry responseBytes
                   (json_Unmarshal statisticsResponse_UnmarshalJSON E responseBytes)))"

definition GetStatisticsInBlocks :: "env \<Rightarrow> APIHandler \<Rightarrow> time \<Rightarrow> time \<Rightarrow> duration \<Rightarrow> Statistics list call" where
  "GetStatisticsInBlocks E ah t_from t_to blockSize =
     (if \<not> time_Before t_from t_to then ([], Error (NotStrictlyEarlier t_from t_to))
      else if Hour * 24 * 30 < time_Sub t_to t_from then ([], Error (RangeTooLarge t_from t_to))
      else if whole_hours blockSize < 1 \<or> 24 < whole_hours blockSize
      then ([], Error (InvalidBlocksize blockSize))
      else case getAPIResponse E ah (''/intensity/stats/'' @ time_Format E t_from @ ''/'' @ time_Format E t_to @ ''/''
                                     @ fmt_d 0 (whole_hours blockSize)) of
        (reqs, Inl err) \<Rightarrow> (reqs, Error (TransportError err))
      | (reqs, Inr responseBytes) \<Rightarrow>
          (reqs, json_Unmarshal statisticsResponse_UnmarshalJSON E responseBytes))"

section \<open>Predicates used by the properties\<close>

text \<open>The errors raised by the parameter checks, before the transport is reached.\<close>

fun validation_error :: "error \<Rightarrow> bool" where
  "validation_error (InvalidSettlementPeriod p) = True"
| "validation_error (NotStrictlyEarlier a b) = True"
| "validation_error (RangeTooLarge a b) = True"
| "validation_error (InvalidBlocksize d) = True"
| "validation_error _ = False"

text \<open>A call returns when it hands its caller a value or an error, and does not panic.\<close>

fun returns :: "'a outcome \<Rightarrow> bool" where
  "returns (Value x) = True"
| "returns (Error e) = True"
| "returns Panic = False"

text \<open>
  Shapes of decoded values, stated on the JSON alone. \<open>field v k\<close> reads key \<open>k\<close> of an
  object (\<^verbatim>\<open>nil\<close> when the key is missing or \<open>v\<close> is no object); \<open>str_of\<close> and \<open>num_of\<close>
  read a string and a number.
\<close>

fun is_object :: "json \<Rightarrow> bool" where
  "is_object (JObject m) = True"
| "is_object _ = False"

fun is_string :: "json \<Rightarrow> bool" where
  "is_string (JString s) = True"
| "is_string _ = False"

fun is_number :: "json \<Rightarrow> bool" where
  "is_number (JNumber x) = True"
| "is_number _ = False"

fun nil_or_number :: "json \<Rightarrow> bool" where
  "nil_or_number JNull = True"
| "nil_or_number (JNumber x) = True"
| "nil_or_number _ = False"

fun field :: "json \<Rightarrow> string \<Rightarrow> json" where
  "field (JObject m) k = index_map m k"
| "field _ k = JNull"

fun str_of :: "json \<Rightarrow> string" where
  "str_of (JString s) = s"
| "str_of _ = []"

fun num_of :: "json \<Rightarrow> real" where
  "num_of (JNumber x) = x"
| "num_of _ = 0"

text \<open>
  An entry of \<^verbatim>\<open>"data"\<close> has the types the loop asserts: an object with string \<^verbatim>\<open>"to"\<close> and
  \<^verbatim>\<open>"from"\<close> and an object \<^verbatim>\<open>"intensity"\<close> whose \<^verbatim>\<open>"index"\<close> is a string and whose numeric
  keys \<open>nums\<close> each hold a number, hold null or are missing.
\<close>

definition typed_entry :: "string list \<Rightarrow> json \<Rightarrow> bool" where
  "typed_entry nums v =
     (is_object v \<and> is_string (field v ''to'') \<and> is_string (field v ''from'')
      \<and> is_object (field v ''intensity'')
      \<and> list_all (\<lambda>k. nil_or_number (field (field v ''intensity'') k)) nums
      \<and> is_string (field (field v ''intensity'') ''index''))"

text \<open>A well-formed entry is a typed one whose two timestamps parse.\<close>

definition well_formed_entry :: "env \<Rightarrow> string list \<Rightarrow> json \<Rightarrow> bool" where
  "well_formed_entry E nums v =
     (typed_entry nums v
      \<and> time_Parse E (str_of (field v ''to'')) \<noteq> None
      \<and> time_Parse E (str_of (field v ''from'')) \<noteq> None)"

definition intensity_nums :: "string list" where
  "intensity_nums = [''forecast'', ''actual'']"

definition statistics_nums :: "string list" where
  "statistics_nums = [''max'', ''average'', ''min'']"

text \<open>The value of \<^verbatim>\<open>"error"\<close> has the types the error branch asserts.\<close>

definition typed_error :: "json \<Rightarrow> bool" where
  "typed_error e =
     (is_object e \<and> is_string (field e ''code'') \<and> is_string (field e ''message''))"

text \<open>The fourteen keys \<^verbatim>\<open>GetIntensityFactors\<close> reads, in the order it reads them.\<close>

definition factor_keys :: "string list" where
  "factor_keys =
     [''Biomass'', ''Coal'', ''Dutch Imports'', ''French Imports'', ''Gas (Combined Cycle)'',
      ''Gas (Open Cycle)'', ''Hydro'', ''Irish Imports'', ''Nuclear'', ''Oil'', ''Other'',
      ''Pumped Storage'', ''Solar'', ''Wind'']"

definition typed_factors :: "json \<Rightarrow> bool" where
  "typed_factors v = (is_object v \<and> list_all (\<lambda>k. is_number (field v k)) factor_keys)"

text \<open>
  A body has the types its decoder asserts. Only an object is inspected: with \<^verbatim>\<open>"data"\<close>
  \<^verbatim>\<open>nil\<close>, \<^verbatim>\<open>"error"\<close> is \<^verbatim>\<open>nil\<close> or typed; otherwise \<^verbatim>\<open>"data"\<close> is an array whose entries
  satisfy \<open>ok\<close>.
\<close>

definition typed_body :: "(json list \<Rightarrow> bool) \<Rightarrow> json \<Rightarrow> bool" where
  "typed_body ok j =
     (case j of
        JObject m \<Rightarrow>
          if index_map m ''data'' = JNull
          then index_map m ''error'' = JNull \<or> typed_error (index_map m ''error'')
          else (case index_map m ''data'' of JArray vs \<Rightarrow> ok vs | _ \<Rightarrow> False)
      | _ \<Rightarrow> True)"

text \<open>The fuel-mix decoder looks into the entries only when there is exactly one.\<close>

definition one_typed_factors :: "json list \<Rightarrow> bool" where
  "one_typed_factors vs = (case vs of [v] \<Rightarrow> typed_factors v | _ \<Rightarrow> True)"

text \<open>
  What the transport serves at a URL is typed: when it serves a body there, and the
  library decodes the body, the value has the types the decoder asserts. Nothing is
  asked of the bodies served elsewhere.
\<close>

definition served_typed :: "env \<Rightarrow> string \<Rightarrow> (json list \<Rightarrow> bool) \<Rightarrow> bool" where
  "served_typed E url ok =
     (case http_Get E url of
        Inl err \<Rightarrow> True
      | Inr body \<Rightarrow>
          (case json_decode E body of None \<Rightarrow> True | Some j \<Rightarrow> typed_body ok j))"

section \<open>A stub of the collaborators and sample responses\<close>

text \<open>
  A stub of the collaborators, built from tables: the texts the parser accepts with
  their values (it rejects the syntax of every other text), the timestamps \<^verbatim>\<open>time.Parse\<close>
  accepts, and the URLs the transport serves. A conversion to \<^verbatim>\<open>int\<close> that does not fit
  gives the smallest \<^verbatim>\<open>int\<close>.
\<close>

definition stub_env ::
  "(string \<times> json) list \<Rightarrow> (string \<times> time) list \<Rightarrow> (string \<times> string) list \<Rightarrow> env" where
  "stub_env bodies accepted pages =
     \<lparr>json_parse = (\<lambda>text. case map_of bodies text of
                               None \<Rightarrow> Invalid
                             | Some j \<Rightarrow> Decoded j),
      time_Parse = map_of accepted,
      time_Format = (\<lambda>t. ''T'' @ fmt_d 0 t),
      time_Date = (\<lambda>t. (2018, 1, 20)),
      http_Get = (\<lambda>url. case map_of pages url of
                            None \<Rightarrow> Inl ''connection refused''
                          | Some b \<Rightarrow> Inr b),
      int_overflow = (\<lambda>f. - (2 ^ 63))\<rparr>"

definition stub_handler :: APIHandler where
  "stub_handler = \<lparr>serverAddress = ''http://stub''\<rparr>"

text \<open>
  Sample responses: the text of a body, the value the parser gives for it, and the record
  it stands for. First the timestamps the stub of \<^verbatim>\<open>time.Parse\<close> accepts, then bodies of
  the intensity endpoints with one, two and no entries, and a body of the statistics
  endpoints.
\<close>

definition stamps :: "(string \<times> time) list" where
  "stamps = [(''2018-01-20T12:00Z'', 1516449600000000000),
             (''2018-01-20T12:30Z'', 1516451400000000000),
             (''2018-01-20T13:00Z'', 1516453200000000000)]"

definition body_one :: string where
  \<open>body_one = ''{"data":[{"from":"2018-01-20T12:00Z","to":"2018-01-20T12:30Z","intensity":{"forecast":50,"actual":null,"index":"low"}}]}''\<close>

definition entry_one :: json where
  "entry_one = JObject [(''from'', JString ''2018-01-20T12:00Z''), (''to'', JString ''2018-01-20T12:30Z''),
     (''intensity'', JObject [(''forecast'', JNumber 50), (''actual'', JNull), (''index'', JString ''low'')])]"

definition json_one :: json where
  "json_one = JObject [(''data'', JArray [entry_one])]"

definition record_one :: Intensity where
  "record_one = \<lparr>From = 1516449600000000000, To = 1516451400000000000, Forecast = 50,
                  Actual = - 1, Index = ''low''\<rparr>"

definition body_two :: string where
  \<open>body_two = ''{"data":[{"from":"2018-01-20T12:00Z","to":"2018-01-20T12:30Z","intensity":{"forecast":50,"actual":null,"index":"low"}},{"from":"2018-01-20T12:30Z","to":"2018-01-20T13:00Z","intensity":{"forecast":160,"actual":158,"index":"moderate"}}]}''\<close>

definition entry_two :: json where
  "entry_two = JObject [(''from'', JString ''2018-01-20T12:30Z''), (''to'', JString ''2018-01-20T13:00Z''),
     (''intensity'', JObject [(''forecast'', JNumber 160), (''actual'', JNumber 158),
        (''index'', JString ''moderate'')])]"

definition json_two :: json where
  "json_two = JObject [(''data'', JArray [entry_one, entry_two])]"

definition record_two :: Intensity where
  "record_two = \<lparr>From = 1516451400000000000, To = 1516453200000000000, Forecast = 160,
                  Actual = 158, Index = ''moderate''\<rparr>"

definition body_none :: string where
  \<open>body_none = ''{"data":[]}''\<close>

definition json_none :: json where
  "json_none = JObject [(''data'', JArray [])]"

definition body_stats :: string where
  \<open>body_stats = ''{"data":[{"from":"2018-01-20T12:00Z","to":"2018-01-20T13:00Z","intensity":{"max":320,"average":266,"min":180,"index":"moderate"}}]}''\<close>

definition entry_stats :: json where
  "entry_stats = JObject [(''from'', JString ''2018-01-20T12:00Z''), (''to'', JString ''2018-01-20T13:00Z''),
     (''intensity'', JObject [(''max'', JNumber 320), (''average'', JNumber 266), (''min'', JNumber 180),
        (''index'', JString ''moderate'')])]"

definition json_stats :: json where
  "json_stats = JObject [(''data'', JArray [entry_stats])]"

definition record_stats :: Statistics where
  "record_stats = \<lparr>From_s = 1516449600000000000, To_s = 1516453200000000000, Max_s = 320,
                    Average_s = 266, Min_s = 180, Index_s = ''moderate''\<rparr>"

text \<open>Entries whose timestamps \<^verbatim>\<open>time.Parse\<close> rejects.\<close>

definition body_bad_time :: string where
  \<open>body_bad_time = ''{"data":[{"from":"2018-01-20T12:00Z","to":"12:30 today","intensity":{"forecast":50,"actual":null,"index":"low"}}]}''\<close>

definition entry_bad_time :: json where
  "entry_bad_time = JObject [(''from'', JString ''2018-01-20T12:00Z''), (''to'', JString ''12:30 today''),
     (''intensity'', JObject [(''forecast'', JNumber 50), (''actual'', JNull), (''index'', JString ''low'')])]"

definition json_bad_time :: json where
  "json_bad_time = JObject [(''data'', JArray [entry_bad_time])]"

definition body_second_bad :: string where
  \<open>body_second_bad = ''{"data":[{"from":"2018-01-20T12:00Z","to":"2018-01-20T12:30Z","intensity":{"forecast":50,"actual":null,"index":"low"}},{"from":"12:30 today","to":"2018-01-20T13:00Z","intensity":{"forecast":160,"actual":158,"index":"moderate"}},{"from":"2018-01-20T12:30Z","to":"2018-01-20T13:00Z","intensity":{"forecast":160,"actual":158,"index":"moderate"}}]}''\<close>

definition entry_bad_from :: json where
  "entry_bad_from = JObject [(''from'', JString ''12:30 today''), (''to'', JString ''2018-01-20T13:00Z''),
     (''intensity'', JObject [(''forecast'', JNumber 160), (''actual'', JNumber 158),
        (''index'', JString ''moderate'')])]"

definition json_second_bad :: json where
  "json_second_bad = JObject [(''data'', JArray [entry_one, entry_bad_from, entry_two])]"

definition body_stats_bad_time :: string where
  \<open>body_stats_bad_time = ''{"data":[{"from":"2018-01-20T12:00Z","to":"12:30 today","intensity":{"max":320,"average":266,"min":180,"index":"moderate"}}]}''\<close>

definition entry_stats_bad_time :: json where
  "entry_stats_bad_time = JObject [(''from'', JString ''2018-01-20T12:00Z''), (''to'', JString ''12:30 today''),
     (''intensity'', JObject [(''max'', JNumber 320), (''average'', JNumber 266), (''min'', JNumber 180),
        (''index'', JString ''moderate'')])]"

definition json_stats_bad_time :: json where
  "json_stats_bad_time = JObject [(''data'', JArray [entry_stats_bad_time])]"

text \<open>
  Error envelopes, the empty object, and bodies whose fields do not have the types the
  decoders assert.
\<close>

definition body_error :: string where
  \<open>body_error = ''{"error":{"code":"400","message":"bad request"}}''\<close>

definition json_error :: json where
  "json_error = JObject [(''error'', JObject [(''code'', JString ''400''),
     (''message'', JString ''bad request'')])]"

definition body_null_data :: string where
  \<open>body_null_data = ''{"data":null,"error":{"code":"400","message":"bad request"}}''\<close>

definition json_null_data :: json where
  "json_null_data = JObject [(''data'', JNull), (''error'', JObject [(''code'', JString ''400''),
     (''message'', JString ''bad request'')])]"

definition body_empty :: string where
  \<open>body_empty = ''{}''\<close>

definition json_empty :: json where
  "json_empty = JObject []"

definition body_padded :: string where
  \<open>body_padded = '' {} ''\<close>

definition body_error_text :: string where
  \<open>body_error_text = ''{"error":"rate limit exceeded"}''\<close>

definition json_error_text :: json where
  "json_error_text = JObject [(''error'', JString ''rate limit exceeded'')]"

definition body_data_text :: string where
  \<open>body_data_text = ''{"data":"none"}''\<close>

definition json_data_text :: json where
  "json_data_text = JObject [(''data'', JString ''none'')]"

definition body_text_forecast :: string where
  \<open>body_text_forecast = ''{"data":[{"from":"2018-01-20T12:00Z","to":"2018-01-20T12:30Z","intensity":{"forecast":"n/a","actual":null,"index":"low"}}]}''\<close>

definition entry_text_forecast :: json where
  "entry_text_forecast = JObject [(''from'', JString ''2018-01-20T12:00Z''),
     (''to'', JString ''2018-01-20T12:30Z''),
     (''intensity'', JObject [(''forecast'', JString ''n/a''), (''actual'', JNull),
        (''index'', JString ''low'')])]"

definition json_text_forecast :: json where
  "json_text_forecast = JObject [(''data'', JArray [entry_text_forecast])]"

definition body_no_index :: string where
  \<open>body_no_index = ''{"data":[{"from":"2018-01-20T12:00Z","to":"2018-01-20T12:30Z","intensity":{"forecast":50,"actual":49}}]}''\<close>

definition json_no_index :: json where
  "json_no_index = JObject [(''data'', JArray [JObject [(''from'', JString ''2018-01-20T12:00Z''),
     (''to'', JString ''2018-01-20T12:30Z''),
     (''intensity'', JObject [(''forecast'', JNumber 50), (''actual'', JNumber 49)])]])]"

text \<open>The fuel-mix factors, complete and without \<^verbatim>\<open>"Wind"\<close>.\<close>

definition body_factors :: string where
  \<open>body_factors = ''{"data":[{"Biomass":120,"Coal":937,"Dutch Imports":474,"French Imports":53,"Gas (Combined Cycle)":394,"Gas (Open Cycle)":651,"Hydro":0,"Irish Imports":458,"Nuclear":0,"Oil":935,"Other":300,"Pumped Storage":0,"Solar":0,"Wind":0}]}''\<close>

definition dict_factors :: "(string \<times> json) list" where
  "dict_factors =
     [(''Biomass'', JNumber 120), (''Coal'', JNumber 937), (''Dutch Imports'', JNumber 474),
      (''French Imports'', JNumber 53), (''Gas (Combined Cycle)'', JNumber 394),
      (''Gas (Open Cycle)'', JNumber 651), (''Hydro'', JNumber 0),
      (''Irish Imports'', JNumber 458), (''Nuclear'', JNumber 0), (''Oil'', JNumber 935),
      (''Other'', JNumber 300), (''Pumped Storage'', JNumber 0), (''Solar'', JNumber 0),
      (''Wind'', JNumber 0)]"

definition json_factors :: json where
  "json_factors = JObject [(''data'', JArray [JObject dict_factors])]"

definition record_factors :: IntensityFactors where
  "record_factors =
     \<lparr>Biomass = 120, Coal = 937, DutchImports = 474, FrenchImports = 53, IrishImports = 458,
      GasCombinedCycle = 394, GasOpenCycle = 651, Hydro = 0, Nuclear = 0, Oil = 935,
      Other = 300, PumpedStorage = 0, Solar = 0, Wind = 0\<rparr>"

definition body_factors_no_wind :: string where
  \<open>body_factors_no_wind = ''{"data":[{"Biomass":120,"Coal":937,"Dutch Imports":474,"French Imports":53,"Gas (Combined Cycle)":394,"Gas (Open Cycle)":651,"Hydro":0,"Irish Imports":458,"Nuclear":0,"Oil":935,"Other":300,"Pumped Storage":0,"Solar":0}]}''\<close>

definition dict_factors_no_wind :: "(string \<times> json) list" where
  "dict_factors_no_wind =
     [(''Biomass'', JNumber 120), (''Coal'', JNumber 937), (''Dutch Imports'', JNumber 474),
      (''French Imports'', JNumber 53), (''Gas (Combined Cycle)'', JNumber 394),
      (''Gas (Open Cycle)'', JNumber 651), (''Hydro'', JNumber 0),
      (''Irish Imports'', JNumber 458), (''Nuclear'', JNumber 0), (''Oil'', JNumber 935),
      (''Other'', JNumber 300), (''Pumped Storage'', JNumber 0), (''Solar'', JNumber 0)]"

definition json_factors_no_wind :: json where
  "json_factors_no_wind = JObject [(''data'', JArray [JObject dict_factors_no_wind])]"

section \<open>Basic facts about the decoders\<close>

lemma getAPIResponse_eq:
  "getAPIResponse E ah resource =
     ([serverAddress ah @ resource], http_Get E (serverAddress ah @ resource))"
  by (simp add: getAPIResponse_def Let_def)

text \<open>The bytes of the value: trimming twice changes nothing, and neither does trimming a
  text that begins and ends with other characters than white space.\<close>

lemma dropWhile_unchanged: "xs = [] \<or> \<not> P (hd xs) \<Longrightarrow> dropWhile P xs = xs"
  by (cases xs) auto

lemma value_bytes_self:
  assumes "b \<noteq> []" and "\<not> is_space (hd b)" and "\<not> is_space (last b)"
  shows "value_bytes b = b"
proof -
  from assms have "dropWhile is_space b = b" by (simp add: dropWhile_unchanged)
  moreover from assms have "dropWhile is_space (rev b) = rev b"
    by (simp add: dropWhile_unchanged hd_rev)
  ultimately show ?thesis by (simp add: value_bytes_def)
qed

lemma value_bytes_ends:
  "value_bytes b = [] \<or> (\<not> is_space (hd (value_bytes b)) \<and> \<not> is_space (last (value_bytes b)))"
proof (cases "value_bytes b = []")
  case True
  then show ?thesis by simp
next
  case False
  define c where "c = dropWhile is_space b"
  define d where "d = dropWhile is_space (rev c)"
  have v: "value_bytes b = rev d" by (simp add: value_bytes_def c_def d_def)
  with False have d: "d \<noteq> []" by simp
  then have "\<not> is_space (hd d)" unfolding d_def by (rule hd_dropWhile)
  then have l: "\<not> is_space (last (rev d))" using d by (simp add: last_rev)
  have "rev c = takeWhile is_space (rev c) @ d" by (simp add: d_def)
  then have "c = rev d @ rev (takeWhile is_space (rev c))"
    by (metis rev_append rev_rev_ident)
  with d have "hd (rev d) = hd c" by (metis hd_append2 rev_is_Nil_conv)
  moreover have "c \<noteq> []" using d d_def by auto
  then have "\<not> is_space (hd c)" unfolding c_def by (rule hd_dropWhile)
  ultimately show ?thesis using l v by simp
qed

lemma value_bytes_idem [simp]: "value_bytes (value_bytes b) = value_bytes b"
proof (cases "value_bytes b = []")
  case True
  have "value_bytes [] = []" by (simp add: value_bytes_def)
  with True show ?thesis by simp
next
  case False
  with value_bytes_ends [of b] show ?thesis by (intro value_bytes_self) simp_all
qed

lemma decode_text_value_bytes [simp]: "decode_text E (value_bytes b) = decode_text E b"
  by (simp add: decode_text_def)

lemma json_decode_value_bytes [simp]: "json_decode E (value_bytes b) = json_decode E b"
  by (simp add: json_decode_def)

lemma json_decode_Some: "(json_decode E b = Some j) = (decode_text E b = Decoded j)"
  by (simp add: json_decode_def split: parsed.splits)

lemma json_decode_None:
  "(json_decode E b = None) = (decode_text E b = Invalid \<or> decode_text E b = OutOfRange)"
  by (simp add: json_decode_def split: parsed.splits)

text \<open>The two uses of the library, read through \<open>json_decode\<close>.\<close>

lemma json_Unmarshal_map_Some:
  "json_decode E data = Some j \<Longrightarrow>
   json_Unmarshal_map E data =
     (case j of JObject m \<Rightarrow> Inr m | JNull \<Rightarrow> Inr [] | _ \<Rightarrow> Inl UnmarshalTypeError)"
  by (simp add: json_Unmarshal_map_def json_decode_Some split: json.splits)

lemma json_Unmarshal_map_None:
  "json_decode E data = None \<Longrightarrow>
   json_Unmarshal_map E data
     = Inl (if decode_text E data = OutOfRange then UnmarshalTypeError else SyntaxError)"
  by (auto simp: json_Unmarshal_map_def json_decode_None)

lemma json_Unmarshal_Some:
  "json_decode E b = Some j \<Longrightarrow> json_Unmarshal method E b = method E (value_bytes b)"
  by (simp add: json_Unmarshal_def json_decode_Some)

lemma json_Unmarshal_map_eq:
  "json_Unmarshal_map E data =
     (case json_decode E data of
        None \<Rightarrow> Inl (if decode_text E data = OutOfRange then UnmarshalTypeError else SyntaxError)
      | Some (JObject m) \<Rightarrow> Inr m
      | Some JNull \<Rightarrow> Inr []
      | Some _ \<Rightarrow> Inl UnmarshalTypeError)"
  by (simp add: json_Unmarshal_map_def json_decode_def split: parsed.splits json.splits)

lemma json_Unmarshal_eq:
  "json_Unmarshal method E b =
     (case json_decode E b of
        None \<Rightarrow> if decode_text E b = OutOfRange then method E (value_bytes b)
                else Error SyntaxError
      | Some j \<Rightarrow> method E (value_bytes b))"
  by (simp add: json_Unmarshal_def json_decode_def split: parsed.splits)

lemma stub_env_sel:
  "decode_text (stub_env bs st ps) b
     = (case map_of bs (value_bytes b) of None \<Rightarrow> Invalid | Some j \<Rightarrow> Decoded j)"
  "json_decode (stub_env bs st ps) b = map_of bs (value_bytes b)"
  "time_Parse (stub_env bs st ps) = map_of st"
  "time_Format (stub_env bs st ps) t = ''T'' @ fmt_d 0 t"
  "time_Date (stub_env bs st ps) t = (2018, 1, 20)"
  "http_Get (stub_env bs st ps) url =
     (case map_of ps url of None \<Rightarrow> Inl ''connection refused'' | Some b \<Rightarrow> Inr b)"
  "int_overflow (stub_env bs st ps) f = - (2 ^ 63)"
  by (simp_all add: stub_env_def json_decode_def decode_text_def split: option.splits)

lemma sample_bodies_trimmed [simp]:
  "value_bytes body_one = body_one"
  "value_bytes body_two = body_two"
  "value_bytes body_none = body_none"
  "value_bytes body_stats = body_stats"
  "value_bytes body_bad_time = body_bad_time"
  "value_bytes body_second_bad = body_second_bad"
  "value_bytes body_stats_bad_time = body_stats_bad_time"
  "value_bytes body_error = body_error"
  "value_bytes body_null_data = body_null_data"
  "value_bytes body_empty = body_empty"
  "value_bytes body_error_text = body_error_text"
  "value_bytes body_data_text = body_data_text"
  "value_bytes body_text_forecast = body_text_forecast"
  "value_bytes body_no_index = body_no_index"
  "value_bytes body_factors = body_factors"
  "value_bytes body_factors_no_wind = body_factors_no_wind"
  "value_bytes body_padded = body_empty"
  "value_bytes ''null'' = ''null''"
proof -
  show "value_bytes body_one = body_one"
    by (rule value_bytes_self) (simp_all add: body_one_def is_space_def)
  show "value_bytes body_two = body_two"
    by (rule value_bytes_self) (simp_all add: body_two_def is_space_def)
  show "value_bytes body_none = body_none"
    by (rule value_bytes_self) (simp_all add: body_none_def is_space_def)
  show "value_bytes body_stats = body_stats"
    by (rule value_bytes_self) (simp_all add: body_stats_def is_space_def)
  show "value_bytes body_bad_time = body_bad_time"
    by (rule value_bytes_self) (simp_all add: body_bad_time_def is_space_def)
  show "value_bytes body_second_bad = body_second_bad"
    by (rule value_bytes_self) (simp_all add: body_second_bad_def is_space_def)
  show "value_bytes body_stats_bad_time = body_stats_bad_time"
    by (rule value_bytes_self) (simp_all add: body_stats_bad_time_def is_space_def)
  show "value_bytes body_error = body_error"
    by (rule value_bytes_self) (simp_all add: body_error_def is_space_def)
  show "value_bytes body_null_data = body_null_data"
    by (rule value_bytes_self) (simp_all add: body_null_data_def is_space_def)
  show "value_bytes body_empty = body_empty"
    by (rule value_bytes_self) (simp_all add: body_empty_def is_space_def)
  show "value_bytes body_error_text = body_error_text"
    by (rule value_bytes_self) (simp_all add: body_error_text_def is_space_def)
  show "value_bytes body_data_text = body_data_text"
    by (rule value_bytes_self) (simp_all add: body_data_text_def is_space_def)
  show "value_bytes body_text_forecast = body_text_forecast"
    by (rule value_bytes_self) (simp_all add: body_text_forecast_def is_space_def)
  show "value_bytes body_no_index = body_no_index"
    by (rule value_bytes_self) (simp_all add: body_no_index_def is_space_def)
  show "value_bytes body_factors = body_factors"
    by (rule value_bytes_self) (simp_all add: body_factors_def is_space_def)
  show "value_bytes body_factors_no_wind = body_factors_no_wind"
    by (rule value_bytes_self) (simp_all add: body_factors_no_wind_def is_space_def)
  show "value_bytes body_padded = body_empty"
    by (simp add: value_bytes_def body_padded_def body_empty_def is_space_def)
  show "value_bytes ''null'' = ''null''"
    by (simp add: value_bytes_def is_space_def)
qed

lemma api_error_Error: "api_error j = Error e \<Longrightarrow> \<exists>c m. e = APIError c m"
  by (auto simp: api_error_def split: option.splits)

lemma entries_loop_not_Error: "entries_loop body vs acc \<noteq> Error e"
  by (induction vs arbitrary: acc) (auto split: step.splits)

lemma UnmarshalJSON_Error:
  "UnmarshalJSON body E data = Error e \<Longrightarrow>
     \<not> validation_error e \<and> (\<forall>b. e \<noteq> UnexpectedEntries b) \<and> (\<forall>m. e \<noteq> TransportError m)"
  by (auto simp: UnmarshalJSON_def json_Unmarshal_map_def entries_loop_not_Error
      split: sum.splits if_splits option.splits json.splits parsed.splits dest: api_error_Error)

lemma intensity_Unmarshal_Error:
  "json_Unmarshal intensityResponse_UnmarshalJSON E data = Error e \<Longrightarrow>
     \<not> validation_error e \<and> e \<noteq> UnexpectedEntries data \<and> (\<forall>m. e \<noteq> TransportError m)"
  by (auto simp: json_Unmarshal_def intensityResponse_UnmarshalJSON_def
      split: parsed.splits dest: UnmarshalJSON_Error)

lemma statistics_Unmarshal_Error:
  "json_Unmarshal statisticsResponse_UnmarshalJSON E data = Error e \<Longrightarrow>
     \<not> validation_error e \<and> e \<noteq> UnexpectedEntries data \<and> (\<forall>m. e \<noteq> TransportError m)"
  by (auto simp: json_Unmarshal_def statisticsResponse_UnmarshalJSON_def
      split: parsed.splits dest: UnmarshalJSON_Error)

lemma single_entry_Error:
  "single_entry b r = Error e \<Longrightarrow> e = UnexpectedEntries b \<or> r = Error e"
  by (auto simp: single_entry_def split: outcome.splits if_splits)

lemma time_Sub_too_large:
  "(Hour * 24 * 30 < time_Sub t u) = (Hour * 24 * 30 < t - u)"
  by (simp add: time_Sub_def Let_def Hour_def maxDuration_def minDuration_def)

lemma go_int_small: "\<bar>x\<bar> < 2 ^ 63 \<Longrightarrow> go_int E x = trunc x"
  by (auto simp: go_int_def trunc_def le_floor_iff floor_less_iff le_ceiling_iff ceiling_less_iff)

section \<open>Rounding in the hours of a duration\<close>

text \<open>
  The binary exponent is the floor of the binary logarithm. A multiple of the unit in the
  last place is a bound of the rounded number when it is a bound of the exact one; so is
  a fraction with a power of two below, while the bits of the two fit into 53.
\<close>

lemma exponent_large:
  assumes "1 \<le> y"
  shows "bitlen \<lfloor>y\<rfloor> - 1 = \<lfloor>log 2 y\<rfloor>"
proof -
  define k where "k = \<lfloor>log 2 y\<rfloor>"
  from assms have pos: "0 < y" by simp
  have b: "(2::real) powr real_of_int k \<le> y" "y < (2::real) powr real_of_int (k + 1)"
    using floor_log_eq_powr_iff [of y 2 k] pos by (simp_all add: k_def)
  from assms have "0 \<le> log 2 y" by simp
  then have k0: "0 \<le> k" by (simp add: k_def)
  have p: "(2::real) powr real_of_int k = real_of_int (2 ^ nat k)"
    using k0 powr_real_of_int [of 2 k] by simp
  from b(1) have lo: "2 ^ nat k \<le> \<lfloor>y\<rfloor>"
    unfolding p by (simp add: le_floor_iff)
  then have n: "0 < \<lfloor>y\<rfloor>" by (smt (verit) zero_less_power)
  have "(2::real) powr real_of_int k \<le> real_of_int \<lfloor>y\<rfloor>"
    unfolding p using lo by linarith
  moreover have "real_of_int \<lfloor>y\<rfloor> < (2::real) powr real_of_int (k + 1)"
    using b(2) by linarith
  ultimately have "\<lfloor>log 2 (real_of_int \<lfloor>y\<rfloor>)\<rfloor> = k"
    using floor_log_eq_powr_iff [of "real_of_int \<lfloor>y\<rfloor>" 2 k] n by simp
  with n show ?thesis by (simp add: bitlen_alt_def k_def)
qed

lemma exponent_small:
  assumes "0 < y" and "y < 1"
  shows "- bitlen (\<lceil>1 / y\<rceil> - 1) = \<lfloor>log 2 y\<rfloor>"
proof -
  define m where "m = \<lceil>1 / y\<rceil> - 1"
  from assms have "1 < 1 / y" by simp
  then have m: "0 < m" unfolding m_def by linarith
  have c: "real_of_int m < 1 / y" "1 / y \<le> real_of_int m + 1"
    unfolding m_def by linarith+
  define b where "b = \<lfloor>log 2 (real_of_int m)\<rfloor>"
  have "1 \<le> real_of_int m" using m by simp
  then have "0 \<le> log 2 (real_of_int m)" by simp
  then have b0: "0 \<le> b" by (simp add: b_def)
  have bb: "(2::real) powr real_of_int b \<le> real_of_int m" "real_of_int m < (2::real) powr real_of_int (b + 1)"
    using floor_log_eq_powr_iff [of "real_of_int m" 2 b] m by (simp_all add: b_def)
  have p: "(2::real) powr real_of_int (b + 1) = real_of_int (2 ^ nat (b + 1))"
    using b0 powr_real_of_int [of 2 "b + 1"] by simp
  from bb(2) have "m < 2 ^ nat (b + 1)" unfolding p by linarith
  then have "real_of_int m + 1 \<le> real_of_int (2 ^ nat (b + 1))" by linarith
  with c(2) have up: "1 / y \<le> (2::real) powr real_of_int (b + 1)" unfolding p by linarith
  from bb(1) c(1) have lo: "(2::real) powr real_of_int b < 1 / y" by linarith
  have "(2::real) powr real_of_int (- b - 1) \<le> y"
  proof -
    have e: "real_of_int (- b - 1) = - real_of_int (b + 1)" by simp
    have "(2::real) powr real_of_int (- b - 1) = 1 / (2::real) powr real_of_int (b + 1)"
      unfolding e by (rule powr_minus_divide)
    also have "\<dots> \<le> y"
      using up assms(1) by (simp add: field_simps)
    finally show ?thesis .
  qed
  moreover have "y < (2::real) powr real_of_int (- b - 1 + 1)"
  proof -
    have "y < 1 / (2::real) powr real_of_int b"
      using lo assms(1) by (simp add: field_simps)
    also have "\<dots> = (2::real) powr real_of_int (- b - 1 + 1)"
      using powr_minus_divide [of 2 "real_of_int b"] by simp
    finally show ?thesis .
  qed
  ultimately have "\<lfloor>log 2 y\<rfloor> = - b - 1"
    using floor_log_eq_powr_iff [of y 2 "- b - 1"] assms(1) by simp
  with m show ?thesis by (simp add: bitlen_alt_def m_def [symmetric] b_def)
qed

lemma exponent_log: "x \<noteq> 0 \<Longrightarrow> exponent x = \<lfloor>log 2 \<bar>x\<bar>\<rfloor>"
  using exponent_large [of "\<bar>x\<bar>"] exponent_small [of "\<bar>x\<bar>"]
  by (simp add: exponent_def)

lemma ulp64_log: "x \<noteq> 0 \<Longrightarrow> ulp64 x = 2 powr of_int (\<lfloor>log 2 \<bar>x\<bar>\<rfloor> - 52)"
  using powr_real_of_int [of 2 "\<lfloor>log 2 \<bar>x\<bar>\<rfloor> - 52"]
  by (simp add: ulp64_def Let_def exponent_log inverse_eq_divide)

lemma round_even_bounds: "\<lfloor>y\<rfloor> \<le> round_even y \<and> round_even y \<le> \<lceil>y\<rceil>"
proof (cases "y = of_int \<lfloor>y\<rfloor>")
  case True
  then have "round_even y = \<lfloor>y\<rfloor>" by (simp add: round_even_def Let_def)
  then show ?thesis by (simp add: floor_le_ceiling)
next
  case False
  then have "\<lceil>y\<rceil> = \<lfloor>y\<rfloor> + 1" by (simp add: ceiling_altdef)
  then show ?thesis by (simp add: round_even_def Let_def)
qed

lemma ulp64_pos: "0 < ulp64 x"
  by (simp add: ulp64_def Let_def)

lemma round64_ge:
  assumes "of_int k * ulp64 y \<le> y"
  shows "of_int k * ulp64 y \<le> round64 y"
proof (cases "y = 0")
  case True
  with assms show ?thesis by (simp add: round64_def)
next
  case False
  from assms have "of_int k \<le> y / ulp64 y"
    using ulp64_pos [of y] by (simp add: pos_le_divide_eq)
  then have "k \<le> \<lfloor>y / ulp64 y\<rfloor>" by (simp add: le_floor_iff)
  with round_even_bounds [of "y / ulp64 y"] have "k \<le> round_even (y / ulp64 y)" by linarith
  then have "of_int k * ulp64 y \<le> of_int (round_even (y / ulp64 y)) * ulp64 y"
    using ulp64_pos [of y] by (simp add: mult_right_mono)
  with False show ?thesis by (simp add: round64_def mult.commute)
qed

lemma round64_le:
  assumes "y \<le> of_int k * ulp64 y"
  shows "round64 y \<le> of_int k * ulp64 y"
proof (cases "y = 0")
  case True
  with assms show ?thesis by (simp add: round64_def)
next
  case False
  from assms have "y / ulp64 y \<le> of_int k"
    using ulp64_pos [of y] by (simp add: pos_divide_le_eq)
  then have "\<lceil>y / ulp64 y\<rceil> \<le> k" by (simp add: ceiling_le_iff)
  with round_even_bounds [of "y / ulp64 y"] have "round_even (y / ulp64 y) \<le> k" by linarith
  then have "of_int (round_even (y / ulp64 y)) * ulp64 y \<le> of_int k * ulp64 y"
    using ulp64_pos [of y] by (simp add: mult_right_mono)
  with False show ?thesis by (simp add: round64_def mult.commute)
qed

lemma ulp64_grid:
  assumes "y \<noteq> 0" and "\<bar>y\<bar> < 2 ^ m" and "n + m \<le> 53"
  shows "\<exists>k. of_int j / 2 ^ n = of_int k * ulp64 y"
proof -
  define e where "e = \<lfloor>log 2 \<bar>y\<bar>\<rfloor>"
  have "log 2 \<bar>y\<bar> < of_nat m"
    using assms(1,2) by (simp add: log_less_iff powr_realpow)
  then have "e < int m" unfolding e_def by (simp add: floor_less_iff)
  define N where "N = nat (52 - e)"
  have N: "n \<le> N" "int N = 52 - e" using \<open>e < int m\<close> assms(3) by (simp_all add: N_def)
  have "(2::real) powr real_of_int (e - 52)
          = (if e - 52 \<ge> 0 then 2 ^ nat (e - 52) else inverse (2 ^ nat (- (e - 52))))"
    by (rule powr_real_of_int) simp
  moreover have "e \<le> 52" using N(2) by linarith
  ultimately have "(2::real) powr real_of_int (e - 52) = 1 / 2 ^ N"
    by (cases "e = 52") (simp_all add: N_def inverse_eq_divide)
  then have u: "ulp64 y = 1 / 2 ^ N"
    unfolding ulp64_log [OF assms(1)] e_def [symmetric] .
  have "(2::real) ^ N = 2 ^ (N - n) * 2 ^ n"
    using N(1) by (simp add: power_add [symmetric])
  then have "of_int j / 2 ^ n = of_int (j * 2 ^ (N - n)) * (1 / 2 ^ N :: real)"
    by simp
  with u show ?thesis by metis
qed

lemma round64_ge_grid:
  assumes "\<bar>y\<bar> < 2 ^ m" and "n + m \<le> 53" and "of_int j / 2 ^ n \<le> y"
  shows "of_int j / 2 ^ n \<le> round64 y"
proof (cases "y = 0")
  case True
  with assms show ?thesis by (simp add: round64_def)
next
  case False
  from ulp64_grid [OF False assms(1,2), of j] obtain k where
    "of_int j / 2 ^ n = of_int k * ulp64 y" by blast
  with assms(3) round64_ge [of k y] show ?thesis by simp
qed

lemma round64_le_grid:
  assumes "\<bar>y\<bar> < 2 ^ m" and "n + m \<le> 53" and "y \<le> of_int j / 2 ^ n"
  shows "round64 y \<le> of_int j / 2 ^ n"
proof (cases "y = 0")
  case True
  with assms show ?thesis by (simp add: round64_def)
next
  case False
  from ulp64_grid [OF False assms(1,2), of j] obtain k where
    "of_int j / 2 ^ n = of_int k * ulp64 y" by blast
  with assms(3) round64_le [of y k] show ?thesis by simp
qed


lemma quot_rem_nonneg:
  "0 \<le> d \<Longrightarrow> quot d Hour = d div Hour \<and> rem d Hour = d mod Hour"
  by (simp add: quot_def rem_def Hour_def minus_mult_div_eq_mod)

lemma quot_rem_neg:
  "d < 0 \<Longrightarrow> quot d Hour = - ((- d) div Hour) \<and> rem d Hour = - ((- d) mod Hour)"
  by (simp add: quot_def rem_def Hour_def algebra_simps minus_mult_div_eq_mod [symmetric])

lemma fraction_bounds:
  assumes "0 \<le> n" and "n < Hour"
  shows "0 \<le> round64 (of_int n / 3600000000000)"
    and "round64 (of_int n / 3600000000000) \<le> 4398046511103 / 2 ^ 42"
proof -
  let ?x = "real_of_int n / 3600000000000"
  from assms have n: "0 \<le> real_of_int n" "real_of_int n \<le> 3599999999999"
    by (simp_all add: Hour_def)
  then have x: "0 \<le> ?x" "?x \<le> 3599999999999 / 3600000000000"
    by (simp_all add: divide_right_mono)
  then have small: "\<bar>?x\<bar> < 2 ^ 0" by simp
  have "real_of_int 0 / 2 ^ 0 \<le> round64 ?x"
    by (rule round64_ge_grid [OF small]) (use x in simp_all)
  then show "0 \<le> round64 ?x" by simp
  have "(3599999999999 / 3600000000000 :: real) \<le> real_of_int 4398046511103 / 2 ^ 42"
    by simp
  with x have "?x \<le> real_of_int 4398046511103 / 2 ^ 42" by linarith
  with round64_le_grid [OF small, of 42 4398046511103]
  show "round64 ?x \<le> 4398046511103 / 2 ^ 42" by simp
qed

lemma hours_sum_small:
  assumes "0 \<le> h" and "h \<le> 24" and "0 \<le> q" and "q \<le> 4398046511103 / 2 ^ 42"
  shows "trunc (round64 (of_int h + q)) = h"
proof -
  let ?y = "real_of_int h + q"
  from assms have y: "of_int h \<le> ?y" "?y \<le> of_int h + 4398046511103 / 2 ^ 42" by simp_all
  from assms have "?y < 32" by simp
  with y assms have small: "\<bar>?y\<bar> < 2 ^ 5" by simp
  have "real_of_int h / 2 ^ 0 \<le> round64 ?y"
    by (rule round64_ge_grid [OF small]) (use y in simp_all)
  then have lo: "of_int h \<le> round64 ?y" by simp
  have "?y \<le> real_of_int (h * 2 ^ 42 + 4398046511103) / 2 ^ 42"
    using y(2) by (simp add: field_simps)
  with round64_le_grid [OF small, of 42 "h * 2 ^ 42 + 4398046511103"]
  have "round64 ?y \<le> real_of_int (h * 2 ^ 42 + 4398046511103) / 2 ^ 42" by simp
  also have "\<dots> < of_int h + 1" by (simp add: field_simps)
  finally have hi: "round64 ?y < of_int h + 1" .
  from lo assms(1) have "0 \<le> round64 ?y" by linarith
  then have "trunc (round64 ?y) = \<lfloor>round64 ?y\<rfloor>" by (simp add: trunc_def)
  also from lo hi have "\<dots> = h" by (simp add: floor_unique)
  finally show ?thesis .
qed

lemma whole_hours_small:
  assumes "0 \<le> d" and "d < 25 * Hour"
  shows "whole_hours d = d div Hour"
proof -
  have pos: "0 < Hour" by (simp add: Hour_def)
  from assms have h: "0 \<le> d div Hour" "d div Hour \<le> 24"
    using pos by (simp_all add: pos_imp_zdiv_nonneg_iff Hour_def) 
  have n: "0 \<le> d mod Hour" "d mod Hour < Hour" using pos by simp_all
  from hours_sum_small [OF h fraction_bounds [OF n]] assms(1) show ?thesis
    by (simp add: whole_hours_def Duration_Hours_def Let_def quot_rem_nonneg)
qed


lemma round64_nonpos: "y \<le> 0 \<Longrightarrow> round64 y \<le> 0"
  using round64_le [of y 0] by simp

lemma round64_nonneg: "0 \<le> y \<Longrightarrow> 0 \<le> round64 y"
  using round64_ge [of 0 y] by simp

lemma round64_ge_25:
  assumes "25 \<le> y"
  shows "25 \<le> round64 y"
proof (cases "y < 2 ^ 53")
  case True
  with assms have small: "\<bar>y\<bar> < 2 ^ 53" by simp
  have "real_of_int 25 / 2 ^ 0 \<le> round64 y"
    by (rule round64_ge_grid [OF small]) (use assms in simp_all)
  then show ?thesis by simp
next
  case False
  then have big: "2 ^ 53 \<le> y" by simp
  then have pos: "0 < y" by (smt (verit) zero_less_power)
  define e where "e = \<lfloor>log 2 \<bar>y\<bar>\<rfloor>"
  have fl: "2 powr of_int e \<le> y"
    using pos floor_log_eq_powr_iff [of y 2 e] by (simp add: e_def)
  have "(2::real) powr 53 \<le> y" using big by simp
  then have "53 \<le> log 2 y" using pos by (simp add: le_log_iff)
  then have e53: "53 \<le> e" using pos by (simp add: e_def le_floor_iff)
  have k: "real_of_int (2 ^ 52) * ulp64 y = 2 powr of_int e"
    using powr_add [of 2 52 "real_of_int e - 52"] pos by (simp add: ulp64_log e_def)
  with fl round64_ge [of "2 ^ 52" y] have "2 powr of_int e \<le> round64 y" by simp
  moreover have "(2::real) powr 53 \<le> 2 powr of_int e"
    using e53 by (intro powr_mono) simp_all
  ultimately show ?thesis by simp
qed

lemma whole_hours_large:
  assumes "25 * Hour \<le> d"
  shows "25 \<le> whole_hours d"
proof -
  have pos: "0 < Hour" by (simp add: Hour_def)
  from assms have d: "0 \<le> d" by (simp add: Hour_def)
  from assms have "25 \<le> d div Hour"
    using zdiv_mono1 [of "25 * Hour" d Hour] pos by simp
  then have h: "25 \<le> real_of_int (d div Hour)" by simp
  have "0 \<le> round64 (of_int (d mod Hour) / 3600000000000)"
    using pos by (intro round64_nonneg) simp
  with h have "25 \<le> real_of_int (d div Hour) + round64 (of_int (d mod Hour) / 3600000000000)"
    by linarith
  then have "25 \<le> Duration_Hours d"
    using d by (simp add: Duration_Hours_def Let_def quot_rem_nonneg round64_ge_25)
  then show ?thesis
    by (simp add: whole_hours_def trunc_def le_floor_iff)
qed

lemma whole_hours_nonpos:
  assumes "d < 0"
  shows "whole_hours d \<le> 0"
proof -
  have pos: "0 < Hour" by (simp add: Hour_def)
  have "0 \<le> (- d) mod Hour" using pos by simp
  then have "round64 (of_int (- ((- d) mod Hour)) / 3600000000000) \<le> 0"
    by (intro round64_nonpos) simp
  moreover have "0 \<le> (- d) div Hour"
    using assms pos by (simp add: pos_imp_zdiv_nonneg_iff)
  ultimately have "real_of_int (- ((- d) div Hour))
      + round64 (of_int (- ((- d) mod Hour)) / 3600000000000) \<le> 0"
    by simp
  then have "Duration_Hours d \<le> 0"
    using assms by (simp add: Duration_Hours_def Let_def quot_rem_neg round64_nonpos)
  then show ?thesis
    by (simp add: whole_hours_def trunc_def ceiling_le_iff floor_le_iff)
qed

lemma whole_hours_valid_iff:
  "(1 \<le> whole_hours d \<and> whole_hours d \<le> 24) = (Hour \<le> d \<and> d < 25 * Hour)"
proof (cases "d < 0")
  case True
  from whole_hours_nonpos [OF True] True show ?thesis by (simp add: Hour_def)
next
  case False
  then have d: "0 \<le> d" by simp
  show ?thesis
  proof (cases "d < 25 * Hour")
    case True
    have "(1 \<le> d div Hour) = (Hour \<le> d)"
      using pos_imp_zdiv_pos_iff [of Hour d] by (simp add: Hour_def) linarith
    moreover have "d div Hour \<le> 24" using True d by (simp add: Hour_def)
    ultimately show ?thesis using True by (simp add: whole_hours_small [OF d True])
  next
    case False
    then have "25 \<le> whole_hours d" by (intro whole_hours_large) simp
    with False show ?thesis by simp
  qed
qed

lemma fraction_bounds_neg:
  assumes "0 \<le> n" and "n < Hour"
  shows "- 1 \<le> round64 (of_int (- n) / 3600000000000)"
    and "round64 (of_int (- n) / 3600000000000) \<le> 0"
proof -
  let ?x = "real_of_int (- n) / 3600000000000"
  from assms have n: "0 \<le> real_of_int n" "real_of_int n \<le> 3599999999999"
    by (simp_all add: Hour_def)
  then have x: "?x \<le> 0" "- 1 < ?x" by simp_all
  then have small: "\<bar>?x\<bar> < 2 ^ 0" by simp
  have "real_of_int (- 1) / 2 ^ 0 \<le> round64 ?x"
    by (rule round64_ge_grid [OF small]) (use x in simp_all)
  then show "- 1 \<le> round64 ?x" by simp
  from x(1) show "round64 ?x \<le> 0" by (rule round64_nonpos)
qed

lemma Duration_Hours_bounded:
  assumes "minDuration \<le> d" and "d \<le> maxDuration"
  shows "- 2562048 \<le> Duration_Hours d \<and> Duration_Hours d \<le> 2562048"
proof (cases "0 \<le> d")
  case True
  have pos: "0 < Hour" by (simp add: Hour_def)
  have "d div Hour \<le> maxDuration div Hour"
    using assms(2) pos by (intro zdiv_mono1) simp_all
  also have "\<dots> = 2562047" by (simp add: maxDuration_def Hour_def)
  finally have h: "real_of_int (d div Hour) \<le> 2562047" by linarith
  have h0: "0 \<le> real_of_int (d div Hour)"
    using True pos by (simp add: pos_imp_zdiv_nonneg_iff)
  have n: "0 \<le> d mod Hour" "d mod Hour < Hour" using pos by simp_all
  note q = fraction_bounds [OF n]
  let ?y = "real_of_int (d div Hour) + round64 (of_int (d mod Hour) / 3600000000000)"
  from h h0 q have y: "0 \<le> ?y" "?y \<le> 2562048" by simp_all
  then have small: "\<bar>?y\<bar> < 2 ^ 22" by simp
  have "round64 ?y \<le> real_of_int 2562048 / 2 ^ 0"
    by (rule round64_le_grid [OF small]) (use y in simp_all)
  moreover have "0 \<le> round64 ?y" using y(1) by (rule round64_nonneg)
  ultimately show ?thesis
    using True by (simp add: Duration_Hours_def Let_def quot_rem_nonneg)
next
  case False
  then have neg: "d < 0" by simp
  have pos: "0 < Hour" by (simp add: Hour_def)
  have "(- d) div Hour \<le> 2 ^ 63 div Hour"
    using assms(1) pos by (intro zdiv_mono1) (simp_all add: minDuration_def)
  also have "\<dots> = 2562047" by (simp add: Hour_def)
  finally have h: "real_of_int ((- d) div Hour) \<le> 2562047" by linarith
  have h0: "0 \<le> real_of_int ((- d) div Hour)"
    using neg pos by (simp add: pos_imp_zdiv_nonneg_iff)
  have n: "0 \<le> (- d) mod Hour" "(- d) mod Hour < Hour" using pos by simp_all
  note q = fraction_bounds_neg [OF n]
  let ?y = "real_of_int (- ((- d) div Hour))
              + round64 (of_int (- ((- d) mod Hour)) / 3600000000000)"
  from h h0 q have y: "?y \<le> 0" "- 2562048 \<le> ?y" by simp_all
  then have small: "\<bar>?y\<bar> < 2 ^ 22" by simp
  have "real_of_int (- 2562048) / 2 ^ 0 \<le> round64 ?y"
    by (rule round64_ge_grid [OF small]) (use y in simp_all)
  moreover have "round64 ?y \<le> 0" using y(1) by (rule round64_nonpos)
  ultimately show ?thesis
    using neg by (simp add: Duration_Hours_def Let_def quot_rem_neg)
qed

lemma whole_hours_in_range:
  assumes "minDuration \<le> d" and "d \<le> maxDuration"
  shows "- (2 ^ 63) \<le> whole_hours d \<and> whole_hours d < 2 ^ 63"
proof -
  from Duration_Hours_bounded [OF assms]
  have "- 2562048 \<le> whole_hours d \<and> whole_hours d \<le> 2562048"
    by (simp add: whole_hours_def trunc_def le_floor_iff floor_le_iff le_ceiling_iff ceiling_le_iff)
  then show ?thesis by simp
qed

lemma whole_hours_quot:
  "1 \<le> quot d Hour \<and> quot d Hour \<le> 24 \<Longrightarrow> whole_hours d = quot d Hour"
proof -
  assume q: "1 \<le> quot d Hour \<and> quot d Hour \<le> 24"
  have d: "0 \<le> d"
  proof (rule ccontr)
    assume "\<not> 0 \<le> d"
    then have "quot d Hour \<le> 0"
      by (simp add: quot_def Hour_def pos_imp_zdiv_nonneg_iff)
    with q show False by simp
  qed
  then have e: "quot d Hour = d div Hour" by (simp add: quot_rem_nonneg)
  have "d div Hour \<le> 24" using q e by simp
  then have "d < 25 * Hour"
    using div_mult_mod_eq [of d Hour] pos_mod_bound [of Hour d] by (simp add: Hour_def)
  with d e show ?thesis by (simp add: whole_hours_small)
qed

lemma whole_hours_valid_quot:
  "(1 \<le> whole_hours d \<and> whole_hours d \<le> 24) = (1 \<le> quot d Hour \<and> quot d Hour \<le> 24)"
proof (cases "0 \<le> d \<and> d < 25 * Hour")
  case True
  then show ?thesis by (simp add: whole_hours_small quot_rem_nonneg)
next
  case False
  then have "\<not> (Hour \<le> d \<and> d < 25 * Hour)" by (auto simp: Hour_def)
  then have w: "\<not> (1 \<le> whole_hours d \<and> whole_hours d \<le> 24)"
    by (simp add: whole_hours_valid_iff)
  have "\<not> (1 \<le> quot d Hour \<and> quot d Hour \<le> 24)"
  proof
    assume q: "1 \<le> quot d Hour \<and> quot d Hour \<le> 24"
    from whole_hours_quot [OF q] q w show False by simp
  qed
  with w show ?thesis by blast
qed

section \<open>Parameter validation\<close>

text \<open>
  C5. \<^verbatim>\<open>GetIntensityForDayAndSettlementPeriod\<close>: a settlement period below 1 or above 48
  is refused with the invalid-settlement-period error and the transport is never asked;
  a period from 1 to 48 passes the check: exactly one request is issued, for the path of
  the date and the period, and whatever error the call then returns is not a validation
  error.
\<close>

theorem settlement_period_validated:
  "(p < 1 \<or> 48 < p \<longrightarrow>
      GetIntensityForDayAndSettlementPeriod E ah date p = ([], Error (InvalidSettlementPeriod p)))
   \<and> (1 \<le> p \<and> p \<le> 48 \<longrightarrow>
      fst (GetIntensityForDayAndSettlementPeriod E ah date p)
        = [serverAddress ah @ ''/intensity/date/'' @ date_path E date @ ''/'' @ fmt_d 0 p]
      \<and> (\<forall>e. snd (GetIntensityForDayAndSettlementPeriod E ah date p) = Error e
             \<longrightarrow> \<not> validation_error e))"
proof (intro conjI impI allI)
  assume "p < 1 \<or> 48 < p"
  then show "GetIntensityForDayAndSettlementPeriod E ah date p
               = ([], Error (InvalidSettlementPeriod p))"
    by (simp add: GetIntensityForDayAndSettlementPeriod_def)
next
  assume ok: "1 \<le> p \<and> p \<le> 48"
  then show "fst (GetIntensityForDayAndSettlementPeriod E ah date p)
        = [serverAddress ah @ ''/intensity/date/'' @ date_path E date @ ''/'' @ fmt_d 0 p]"
    by (simp add: GetIntensityForDayAndSettlementPeriod_def getAPIResponse_eq split: sum.splits)
next
  fix e
  assume ok: "1 \<le> p \<and> p \<le> 48"
    and err: "snd (GetIntensityForDayAndSettlementPeriod E ah date p) = Error e"
  from ok err show "\<not> validation_error e"
    by (auto simp: GetIntensityForDayAndSettlementPeriod_def getAPIResponse_eq
        split: sum.splits dest!: single_entry_Error dest: intensity_Unmarshal_Error)
qed

theorem settlement_period_validated_witness:
  "GetIntensityForDayAndSettlementPeriod (stub_env [] [] []) stub_handler 0 0
     = ([], Error (InvalidSettlementPeriod 0))
   \<and> GetIntensityForDayAndSettlementPeriod (stub_env [] [] []) stub_handler 0 49
     = ([], Error (InvalidSettlementPeriod 49))
   \<and> fst (GetIntensityForDayAndSettlementPeriod (stub_env [] [] []) stub_handler 0 48)
     = [''http://stub/intensity/date/2018-01-20/48'']"
  using settlement_period_validated [of 0 "stub_env [] [] []" stub_handler 0]
    settlement_period_validated [of 49 "stub_env [] [] []" stub_handler 0]
    settlement_period_validated [of 48 "stub_env [] [] []" stub_handler 0]
  by (simp add: stub_env_def stub_handler_def date_path_def fmt_d_def itoa_nat.simps digit_def)



lemma whole_hours_sides:
  "(24 < quot d Hour \<longrightarrow> 24 < whole_hours d) \<and> (quot d Hour < 1 \<longrightarrow> whole_hours d < 1)"
proof (cases "0 \<le> d")
  case True
  then have q: "quot d Hour = d div Hour" by (simp add: quot_rem_nonneg)
  show ?thesis
  proof (cases "d < 25 * Hour")
    case True
    with \<open>0 \<le> d\<close> q show ?thesis by (simp add: whole_hours_small)
  next
    case False
    then have "25 \<le> whole_hours d" by (intro whole_hours_large) simp
    moreover from False have "25 \<le> d div Hour"
      using zdiv_mono1 [of "25 * Hour" d Hour] by (simp add: Hour_def)
    ultimately show ?thesis using q by simp
  qed
next
  case False
  then have neg: "d < 0" by simp
  then have "quot d Hour \<le> 0"
    by (simp add: quot_def Hour_def pos_imp_zdiv_nonneg_iff)
  with whole_hours_nonpos [OF neg] show ?thesis by simp
qed

text \<open>
  C6 (as amended). \<^verbatim>\<open>GetStatisticsInBlocks\<close> takes the hours of the block size as
  \<^verbatim>\<open>int(blockSize.Hours())\<close>. For a block size from 0 up to, not including, 25h this is
  the truncation to whole hours: 3h59m gives 3 and 59m gives 0. The hours lie between 1
  and 24 exactly when the truncation does, that is for the block sizes from 1h up to, not
  including, 25h; a block size that truncates to more than 24 hours has hours above 24,
  and one that truncates to less than 1 has hours below 1. A block size whose hours are
  below 1 or above 24 always ends the call with a validation error and without a request.
  The range is checked first: when it passes, that error is the invalid-block-size error;
  when it fails, the call ends with the error of the range whatever the block size. A
  block size of 1 to 24 hours with a range that passes is accepted: the request is issued
  with the hours in its path.
\<close>

theorem block_size_validated:
  "whole_hours (3 * Hour + 59 * Minute) = 3
   \<and> whole_hours (59 * Minute) = 0
   \<and> (0 \<le> blockSize \<and> blockSize < 25 * Hour \<longrightarrow> whole_hours blockSize = quot blockSize Hour)
   \<and> ((1 \<le> whole_hours blockSize \<and> whole_hours blockSize \<le> 24)
        = (1 \<le> quot blockSize Hour \<and> quot blockSize Hour \<le> 24))
   \<and> ((1 \<le> whole_hours blockSize \<and> whole_hours blockSize \<le> 24)
        = (Hour \<le> blockSize \<and> blockSize < 25 * Hour))
   \<and> (24 < quot blockSize Hour \<longrightarrow> 24 < whole_hours blockSize)
   \<and> (quot blockSize Hour < 1 \<longrightarrow> whole_hours blockSize < 1)
   \<and> (whole_hours blockSize < 1 \<or> 24 < whole_hours blockSize \<longrightarrow>
        fst (GetStatisticsInBlocks E ah t_from t_to blockSize) = []
        \<and> (\<exists>e. snd (GetStatisticsInBlocks E ah t_from t_to blockSize) = Error e
                \<and> validation_error e))
   \<and> (t_from < t_to \<and> t_to - t_from \<le> Hour * 24 * 30 \<longrightarrow>
        (whole_hours blockSize < 1 \<or> 24 < whole_hours blockSize \<longrightarrow>
           GetStatisticsInBlocks E ah t_from t_to blockSize
             = ([], Error (InvalidBlocksize blockSize)))
        \<and> (1 \<le> whole_hours blockSize \<and> whole_hours blockSize \<le> 24 \<longrightarrow>
           fst (GetStatisticsInBlocks E ah t_from t_to blockSize)
             = [serverAddress ah @ ''/intensity/stats/'' @ time_Format E t_from @ ''/''
                  @ time_Format E t_to @ ''/'' @ fmt_d 0 (whole_hours blockSize)]
           \<and> (\<forall>e. snd (GetStatisticsInBlocks E ah t_from t_to blockSize) = Error e
                  \<longrightarrow> \<not> validation_error e)))
   \<and> (\<not> t_from < t_to \<longrightarrow>
        GetStatisticsInBlocks E ah t_from t_to blockSize
          = ([], Error (NotStrictlyEarlier t_from t_to)))
   \<and> (t_from < t_to \<and> Hour * 24 * 30 < t_to - t_from \<longrightarrow>
        GetStatisticsInBlocks E ah t_from t_to blockSize
          = ([], Error (RangeTooLarge t_from t_to)))"
proof (intro conjI impI allI)
  show "whole_hours (3 * Hour + 59 * Minute) = 3"
    by (simp add: whole_hours_small Hour_def Minute_def)
  show "whole_hours (59 * Minute) = 0"
    by (simp add: whole_hours_small Hour_def Minute_def)
  show "(1 \<le> whole_hours blockSize \<and> whole_hours blockSize \<le> 24)
        = (1 \<le> quot blockSize Hour \<and> quot blockSize Hour \<le> 24)"
    by (rule whole_hours_valid_quot)
  show "(1 \<le> whole_hours blockSize \<and> whole_hours blockSize \<le> 24)
        = (Hour \<le> blockSize \<and> blockSize < 25 * Hour)"
    by (rule whole_hours_valid_iff)
next
  assume "0 \<le> blockSize \<and> blockSize < 25 * Hour"
  then show "whole_hours blockSize = quot blockSize Hour"
    by (simp add: whole_hours_small quot_rem_nonneg)
next
  assume "24 < quot blockSize Hour"
  then show "24 < whole_hours blockSize"
    using whole_hours_sides [of blockSize] by simp
next
  assume "quot blockSize Hour < 1"
  then show "whole_hours blockSize < 1"
    using whole_hours_sides [of blockSize] by simp
next
  assume bad: "whole_hours blockSize < 1 \<or> 24 < whole_hours blockSize"
  then show "fst (GetStatisticsInBlocks E ah t_from t_to blockSize) = []"
    by (simp add: GetStatisticsInBlocks_def)
  from bad show "\<exists>e. snd (GetStatisticsInBlocks E ah t_from t_to blockSize) = Error e
                \<and> validation_error e"
    by (auto simp: GetStatisticsInBlocks_def)
next
  assume ok: "t_from < t_to \<and> t_to - t_from \<le> Hour * 24 * 30"
    and bad: "whole_hours blockSize < 1 \<or> 24 < whole_hours blockSize"
  from ok have pass: "time_Before t_from t_to" "\<not> Hour * 24 * 30 < time_Sub t_to t_from"
    unfolding time_Sub_too_large time_Before_def by simp_all
  with bad show "GetStatisticsInBlocks E ah t_from t_to blockSize
             = ([], Error (InvalidBlocksize blockSize))"
    by (simp add: GetStatisticsInBlocks_def)
next
  assume ok: "t_from < t_to \<and> t_to - t_from \<le> Hour * 24 * 30"
    and good: "1 \<le> whole_hours blockSize \<and> whole_hours blockSize \<le> 24"
  from ok have pass: "time_Before t_from t_to" "\<not> Hour * 24 * 30 < time_Sub t_to t_from"
    unfolding time_Sub_too_large time_Before_def by simp_all
  with good show "fst (GetStatisticsInBlocks E ah t_from t_to blockSize)
             = [serverAddress ah @ ''/intensity/stats/'' @ time_Format E t_from @ ''/''
                  @ time_Format E t_to @ ''/'' @ fmt_d 0 (whole_hours blockSize)]"
    by (simp add: GetStatisticsInBlocks_def getAPIResponse_eq split: sum.splits)
next
  fix e
  assume ok: "t_from < t_to \<and> t_to - t_from \<le> Hour * 24 * 30"
    and good: "1 \<le> whole_hours blockSize \<and> whole_hours blockSize \<le> 24"
    and err: "snd (GetStatisticsInBlocks E ah t_from t_to blockSize) = Error e"
  from ok have pass: "time_Before t_from t_to" "\<not> Hour * 24 * 30 < time_Sub t_to t_from"
    unfolding time_Sub_too_large time_Before_def by simp_all
  with good err show "\<not> validation_error e"
    by (auto simp: GetStatisticsInBlocks_def getAPIResponse_eq split: sum.splits
        dest: statistics_Unmarshal_Error)
next
  assume "\<not> t_from < t_to"
  then show "GetStatisticsInBlocks E ah t_from t_to blockSize
          = ([], Error (NotStrictlyEarlier t_from t_to))"
    by (simp add: GetStatisticsInBlocks_def time_Before_def)
next
  assume "t_from < t_to \<and> Hour * 24 * 30 < t_to - t_from"
  then have "time_Before t_from t_to" and "Hour * 24 * 30 < time_Sub t_to t_from"
    unfolding time_Sub_too_large time_Before_def by blast+
  then show "GetStatisticsInBlocks E ah t_from t_to blockSize
          = ([], Error (RangeTooLarge t_from t_to))"
    by (simp add: GetStatisticsInBlocks_def)
qed

theorem block_size_validated_witness:
  "GetStatisticsInBlocks (stub_env [] [] []) stub_handler 0 (Hour * 24 * 7) (59 * Minute)
     = ([], Error (InvalidBlocksize (59 * Minute)))
   \<and> GetStatisticsInBlocks (stub_env [] [] []) stub_handler 0 (Hour * 24 * 7) (25 * Hour)
     = ([], Error (InvalidBlocksize (25 * Hour)))
   \<and> fst (GetStatisticsInBlocks (stub_env [] [] []) stub_handler 0 (Hour * 24 * 7)
            (3 * Hour + 59 * Minute))
     = [''http://stub/intensity/stats/T0/T604800000000000/3'']
   \<and> GetStatisticsInBlocks (stub_env [] [] []) stub_handler 0 (Hour * 24 * 31) (59 * Minute)
     = ([], Error (RangeTooLarge 0 (Hour * 24 * 31)))"
proof -
  have hours: "whole_hours 3540000000000 = 0" "whole_hours 14340000000000 = 3"
    by (simp_all add: whole_hours_small Hour_def)
  have long: "24 < whole_hours 90000000000000"
    using whole_hours_large [of 90000000000000] by (simp add: Hour_def)
  have fmt: "fmt_d 0 0 = ''0''" "fmt_d 0 3 = ''3''"
    "fmt_d 0 604800000000000 = ''604800000000000''"
    by (simp_all add: fmt_d_def itoa_nat.simps digit_def)
  show ?thesis
    using block_size_validated [of "59 * Minute" "stub_env [] [] []" stub_handler 0 "Hour * 24 * 7"]
      block_size_validated [of "25 * Hour" "stub_env [] [] []" stub_handler 0 "Hour * 24 * 7"]
      block_size_validated [of "3 * Hour + 59 * Minute" "stub_env [] [] []" stub_handler 0
        "Hour * 24 * 7"]
      block_size_validated [of "59 * Minute" "stub_env [] [] []" stub_handler 0 "Hour * 24 * 31"]
    by (simp add: hours long fmt stub_handler_def stub_env_sel Hour_def Minute_def)
qed

text \<open>
  The claim as stated fails in two ways. A block size of 59m, whose hours are 0, passed
  with a range whose \<open>from\<close> is not earlier than its \<open>to\<close> fails with the error of the
  range, not with the invalid-block-size error. And the hours are not always the
  truncation: a block size one nanosecond short of 4097h truncates to 4096 whole hours,
  but the sum in \<^verbatim>\<open>Hours\<close> rounds up to 4097.
\<close>

theorem block_size_validated_counterexample:
  "whole_hours (59 * Minute) = 0
   \<and> GetStatisticsInBlocks (stub_env [] [] []) stub_handler 5 5 (59 * Minute)
       = ([], Error (NotStrictlyEarlier 5 5))
   \<and> quot (4097 * Hour - 1) Hour = 4096
   \<and> whole_hours (4097 * Hour - 1) = 4097"
proof -
  have a: "whole_hours (59 * Minute) = 0"
    by (simp add: whole_hours_small Hour_def Minute_def)
  have b: "GetStatisticsInBlocks (stub_env [] [] []) stub_handler 5 5 (59 * Minute)
       = ([], Error (NotStrictlyEarlier 5 5))"
    by (simp add: GetStatisticsInBlocks_def time_Before_def)
  have c: "quot (4097 * Hour - 1) Hour = 4096"
    by (simp add: quot_def Hour_def)
  have d: "whole_hours (4097 * Hour - 1) = 4097"
    by code_simp
  from a b c d show ?thesis by simp
qed

section \<open>Endpoints that return one record\<close>

text \<open>The sample bodies decode as expected under the stub.\<close>

lemma entry_one_decodes: "intensity_entry (stub_env bs stamps ps) entry_one = Append record_one"
  by (simp add: intensity_entry_def entry_one_def index_map_def stub_env_sel stamps_def
      unmarshalInt_def go_int_def trunc_def record_one_def)

lemma body_one_decodes:
  "json_Unmarshal intensityResponse_UnmarshalJSON (stub_env [(body_one, json_one)] stamps ps) body_one
     = Value [record_one]"
proof -
  have "json_decode (stub_env [(body_one, json_one)] stamps ps) body_one = Some json_one"
    by (simp add: stub_env_sel)
  then show ?thesis
    by (simp add: json_Unmarshal_eq intensityResponse_UnmarshalJSON_def UnmarshalJSON_def
        json_Unmarshal_map_eq json_one_def index_map_def entry_one_decodes)
qed

lemma body_none_decodes:
  "json_Unmarshal intensityResponse_UnmarshalJSON (stub_env [(body_none, json_none)] stamps ps) body_none
     = Value []"
  "json_Unmarshal statisticsResponse_UnmarshalJSON (stub_env [(body_none, json_none)] stamps ps) body_none
     = Value []"
  by (simp_all add: json_Unmarshal_eq intensityResponse_UnmarshalJSON_def UnmarshalJSON_def
        statisticsResponse_UnmarshalJSON_def json_Unmarshal_map_eq json_none_def index_map_def stub_env_sel)

text \<open>
  C9. The operations that return one record (\<^verbatim>\<open>GetIntensityForTimePeriod\<close>,
  \<^verbatim>\<open>GetCurrentIntensity\<close>, \<^verbatim>\<open>GetIntensityForDayAndSettlementPeriod\<close>, \<^verbatim>\<open>GetStatistics\<close>):
  once the transport has served a body and the decode has returned its list of entries,
  the operation returns the entry when the list has exactly one, and fails with the
  unexpected-number-of-entries error, which carries the body, for any other length.
\<close>

theorem singleton_endpoints:
  "(http_Get E (serverAddress ah @ ''/intensity/'' @ time_Format E t) = Inr body
      \<and> json_Unmarshal intensityResponse_UnmarshalJSON E body = Value es \<longrightarrow>
      snd (GetIntensityForTimePeriod E ah t)
        = (if length es = 1 then Value (hd es) else Error (UnexpectedEntries body)))
   \<and> (http_Get E (serverAddress ah @ ''/intensity'') = Inr body
      \<and> json_Unmarshal intensityResponse_UnmarshalJSON E body = Value es \<longrightarrow>
      snd (GetCurrentIntensity E ah)
        = (if length es = 1 then Value (hd es) else Error (UnexpectedEntries body)))
   \<and> (1 \<le> p \<and> p \<le> 48
      \<and> http_Get E (serverAddress ah @ ''/intensity/date/'' @ date_path E date @ ''/'' @ fmt_d 0 p)
          = Inr body
      \<and> json_Unmarshal intensityResponse_UnmarshalJSON E body = Value es \<longrightarrow>
      snd (GetIntensityForDayAndSettlementPeriod E ah date p)
        = (if length es = 1 then Value (hd es) else Error (UnexpectedEntries body)))
   \<and> (t_from < t_to \<and> t_to - t_from \<le> Hour * 24 * 30
      \<and> http_Get E (serverAddress ah @ ''/intensity/stats/'' @ time_Format E t_from @ ''/''
                      @ time_Format E t_to) = Inr body
      \<and> json_Unmarshal statisticsResponse_UnmarshalJSON E body = Value ss \<longrightarrow>
      snd (GetStatistics E ah t_from t_to)
        = (if length ss = 1 then Value (hd ss) else Error (UnexpectedEntries body)))"
proof -
  have one: "single_entry b (Value xs)
               = (if length xs = 1 then Value (hd xs) else Error (UnexpectedEntries b))"
    for b and xs :: "'x list"
    by (cases xs) (simp_all add: single_entry_def)
  show ?thesis
  proof (intro conjI impI)
    assume "http_Get E (serverAddress ah @ ''/intensity/'' @ time_Format E t) = Inr body
      \<and> json_Unmarshal intensityResponse_UnmarshalJSON E body = Value es"
    then show "snd (GetIntensityForTimePeriod E ah t)
        = (if length es = 1 then Value (hd es) else Error (UnexpectedEntries body))"
      by (simp add: GetIntensityForTimePeriod_def getAPIResponse_eq one)
  next
    assume "http_Get E (serverAddress ah @ ''/intensity'') = Inr body
      \<and> json_Unmarshal intensityResponse_UnmarshalJSON E body = Value es"
    then show "snd (GetCurrentIntensity E ah)
        = (if length es = 1 then Value (hd es) else Error (UnexpectedEntries body))"
      by (simp add: GetCurrentIntensity_def getAPIResponse_eq one)
  next
    assume "1 \<le> p \<and> p \<le> 48
      \<and> http_Get E (serverAddress ah @ ''/intensity/date/'' @ date_path E date @ ''/'' @ fmt_d 0 p)
          = Inr body
      \<and> json_Unmarshal intensityResponse_UnmarshalJSON E body = Value es"
    then show "snd (GetIntensityForDayAndSettlementPeriod E ah date p)
        = (if length es = 1 then Value (hd es) else Error (UnexpectedEntries body))"
      by (simp add: GetIntensityForDayAndSettlementPeriod_def getAPIResponse_eq one)
  next
    assume h: "t_from < t_to \<and> t_to - t_from \<le> Hour * 24 * 30
      \<and> http_Get E (serverAddress ah @ ''/intensity/stats/'' @ time_Format E t_from @ ''/''
                      @ time_Format E t_to) = Inr body
      \<and> json_Unmarshal statisticsResponse_UnmarshalJSON E body = Value ss"
    then have pass: "time_Before t_from t_to" "\<not> Hour * 24 * 30 < time_Sub t_to t_from"
      unfolding time_Sub_too_large time_Before_def by simp_all
    from h pass show "snd (GetStatistics E ah t_from t_to)
        = (if length ss = 1 then Value (hd ss) else Error (UnexpectedEntries body))"
      by (simp add: GetStatistics_def getAPIResponse_eq one)
  qed
qed

theorem singleton_endpoints_witness:
  "snd (GetCurrentIntensity
          (stub_env [(body_one, json_one)] stamps [(''http://stub/intensity'', body_one)])
          stub_handler) = Value record_one
   \<and> snd (GetCurrentIntensity
          (stub_env [(body_none, json_none)] stamps [(''http://stub/intensity'', body_none)])
          stub_handler) = Error (UnexpectedEntries body_none)
   \<and> snd (GetIntensityForTimePeriod
          (stub_env [(body_one, json_one)] stamps [(''http://stub/intensity/T7'', body_one)])
          stub_handler 7) = Value record_one
   \<and> snd (GetIntensityForDayAndSettlementPeriod
          (stub_env [(body_one, json_one)] stamps
             [(''http://stub/intensity/date/2018-01-20/25'', body_one)])
          stub_handler 0 25) = Value record_one
   \<and> snd (GetStatistics
          (stub_env [(body_none, json_none)] stamps [(''http://stub/intensity/stats/T0/T9'', body_none)])
          stub_handler 0 9) = Error (UnexpectedEntries body_none)"
proof -
  have fmt: "fmt_d 0 0 = ''0''" "fmt_d 0 7 = ''7''" "fmt_d 0 9 = ''9''" "fmt_d 0 25 = ''25''"
    "fmt_d 4 2018 = ''2018''" "fmt_d 2 1 = ''01''" "fmt_d 2 20 = ''20''"
    by (simp_all add: fmt_d_def itoa_nat.simps digit_def)
  have pages: "http_Get (stub_env bs st [(u, b)]) u = Inr b"
    "time_Format (stub_env bs st ps) t = ''T'' @ fmt_d 0 t"
    "date_path (stub_env bs st ps) t = ''2018-01-20''"
    for bs st ps u b t
    by (simp_all add: stub_env_def date_path_def fmt)
  note inst = singleton_endpoints [where ah = stub_handler]
  have w1: "snd (GetCurrentIntensity
          (stub_env [(body_one, json_one)] stamps [(''http://stub/intensity'', body_one)])
          stub_handler) = Value record_one"
    using inst [THEN conjunct2, THEN conjunct1, of _ body_one "[record_one]"]
    by (simp add: pages body_one_decodes stub_handler_def)
  have w2: "snd (GetCurrentIntensity
          (stub_env [(body_none, json_none)] stamps [(''http://stub/intensity'', body_none)])
          stub_handler) = Error (UnexpectedEntries body_none)"
    using inst [THEN conjunct2, THEN conjunct1, of _ body_none "[]"]
    by (simp add: pages body_none_decodes stub_handler_def)
  have w3: "snd (GetIntensityForTimePeriod
          (stub_env [(body_one, json_one)] stamps [(''http://stub/intensity/T7'', body_one)])
          stub_handler 7) = Value record_one"
    using inst [THEN conjunct1, of _ _ body_one "[record_one]"]
    by (simp add: pages fmt body_one_decodes stub_handler_def)
  have w4: "snd (GetIntensityForDayAndSettlementPeriod
          (stub_env [(body_one, json_one)] stamps
             [(''http://stub/intensity/date/2018-01-20/25'', body_one)])
          stub_handler 0 25) = Value record_one"
    using inst [THEN conjunct2, THEN conjunct2, THEN conjunct1, of 25 _ _ body_one "[record_one]"]
    by (simp add: pages fmt body_one_decodes stub_handler_def)
  have w5: "snd (GetStatistics
          (stub_env [(body_none, json_none)] stamps [(''http://stub/intensity/stats/T0/T9'', body_none)])
          stub_handler 0 9) = Error (UnexpectedEntries body_none)"
    using inst [THEN conjunct2, THEN conjunct2, THEN conjunct2, of 0 9 _ body_none "[]"]
    by (simp add: pages fmt body_none_decodes stub_handler_def Hour_def)
  from w1 w2 w3 w4 w5 show ?thesis by simp
qed

section \<open>Typed bodies and entries\<close>

lemma is_objectE: "is_object v \<Longrightarrow> \<exists>m. v = JObject m"
  by (cases v) simp_all

lemma is_stringD: "is_string v \<Longrightarrow> v = JString (str_of v)"
  by (cases v) simp_all

lemma UnmarshalJSON_object:
  "json_decode E data = Some (JObject m) \<Longrightarrow>
   UnmarshalJSON body E data =
     (if index_map m ''data'' = JNull then
        (if index_map m ''error'' = JNull then Error (FailedToUnmarshalJSON data)
         else api_error (index_map m ''error''))
      else (case assert_slice (index_map m ''data'') of
              None \<Rightarrow> Panic
            | Some vs \<Rightarrow> entries_loop body vs []))"
  by (simp add: UnmarshalJSON_def json_Unmarshal_map_eq)

lemma UnmarshalJSON_not_object:
  "json_decode E data = Some j \<Longrightarrow> \<not> is_object j \<Longrightarrow> UnmarshalJSON body E data \<noteq> Panic"
  by (cases j) (simp_all add: UnmarshalJSON_def json_Unmarshal_map_eq index_map_def)

lemma api_error_typed:
  assumes "typed_error e"
  shows "api_error e = Error (APIError (str_of (field e ''code'')) (str_of (field e ''message'')))"
proof -
  from assms obtain m where e: "e = JObject m"
    unfolding typed_error_def using is_objectE by blast
  from assms e have "index_map m ''code'' = JString (str_of (index_map m ''code''))"
    and "index_map m ''message'' = JString (str_of (index_map m ''message''))"
    unfolding typed_error_def using is_stringD by auto
  then obtain c msg where "index_map m ''code'' = JString c" "index_map m ''message'' = JString msg"
    by blast
  then show ?thesis by (simp add: api_error_def e)
qed

lemma unmarshalInt_nil_or_number:
  "nil_or_number v \<Longrightarrow> unmarshalInt E v d = Some (case v of JNumber x \<Rightarrow> go_int E x | _ \<Rightarrow> d)"
  by (cases v) (simp_all add: unmarshalInt_def)

lemma typed_entry_fields:
  assumes "typed_entry nums v"
  shows "\<exists>d i ts fs ix. v = JObject d
    \<and> index_map d ''to'' = JString ts
    \<and> index_map d ''from'' = JString fs
    \<and> index_map d ''intensity'' = JObject i
    \<and> index_map i ''index'' = JString ix
    \<and> (\<forall>k \<in> set nums. nil_or_number (index_map i k))"
proof -
  from assms have o: "is_object v" by (simp add: typed_entry_def)
  then obtain d where v: "v = JObject d" using is_objectE by blast
  from assms have "is_object (field v ''intensity'')" by (simp add: typed_entry_def)
  then obtain i where i: "index_map d ''intensity'' = JObject i"
    using is_objectE v by auto
  from assms have "is_string (field v ''to'')" by (simp add: typed_entry_def)
  then obtain ts where ts: "index_map d ''to'' = JString ts"
    using is_stringD [of "index_map d ''to''"] v by auto
  from assms have "is_string (field v ''from'')" by (simp add: typed_entry_def)
  then obtain fs where fs: "index_map d ''from'' = JString fs"
    using is_stringD [of "index_map d ''from''"] v by auto
  from assms have "is_string (field (field v ''intensity'') ''index'')"
    by (simp add: typed_entry_def)
  then obtain ix where ix: "index_map i ''index'' = JString ix"
    using is_stringD [of "index_map i ''index''"] v i by auto
  from assms have "\<forall>k \<in> set nums. nil_or_number (field (field v ''intensity'') k)"
    by (simp add: typed_entry_def list_all_iff)
  then have "\<forall>k \<in> set nums. nil_or_number (index_map i k)"
    by (simp add: v i)
  with v i ts fs ix show ?thesis by blast
qed

lemma intensity_entry_typed:
  assumes "typed_entry intensity_nums v"
  shows "intensity_entry E v =
     (case time_Parse E (str_of (field v ''to'')) of
        None \<Rightarrow> ReturnNil
      | Some toTime \<Rightarrow>
          (case time_Parse E (str_of (field v ''from'')) of
             None \<Rightarrow> ReturnNil
           | Some fromTime \<Rightarrow>
               Append \<lparr>From = fromTime, To = toTime,
                 Forecast = (case field (field v ''intensity'') ''forecast'' of
                               JNumber x \<Rightarrow> go_int E x | _ \<Rightarrow> - 1),
                 Actual = (case field (field v ''intensity'') ''actual'' of
                             JNumber x \<Rightarrow> go_int E x | _ \<Rightarrow> - 1),
                 Index = str_of (field (field v ''intensity'') ''index'')\<rparr>))"
proof -
  obtain d i ts fs ix where f: "v = JObject d"
    "index_map d ''to'' = JString ts"
    "index_map d ''from'' = JString fs"
    "index_map d ''intensity'' = JObject i"
    "index_map i ''index'' = JString ix"
    and n: "\<forall>k \<in> set intensity_nums. nil_or_number (index_map i k)"
    using typed_entry_fields [OF assms] by blast
  from n have "nil_or_number (index_map i ''forecast'')" "nil_or_number (index_map i ''actual'')"
    by (simp_all add: intensity_nums_def)
  then show ?thesis
    by (simp add: intensity_entry_def f unmarshalInt_nil_or_number split: option.splits)
qed

lemma statistics_entry_typed:
  assumes "typed_entry statistics_nums v"
  shows "statistics_entry E v =
     (case time_Parse E (str_of (field v ''to'')) of
        None \<Rightarrow> ReturnNil
      | Some toTime \<Rightarrow>
          (case time_Parse E (str_of (field v ''from'')) of
             None \<Rightarrow> ReturnNil
           | Some fromTime \<Rightarrow>
               Append \<lparr>From_s = fromTime, To_s = toTime,
                 Max_s = (case field (field v ''intensity'') ''max'' of
                               JNumber x \<Rightarrow> go_int E x | _ \<Rightarrow> - 1),
                 Average_s = (case field (field v ''intensity'') ''average'' of
                             JNumber x \<Rightarrow> go_int E x | _ \<Rightarrow> - 1),
                 Min_s = (case field (field v ''intensity'') ''min'' of
                             JNumber x \<Rightarrow> go_int E x | _ \<Rightarrow> - 1),
                 Index_s = str_of (field (field v ''intensity'') ''index'')\<rparr>))"
proof -
  obtain d i ts fs ix where f: "v = JObject d"
    "index_map d ''to'' = JString ts"
    "index_map d ''from'' = JString fs"
    "index_map d ''intensity'' = JObject i"
    "index_map i ''index'' = JString ix"
    and n: "\<forall>k \<in> set statistics_nums. nil_or_number (index_map i k)"
    using typed_entry_fields [OF assms] by blast
  from n have "nil_or_number (index_map i ''max'')" "nil_or_number (index_map i ''average'')"
    "nil_or_number (index_map i ''min'')"
    by (simp_all add: statistics_nums_def)
  then show ?thesis
    by (simp add: statistics_entry_def f unmarshalInt_nil_or_number split: option.splits)
qed

section \<open>The loop over the entries\<close>

lemma entries_loop_Append:
  "\<forall>v \<in> set vs. \<exists>e. body v = Append e \<Longrightarrow>
   \<exists>es. entries_loop body vs acc = Value (acc @ es) \<and> length es = length vs
        \<and> (\<forall>i < length vs. body (vs ! i) = Append (es ! i))"
proof (induction vs arbitrary: acc)
  case Nil
  then show ?case by simp
next
  case (Cons v vs)
  then obtain e where e: "body v = Append e" by auto
  from Cons.prems have "\<forall>v \<in> set vs. \<exists>e. body v = Append e" by simp
  from Cons.IH [OF this, of "acc @ [e]"] obtain es where
    es: "entries_loop body vs (acc @ [e]) = Value ((acc @ [e]) @ es)" "length es = length vs"
      "\<forall>i < length vs. body (vs ! i) = Append (es ! i)"
    by blast
  have "\<forall>i < length (v # vs). body ((v # vs) ! i) = Append ((e # es) ! i)"
    using e es(3) by (auto simp: nth_Cons split: nat.splits)
  with e es(1,2) show ?case
    by (intro exI [of _ "e # es"]) simp
qed

lemma well_formed_intensity_entry:
  assumes "well_formed_entry E intensity_nums v"
  shows "\<exists>r. intensity_entry E v = Append r
    \<and> time_Parse E (str_of (field v ''from'')) = Some (From r)
    \<and> time_Parse E (str_of (field v ''to'')) = Some (To r)
    \<and> Forecast r = (case field (field v ''intensity'') ''forecast'' of
                       JNumber x \<Rightarrow> go_int E x | _ \<Rightarrow> - 1)
    \<and> Actual r = (case field (field v ''intensity'') ''actual'' of
                     JNumber x \<Rightarrow> go_int E x | _ \<Rightarrow> - 1)
    \<and> Index r = str_of (field (field v ''intensity'') ''index'')"
proof -
  from assms have t: "typed_entry intensity_nums v"
    and "time_Parse E (str_of (field v ''to'')) \<noteq> None"
    and "time_Parse E (str_of (field v ''from'')) \<noteq> None"
    by (simp_all add: well_formed_entry_def)
  then obtain toTime fromTime where
    p: "time_Parse E (str_of (field v ''to'')) = Some toTime"
       "time_Parse E (str_of (field v ''from'')) = Some fromTime"
    by auto
  show ?thesis
    unfolding intensity_entry_typed [OF t] by (simp add: p)
qed

lemma well_formed_statistics_entry:
  assumes "well_formed_entry E statistics_nums v"
  shows "\<exists>r. statistics_entry E v = Append r
    \<and> time_Parse E (str_of (field v ''from'')) = Some (From_s r)
    \<and> time_Parse E (str_of (field v ''to'')) = Some (To_s r)
    \<and> Max_s r = (case field (field v ''intensity'') ''max'' of
                    JNumber x \<Rightarrow> go_int E x | _ \<Rightarrow> - 1)
    \<and> Average_s r = (case field (field v ''intensity'') ''average'' of
                        JNumber x \<Rightarrow> go_int E x | _ \<Rightarrow> - 1)
    \<and> Min_s r = (case field (field v ''intensity'') ''min'' of
                    JNumber x \<Rightarrow> go_int E x | _ \<Rightarrow> - 1)
    \<and> Index_s r = str_of (field (field v ''intensity'') ''index'')"
proof -
  from assms have t: "typed_entry statistics_nums v"
    and "time_Parse E (str_of (field v ''to'')) \<noteq> None"
    and "time_Parse E (str_of (field v ''from'')) \<noteq> None"
    by (simp_all add: well_formed_entry_def)
  then obtain toTime fromTime where
    p: "time_Parse E (str_of (field v ''to'')) = Some toTime"
       "time_Parse E (str_of (field v ''from'')) = Some fromTime"
    by auto
  show ?thesis
    unfolding statistics_entry_typed [OF t] by (simp add: p)
qed

lemma json_Unmarshal_data_array:
  assumes "json_decode E data = Some (JObject m)" and "index_map m ''data'' = JArray vs"
  shows "json_Unmarshal intensityResponse_UnmarshalJSON E data
           = entries_loop (intensity_entry E) vs []"
    and "json_Unmarshal statisticsResponse_UnmarshalJSON E data
           = entries_loop (statistics_entry E) vs []"
  using assms
  by (simp_all add: json_Unmarshal_eq intensityResponse_UnmarshalJSON_def
      statisticsResponse_UnmarshalJSON_def UnmarshalJSON_object)

section \<open>Length and order of the decoded entries\<close>

lemma sample_entries_well_formed:
  "well_formed_entry (stub_env bs stamps ps) intensity_nums entry_one"
  "well_formed_entry (stub_env bs stamps ps) intensity_nums entry_two"
  "well_formed_entry (stub_env bs stamps ps) statistics_nums entry_stats"
  by (simp_all add: well_formed_entry_def typed_entry_def intensity_nums_def statistics_nums_def
      entry_one_def entry_two_def entry_stats_def index_map_def stub_env_sel stamps_def)

lemma entry_two_decodes: "intensity_entry (stub_env bs stamps ps) entry_two = Append record_two"
  by (simp add: intensity_entry_def entry_two_def index_map_def stub_env_sel stamps_def
      unmarshalInt_def go_int_def trunc_def record_two_def)

lemma entry_stats_decodes: "statistics_entry (stub_env bs stamps ps) entry_stats = Append record_stats"
  by (simp add: statistics_entry_def entry_stats_def index_map_def stub_env_sel stamps_def
      unmarshalInt_def go_int_def trunc_def record_stats_def)

text \<open>
  C10 (as amended). For a success envelope whose \<^verbatim>\<open>"data"\<close> entries are all well formed
  (string timestamps that parse, an \<^verbatim>\<open>"intensity"\<close> object with a string \<^verbatim>\<open>"index"\<close>, and
  numeric fields that each hold a number, hold null or are missing), the decode returns a
  list of the same length as the array and in its order: record \<open>i\<close> is the one the loop
  builds from entry \<open>i\<close>, with the parsed timestamps and the index of that entry. This
  holds for the intensity and for the statistics response.
\<close>

theorem entries_in_order:
  "(json_decode E data = Some (JObject m) \<and> index_map m ''data'' = JArray vs
      \<and> (\<forall>v \<in> set vs. well_formed_entry E intensity_nums v) \<longrightarrow>
      (\<exists>es. json_Unmarshal intensityResponse_UnmarshalJSON E data = Value es
         \<and> length es = length vs
         \<and> (\<forall>i < length vs.
               intensity_entry E (vs ! i) = Append (es ! i)
               \<and> time_Parse E (str_of (field (vs ! i) ''from'')) = Some (From (es ! i))
               \<and> time_Parse E (str_of (field (vs ! i) ''to'')) = Some (To (es ! i))
               \<and> Index (es ! i) = str_of (field (field (vs ! i) ''intensity'') ''index''))))
   \<and> (json_decode E data = Some (JObject m) \<and> index_map m ''data'' = JArray vs
      \<and> (\<forall>v \<in> set vs. well_formed_entry E statistics_nums v) \<longrightarrow>
      (\<exists>ss. json_Unmarshal statisticsResponse_UnmarshalJSON E data = Value ss
         \<and> length ss = length vs
         \<and> (\<forall>i < length vs.
               statistics_entry E (vs ! i) = Append (ss ! i)
               \<and> time_Parse E (str_of (field (vs ! i) ''from'')) = Some (From_s (ss ! i))
               \<and> time_Parse E (str_of (field (vs ! i) ''to'')) = Some (To_s (ss ! i))
               \<and> Index_s (ss ! i) = str_of (field (field (vs ! i) ''intensity'') ''index''))))"
proof (intro conjI impI)
  assume h: "json_decode E data = Some (JObject m) \<and> index_map m ''data'' = JArray vs
      \<and> (\<forall>v \<in> set vs. well_formed_entry E intensity_nums v)"
  then have "\<forall>v \<in> set vs. \<exists>e. intensity_entry E v = Append e"
    using well_formed_intensity_entry by blast
  from entries_loop_Append [OF this, of "[]"] obtain es where
    es: "entries_loop (intensity_entry E) vs [] = Value es" "length es = length vs"
      "\<forall>i < length vs. intensity_entry E (vs ! i) = Append (es ! i)"
    by auto
  have "time_Parse E (str_of (field (vs ! i) ''from'')) = Some (From (es ! i))
      \<and> time_Parse E (str_of (field (vs ! i) ''to'')) = Some (To (es ! i))
      \<and> Index (es ! i) = str_of (field (field (vs ! i) ''intensity'') ''index'')"
    if "i < length vs" for i
  proof -
    from that h have "well_formed_entry E intensity_nums (vs ! i)" by simp
    from well_formed_intensity_entry [OF this] es(3) that show ?thesis by auto
  qed
  with es h show "\<exists>es. json_Unmarshal intensityResponse_UnmarshalJSON E data = Value es
         \<and> length es = length vs
         \<and> (\<forall>i < length vs.
               intensity_entry E (vs ! i) = Append (es ! i)
               \<and> time_Parse E (str_of (field (vs ! i) ''from'')) = Some (From (es ! i))
               \<and> time_Parse E (str_of (field (vs ! i) ''to'')) = Some (To (es ! i))
               \<and> Index (es ! i) = str_of (field (field (vs ! i) ''intensity'') ''index''))"
    by (intro exI [of _ es]) (simp add: json_Unmarshal_data_array)
next
  assume h: "json_decode E data = Some (JObject m) \<and> index_map m ''data'' = JArray vs
      \<and> (\<forall>v \<in> set vs. well_formed_entry E statistics_nums v)"
  then have "\<forall>v \<in> set vs. \<exists>e. statistics_entry E v = Append e"
    using well_formed_statistics_entry by blast
  from entries_loop_Append [OF this, of "[]"] obtain ss where
    ss: "entries_loop (statistics_entry E) vs [] = Value ss" "length ss = length vs"
      "\<forall>i < length vs. statistics_entry E (vs ! i) = Append (ss ! i)"
    by auto
  have "time_Parse E (str_of (field (vs ! i) ''from'')) = Some (From_s (ss ! i))
      \<and> time_Parse E (str_of (field (vs ! i) ''to'')) = Some (To_s (ss ! i))
      \<and> Index_s (ss ! i) = str_of (field (field (vs ! i) ''intensity'') ''index'')"
    if "i < length vs" for i
  proof -
    from that h have "well_formed_entry E statistics_nums (vs ! i)" by simp
    from well_formed_statistics_entry [OF this] ss(3) that show ?thesis by auto
  qed
  with ss h show "\<exists>ss. json_Unmarshal statisticsResponse_UnmarshalJSON E data = Value ss
         \<and> length ss = length vs
         \<and> (\<forall>i < length vs.
               statistics_entry E (vs ! i) = Append (ss ! i)
               \<and> time_Parse E (str_of (field (vs ! i) ''from'')) = Some (From_s (ss ! i))
               \<and> time_Parse E (str_of (field (vs ! i) ''to'')) = Some (To_s (ss ! i))
               \<and> Index_s (ss ! i) = str_of (field (field (vs ! i) ''intensity'') ''index''))"
    by (intro exI [of _ ss]) (simp add: json_Unmarshal_data_array)
qed


theorem entries_in_order_witness:
  "json_Unmarshal intensityResponse_UnmarshalJSON (stub_env [(body_two, json_two)] stamps [])
      body_two = Value [record_one, record_two]
   \<and> json_Unmarshal statisticsResponse_UnmarshalJSON (stub_env [(body_stats, json_stats)] stamps [])
      body_stats = Value [record_stats]"
proof -
  let ?E = "stub_env [(body_two, json_two)] stamps []"
  let ?S = "stub_env [(body_stats, json_stats)] stamps []"
  have "json_decode ?E body_two = Some (JObject [(''data'', JArray [entry_one, entry_two])])"
    and "index_map [(''data'', JArray [entry_one, entry_two])] ''data''
           = JArray [entry_one, entry_two]"
    and "\<forall>v \<in> set [entry_one, entry_two]. well_formed_entry ?E intensity_nums v"
    by (simp_all add: stub_env_sel json_two_def index_map_def sample_entries_well_formed)
  with entries_in_order [of ?E body_two "[(''data'', JArray [entry_one, entry_two])]"
      "[entry_one, entry_two]"]
  obtain es where es: "json_Unmarshal intensityResponse_UnmarshalJSON ?E body_two = Value es"
    "length es = 2"
    "\<forall>i < 2. intensity_entry ?E ([entry_one, entry_two] ! i) = Append (es ! i)"
    by auto
  have "es ! 0 = record_one"
    using es(3) [rule_format, of 0] by (simp add: entry_one_decodes)
  moreover have "es ! 1 = record_two"
    using es(3) [rule_format, of 1] by (simp add: entry_two_decodes)
  ultimately have "es ! 0 = record_one" "es ! 1 = record_two"
    by simp_all
  with es(2) have "es = [record_one, record_two]"
    by (cases es; cases "tl es") auto
  with es(1) have first: "json_Unmarshal intensityResponse_UnmarshalJSON ?E body_two
      = Value [record_one, record_two]"
    by simp
  have "json_decode ?S body_stats = Some (JObject [(''data'', JArray [entry_stats])])"
    and "index_map [(''data'', JArray [entry_stats])] ''data'' = JArray [entry_stats]"
    and "\<forall>v \<in> set [entry_stats]. well_formed_entry ?S statistics_nums v"
    by (simp_all add: stub_env_sel json_stats_def index_map_def sample_entries_well_formed)
  with entries_in_order [of ?S body_stats "[(''data'', JArray [entry_stats])]" "[entry_stats]"]
  obtain ss where ss: "json_Unmarshal statisticsResponse_UnmarshalJSON ?S body_stats = Value ss"
    "length ss = 1"
    "\<forall>i < 1. statistics_entry ?S ([entry_stats] ! i) = Append (ss ! i)"
    by auto
  have "ss ! 0 = record_stats"
    using ss(3) [rule_format, of 0] by (simp add: entry_stats_decodes)
  with ss(2) have "ss = [record_stats]"
    by (cases ss) auto
  with ss(1) first show ?thesis by simp
qed

text \<open>
  The numeric fields belong to the condition: an entry with string timestamps that
  parse, an \<^verbatim>\<open>"intensity"\<close> object and a string \<^verbatim>\<open>"index"\<close>, but with the string \<^verbatim>\<open>"n/a"\<close> as
  its forecast, makes the decode panic in \<^verbatim>\<open>unmarshalInt\<close>; no list is returned.
\<close>

theorem entries_in_order_counterexample:
  "is_string (field entry_text_forecast ''from'')
   \<and> is_string (field entry_text_forecast ''to'')
   \<and> time_Parse (stub_env [(body_text_forecast, json_text_forecast)] stamps [])
        (str_of (field entry_text_forecast ''from'')) = Some 1516449600000000000
   \<and> time_Parse (stub_env [(body_text_forecast, json_text_forecast)] stamps [])
        (str_of (field entry_text_forecast ''to'')) = Some 1516451400000000000
   \<and> is_object (field entry_text_forecast ''intensity'')
   \<and> is_string (field (field entry_text_forecast ''intensity'') ''index'')
   \<and> json_Unmarshal intensityResponse_UnmarshalJSON
        (stub_env [(body_text_forecast, json_text_forecast)] stamps []) body_text_forecast = Panic"
  by (simp add: json_Unmarshal_eq intensityResponse_UnmarshalJSON_def UnmarshalJSON_def
      json_Unmarshal_map_eq stub_env_sel json_text_forecast_def entry_text_forecast_def
      index_map_def intensity_entry_def stamps_def unmarshalInt_def)

section \<open>Numeric fields that are missing or null\<close>

lemma index_map_nil_iff:
  "(index_map i k = JNull) = (map_of i k = None \<or> map_of i k = Some JNull)"
  by (simp add: index_map_def split: option.splits)

text \<open>
  C7. A numeric field that is absent or JSON null reads as \<^verbatim>\<open>nil\<close>, and \<^verbatim>\<open>unmarshalInt\<close>
  turns it into the sentinel \<open>-1\<close>. A well-formed entry is decoded into a record whatever
  its numeric fields (\<^verbatim>\<open>forecast\<close>, \<^verbatim>\<open>actual\<close>; \<^verbatim>\<open>max\<close>, \<^verbatim>\<open>average\<close>, \<^verbatim>\<open>min\<close>) hold of these, and
  the record has \<open>-1\<close> in each field that was absent or null. The body with one entry
  whose intensity is forecast 50, actual null, index "low" decodes to exactly one record,
  with \<open>Forecast = 50\<close> and \<open>Actual = -1\<close>.
\<close>

theorem missing_numbers_default:
  "((map_of i k = None \<or> map_of i k = Some JNull) \<longrightarrow>
      unmarshalInt E (index_map i k) (- 1) = Some (- 1))
   \<and> (well_formed_entry E intensity_nums v \<longrightarrow>
        (\<exists>r. intensity_entry E v = Append r
           \<and> (field (field v ''intensity'') ''forecast'' = JNull \<longrightarrow> Forecast r = - 1)
           \<and> (field (field v ''intensity'') ''actual'' = JNull \<longrightarrow> Actual r = - 1)))
   \<and> (well_formed_entry E statistics_nums v \<longrightarrow>
        (\<exists>r. statistics_entry E v = Append r
           \<and> (field (field v ''intensity'') ''max'' = JNull \<longrightarrow> Max_s r = - 1)
           \<and> (field (field v ''intensity'') ''average'' = JNull \<longrightarrow> Average_s r = - 1)
           \<and> (field (field v ''intensity'') ''min'' = JNull \<longrightarrow> Min_s r = - 1)))
   \<and> json_Unmarshal intensityResponse_UnmarshalJSON (stub_env [(body_one, json_one)] stamps [])
        body_one
      = Value [\<lparr>From = 1516449600000000000, To = 1516451400000000000, Forecast = 50,
                Actual = - 1, Index = ''low''\<rparr>]"
proof (intro conjI impI)
  assume "map_of i k = None \<or> map_of i k = Some JNull"
  then have "index_map i k = JNull" by (simp add: index_map_nil_iff)
  then show "unmarshalInt E (index_map i k) (- 1) = Some (- 1)"
    by (simp add: unmarshalInt_def)
next
  assume "well_formed_entry E intensity_nums v"
  from well_formed_intensity_entry [OF this] obtain r where
    r: "intensity_entry E v = Append r"
      "Forecast r = (case field (field v ''intensity'') ''forecast'' of
                       JNumber x \<Rightarrow> go_int E x | _ \<Rightarrow> - 1)"
      "Actual r = (case field (field v ''intensity'') ''actual'' of
                     JNumber x \<Rightarrow> go_int E x | _ \<Rightarrow> - 1)"
    by blast
  then show "\<exists>r. intensity_entry E v = Append r
           \<and> (field (field v ''intensity'') ''forecast'' = JNull \<longrightarrow> Forecast r = - 1)
           \<and> (field (field v ''intensity'') ''actual'' = JNull \<longrightarrow> Actual r = - 1)"
    by (intro exI [of _ r]) simp
next
  assume "well_formed_entry E statistics_nums v"
  from well_formed_statistics_entry [OF this] obtain r where
    r: "statistics_entry E v = Append r"
      "Max_s r = (case field (field v ''intensity'') ''max'' of
                    JNumber x \<Rightarrow> go_int E x | _ \<Rightarrow> - 1)"
      "Average_s r = (case field (field v ''intensity'') ''average'' of
                        JNumber x \<Rightarrow> go_int E x | _ \<Rightarrow> - 1)"
      "Min_s r = (case field (field v ''intensity'') ''min'' of
                    JNumber x \<Rightarrow> go_int E x | _ \<Rightarrow> - 1)"
    by blast
  then show "\<exists>r. statistics_entry E v = Append r
           \<and> (field (field v ''intensity'') ''max'' = JNull \<longrightarrow> Max_s r = - 1)
           \<and> (field (field v ''intensity'') ''average'' = JNull \<longrightarrow> Average_s r = - 1)
           \<and> (field (field v ''intensity'') ''min'' = JNull \<longrightarrow> Min_s r = - 1)"
    by (intro exI [of _ r]) simp
next
  show "json_Unmarshal intensityResponse_UnmarshalJSON (stub_env [(body_one, json_one)] stamps [])
        body_one
      = Value [\<lparr>From = 1516449600000000000, To = 1516451400000000000, Forecast = 50,
                Actual = - 1, Index = ''low''\<rparr>]"
    using body_one_decodes [of "[]"] by (simp add: record_one_def)
qed

theorem missing_numbers_default_witness:
  "unmarshalInt (stub_env [] stamps [])
      (index_map [(''forecast'', JNumber 50), (''actual'', JNull), (''index'', JString ''low'')]
         ''actual'') (- 1) = Some (- 1)
   \<and> unmarshalInt (stub_env [] stamps [])
      (index_map [(''forecast'', JNumber 50), (''index'', JString ''low'')]
         ''actual'') (- 1) = Some (- 1)
   \<and> (\<exists>r. intensity_entry (stub_env [] stamps []) entry_one = Append r \<and> Actual r = - 1)"
proof -
  let ?E = "stub_env [] stamps []"
  have "field (field entry_one ''intensity'') ''actual'' = JNull"
    by (simp add: entry_one_def index_map_def)
  with missing_numbers_default [of _ _ ?E entry_one, THEN conjunct2, THEN conjunct1]
    sample_entries_well_formed(1) [of "[]" "[]"]
  have third: "\<exists>r. intensity_entry ?E entry_one = Append r \<and> Actual r = - 1"
    by blast
  have first: "unmarshalInt ?E (index_map [(''forecast'', JNumber 50), (''actual'', JNull),
      (''index'', JString ''low'')] ''actual'') (- 1) = Some (- 1)"
    using missing_numbers_default [of "[(''forecast'', JNumber 50), (''actual'', JNull),
      (''index'', JString ''low'')]" "''actual''" ?E, THEN conjunct1]
    by simp
  have second: "unmarshalInt ?E (index_map [(''forecast'', JNumber 50), (''index'', JString ''low'')]
      ''actual'') (- 1) = Some (- 1)"
    using missing_numbers_default [of "[(''forecast'', JNumber 50), (''index'', JString ''low'')]"
      "''actual''" ?E, THEN conjunct1]
    by simp
  from first second third show ?thesis by simp
qed

section \<open>Timestamps that do not parse\<close>

text \<open>
  The loop stops at the first entry whose timestamp does not parse and returns what it
  has appended so far; the entries after it are not looked at.
\<close>

lemma entries_loop_ReturnNil:
  "\<forall>v \<in> set pre. \<exists>e. body v = Append e \<Longrightarrow> body v = ReturnNil \<Longrightarrow>
   \<exists>es. entries_loop body (pre @ v # rest) acc = Value (acc @ es) \<and> length es = length pre"
proof (induction pre arbitrary: acc)
  case Nil
  then show ?case by simp
next
  case (Cons p pre)
  then obtain e where e: "body p = Append e" by auto
  from Cons.prems have "\<forall>v \<in> set pre. \<exists>e. body v = Append e" by simp
  from Cons.IH [OF this Cons.prems(2), of "acc @ [e]"] obtain es where
    "entries_loop body (pre @ v # rest) (acc @ [e]) = Value ((acc @ [e]) @ es)"
    "length es = length pre"
    by blast
  with e show ?case
    by (intro exI [of _ "e # es"]) simp
qed

lemma bad_entries_return:
  "intensity_entry (stub_env bs stamps ps) entry_bad_time = ReturnNil"
  "intensity_entry (stub_env bs stamps ps) entry_bad_from = ReturnNil"
  "statistics_entry (stub_env bs stamps ps) entry_stats_bad_time = ReturnNil"
  by (simp_all add: intensity_entry_def statistics_entry_def entry_bad_time_def entry_bad_from_def
      entry_stats_bad_time_def index_map_def stub_env_sel stamps_def)

text \<open>
  C1. The claim is that a \<^verbatim>\<open>"from"\<close> or \<^verbatim>\<open>"to"\<close> that fails to parse aborts the decode with
  a parse error. The two branches \<^verbatim>\<open>if err != nil { return nil }\<close> return success
  instead: a body whose only entry has an unparsable \<^verbatim>\<open>"to"\<close> decodes to an empty list
  with no error, for both responses, and a body whose second entry has an unparsable
  \<^verbatim>\<open>"from"\<close> decodes to the first record alone, which \<^verbatim>\<open>GetTodaysIntensity\<close> hands to its
  caller as a successful result.
\<close>

theorem bad_timestamp_returns_success:
  "json_Unmarshal intensityResponse_UnmarshalJSON
      (stub_env [(body_bad_time, json_bad_time)] stamps []) body_bad_time = Value []
   \<and> json_Unmarshal statisticsResponse_UnmarshalJSON
      (stub_env [(body_stats_bad_time, json_stats_bad_time)] stamps []) body_stats_bad_time = Value []
   \<and> json_Unmarshal intensityResponse_UnmarshalJSON
      (stub_env [(body_second_bad, json_second_bad)] stamps []) body_second_bad = Value [record_one]
   \<and> GetTodaysIntensity
      (stub_env [(body_second_bad, json_second_bad)] stamps
         [(''http://stub/intensity/date'', body_second_bad)]) stub_handler
      = ([''http://stub/intensity/date''], Value [record_one])"
proof -
  have a: "json_Unmarshal intensityResponse_UnmarshalJSON
      (stub_env [(body_bad_time, json_bad_time)] stamps []) body_bad_time = Value []"
    by (simp add: json_Unmarshal_eq intensityResponse_UnmarshalJSON_def UnmarshalJSON_def
        json_Unmarshal_map_eq stub_env_sel json_bad_time_def index_map_def bad_entries_return)
  have b: "json_Unmarshal statisticsResponse_UnmarshalJSON
      (stub_env [(body_stats_bad_time, json_stats_bad_time)] stamps []) body_stats_bad_time = Value []"
    by (simp add: json_Unmarshal_eq statisticsResponse_UnmarshalJSON_def UnmarshalJSON_def
        json_Unmarshal_map_eq stub_env_sel json_stats_bad_time_def index_map_def bad_entries_return)
  have c: "json_Unmarshal intensityResponse_UnmarshalJSON
      (stub_env [(body_second_bad, json_second_bad)] stamps ps) body_second_bad = Value [record_one]"
    for ps
    by (simp add: json_Unmarshal_eq intensityResponse_UnmarshalJSON_def UnmarshalJSON_def
        json_Unmarshal_map_eq stub_env_sel json_second_bad_def index_map_def bad_entries_return
        entry_one_decodes)
  have d: "GetTodaysIntensity
      (stub_env [(body_second_bad, json_second_bad)] stamps
         [(''http://stub/intensity/date'', body_second_bad)]) stub_handler
      = ([''http://stub/intensity/date''], Value [record_one])"
    by (simp add: GetTodaysIntensity_def getAPIResponse_eq stub_handler_def stub_env_sel c)
  from a b c d show ?thesis by simp
qed

section \<open>The three shapes of a response\<close>

lemma decode_factors_object:
  "json_decode E data = Some (JObject m) \<Longrightarrow>
   decode_factors E data =
     (if index_map m ''data'' = JNull then
        (if index_map m ''error'' = JNull then Error (FailedToUnmarshalJSON data)
         else api_error (index_map m ''error''))
      else (case assert_slice (index_map m ''data'') of
              None \<Rightarrow> Panic
            | Some responseData \<Rightarrow>
                if length responseData \<noteq> 1 then Error (UnexpectedEntries data)
                else (case assert_map (responseData ! 0) of
                        None \<Rightarrow> Panic
                      | Some factorDict \<Rightarrow>
                          (case factors_of E factorDict of
                             None \<Rightarrow> Panic
                           | Some factors \<Rightarrow> Value factors))))"
  by (simp add: decode_factors_def json_Unmarshal_map_eq)

lemma json_Unmarshal_object:
  assumes "json_decode E data = Some (JObject m)"
  shows "json_Unmarshal intensityResponse_UnmarshalJSON E data
           = UnmarshalJSON (intensity_entry E) E (value_bytes data)"
    and "json_Unmarshal statisticsResponse_UnmarshalJSON E data
           = UnmarshalJSON (statistics_entry E) E (value_bytes data)"
  using assms
  by (simp_all add: json_Unmarshal_eq intensityResponse_UnmarshalJSON_def
      statisticsResponse_UnmarshalJSON_def)

lemma UnmarshalJSON_value_bytes:
  "json_decode E data = Some (JObject m) \<Longrightarrow>
   UnmarshalJSON body E (value_bytes data) =
     (if index_map m ''data'' = JNull then
        (if index_map m ''error'' = JNull then Error (FailedToUnmarshalJSON (value_bytes data))
         else api_error (index_map m ''error''))
      else (case assert_slice (index_map m ''data'') of
              None \<Rightarrow> Panic
            | Some vs \<Rightarrow> entries_loop body vs []))"
  by (simp add: UnmarshalJSON_def json_Unmarshal_map_eq)

lemma api_error_untyped: "\<not> typed_error e \<Longrightarrow> api_error e = (Panic :: 'a outcome)"
proof (cases e)
  case (JObject m)
  assume "\<not> typed_error e"
  with JObject have "\<not> is_string (index_map m ''code'') \<or> \<not> is_string (index_map m ''message'')"
    by (simp add: typed_error_def)
  then show ?thesis
    by (cases "index_map m ''code''"; cases "index_map m ''message''")
       (simp_all add: api_error_def JObject)
qed (simp_all add: api_error_def)

lemma decoders_not_object:
  assumes "json_decode E data = Some j" and "\<not> is_object j"
  shows "json_Unmarshal intensityResponse_UnmarshalJSON E data
           = Error (if j = JNull then FailedToUnmarshalJSON (value_bytes data)
                    else UnmarshalTypeError)"
    and "json_Unmarshal statisticsResponse_UnmarshalJSON E data
           = Error (if j = JNull then FailedToUnmarshalJSON (value_bytes data)
                    else UnmarshalTypeError)"
    and "decode_factors E data
           = Error (if j = JNull then FailedToUnmarshalJSON data else UnmarshalTypeError)"
  using assms
  by (cases j; simp add: json_Unmarshal_eq intensityResponse_UnmarshalJSON_def
      statisticsResponse_UnmarshalJSON_def UnmarshalJSON_def decode_factors_def
      json_Unmarshal_map_eq index_map_def)+

lemma decoders_rejected:
  assumes "json_decode E data = None"
  shows "json_Unmarshal intensityResponse_UnmarshalJSON E data
           = Error (if decode_text E data = OutOfRange then UnmarshalTypeError else SyntaxError)"
    and "json_Unmarshal statisticsResponse_UnmarshalJSON E data
           = Error (if decode_text E data = OutOfRange then UnmarshalTypeError else SyntaxError)"
    and "decode_factors E data
           = Error (if decode_text E data = OutOfRange then UnmarshalTypeError else SyntaxError)"
  using assms
  by (simp_all add: json_Unmarshal_eq intensityResponse_UnmarshalJSON_def
      statisticsResponse_UnmarshalJSON_def UnmarshalJSON_def decode_factors_def
      json_Unmarshal_map_eq)

text \<open>
  C8 (as amended). A body in which the library finds a JSON object is classified by the
  two \<^verbatim>\<open>nil\<close> tests, where a key that is missing and a key that holds null both read as
  \<^verbatim>\<open>nil\<close>. With \<^verbatim>\<open>"data"\<close> and \<^verbatim>\<open>"error"\<close> both \<^verbatim>\<open>nil\<close> the decode fails with the
  failed-to-unmarshal error; in the intensity and statistics decoders the error carries
  the bytes of the value, that is the body without the white space around it, and in the
  fuel-mix decoder the raw body. With \<^verbatim>\<open>"data"\<close> \<^verbatim>\<open>nil\<close> and \<^verbatim>\<open>"error"\<close> an object whose
  \<^verbatim>\<open>"code"\<close> and \<^verbatim>\<open>"message"\<close> are strings it fails with the API error of that code and
  message, and no records. With \<^verbatim>\<open>"data"\<close> an array the body is a success envelope: the
  result is that of the loop over its entries, never an error, and the fuel-mix decode
  never gives the API error or the failed-to-unmarshal error. The other objects panic:
  \<^verbatim>\<open>"data"\<close> neither \<^verbatim>\<open>nil\<close> nor an array, or \<^verbatim>\<open>"data"\<close> \<^verbatim>\<open>nil\<close> with an \<^verbatim>\<open>"error"\<close> that is not
  such an object. A body that is JSON null fails like the empty object; any other value
  that is not an object fails with the library's type error, and so does a body with a
  number too large for a \<^verbatim>\<open>float64\<close>; a body with a syntax error fails with the
  library's syntax error.
\<close>

theorem envelope_classified:
  "(json_decode E data = Some (JObject m)
      \<and> index_map m ''data'' = JNull \<and> index_map m ''error'' = JNull \<longrightarrow>
      json_Unmarshal intensityResponse_UnmarshalJSON E data
        = Error (FailedToUnmarshalJSON (value_bytes data))
      \<and> json_Unmarshal statisticsResponse_UnmarshalJSON E data
        = Error (FailedToUnmarshalJSON (value_bytes data))
      \<and> decode_factors E data = Error (FailedToUnmarshalJSON data))
   \<and> (json_decode E data = Some (JObject m)
      \<and> index_map m ''data'' = JNull \<and> index_map m ''error'' = JObject e
      \<and> index_map e ''code'' = JString code \<and> index_map e ''message'' = JString message \<longrightarrow>
      json_Unmarshal intensityResponse_UnmarshalJSON E data = Error (APIError code message)
      \<and> json_Unmarshal statisticsResponse_UnmarshalJSON E data = Error (APIError code message)
      \<and> decode_factors E data = Error (APIError code message))
   \<and> (json_decode E data = Some (JObject m) \<and> index_map m ''data'' = JArray vs \<longrightarrow>
      json_Unmarshal intensityResponse_UnmarshalJSON E data
        = entries_loop (intensity_entry E) vs []
      \<and> json_Unmarshal statisticsResponse_UnmarshalJSON E data
        = entries_loop (statistics_entry E) vs []
      \<and> (\<forall>err. json_Unmarshal intensityResponse_UnmarshalJSON E data \<noteq> Error err)
      \<and> (\<forall>err. json_Unmarshal statisticsResponse_UnmarshalJSON E data \<noteq> Error err)
      \<and> (\<forall>c msg. decode_factors E data \<noteq> Error (APIError c msg))
      \<and> (\<forall>b. decode_factors E data \<noteq> Error (FailedToUnmarshalJSON b)))
   \<and> (json_decode E data = Some (JObject m)
      \<and> index_map m ''data'' \<noteq> JNull \<and> assert_slice (index_map m ''data'') = None \<longrightarrow>
      json_Unmarshal intensityResponse_UnmarshalJSON E data = Panic
      \<and> json_Unmarshal statisticsResponse_UnmarshalJSON E data = Panic
      \<and> decode_factors E data = Panic)
   \<and> (json_decode E data = Some (JObject m)
      \<and> index_map m ''data'' = JNull \<and> index_map m ''error'' \<noteq> JNull
      \<and> \<not> typed_error (index_map m ''error'') \<longrightarrow>
      json_Unmarshal intensityResponse_UnmarshalJSON E data = Panic
      \<and> json_Unmarshal statisticsResponse_UnmarshalJSON E data = Panic
      \<and> decode_factors E data = Panic)
   \<and> (json_decode E data = Some j \<and> \<not> is_object j \<longrightarrow>
      json_Unmarshal intensityResponse_UnmarshalJSON E data
        = Error (if j = JNull then FailedToUnmarshalJSON (value_bytes data)
                 else UnmarshalTypeError)
      \<and> json_Unmarshal statisticsResponse_UnmarshalJSON E data
        = Error (if j = JNull then FailedToUnmarshalJSON (value_bytes data)
                 else UnmarshalTypeError)
      \<and> decode_factors E data
        = Error (if j = JNull then FailedToUnmarshalJSON data else UnmarshalTypeError))
   \<and> (decode_text E data = OutOfRange \<longrightarrow>
      json_Unmarshal intensityResponse_UnmarshalJSON E data = Error UnmarshalTypeError
      \<and> json_Unmarshal statisticsResponse_UnmarshalJSON E data = Error UnmarshalTypeError
      \<and> decode_factors E data = Error UnmarshalTypeError)
   \<and> (decode_text E data = Invalid \<longrightarrow>
      json_Unmarshal intensityResponse_UnmarshalJSON E data = Error SyntaxError
      \<and> json_Unmarshal statisticsResponse_UnmarshalJSON E data = Error SyntaxError
      \<and> decode_factors E data = Error SyntaxError)"
proof (intro conjI impI allI)
  assume h: "json_decode E data = Some (JObject m)
      \<and> index_map m ''data'' = JNull \<and> index_map m ''error'' = JNull"
  then show "json_Unmarshal intensityResponse_UnmarshalJSON E data
               = Error (FailedToUnmarshalJSON (value_bytes data))"
    and "json_Unmarshal statisticsResponse_UnmarshalJSON E data
               = Error (FailedToUnmarshalJSON (value_bytes data))"
    and "decode_factors E data = Error (FailedToUnmarshalJSON data)"
    by (simp_all add: json_Unmarshal_object UnmarshalJSON_value_bytes decode_factors_object)
next
  assume h: "json_decode E data = Some (JObject m)
      \<and> index_map m ''data'' = JNull \<and> index_map m ''error'' = JObject e
      \<and> index_map e ''code'' = JString code \<and> index_map e ''message'' = JString message"
  then have "api_error (index_map m ''error'') = Error (APIError code message)"
    by (simp add: api_error_def)
  with h show "json_Unmarshal intensityResponse_UnmarshalJSON E data
               = Error (APIError code message)"
    and "json_Unmarshal statisticsResponse_UnmarshalJSON E data
               = Error (APIError code message)"
    and "decode_factors E data = Error (APIError code message)"
    by (simp_all add: json_Unmarshal_object UnmarshalJSON_value_bytes decode_factors_object)
next
  assume h: "json_decode E data = Some (JObject m) \<and> index_map m ''data'' = JArray vs"
  then show i: "json_Unmarshal intensityResponse_UnmarshalJSON E data
        = entries_loop (intensity_entry E) vs []"
    and s: "json_Unmarshal statisticsResponse_UnmarshalJSON E data
        = entries_loop (statistics_entry E) vs []"
    by (simp_all add: json_Unmarshal_data_array)
  show "json_Unmarshal intensityResponse_UnmarshalJSON E data \<noteq> Error err" for err
    unfolding i by (rule entries_loop_not_Error)
  show "json_Unmarshal statisticsResponse_UnmarshalJSON E data \<noteq> Error err" for err
    unfolding s by (rule entries_loop_not_Error)
  from h show "decode_factors E data \<noteq> Error (APIError c msg)" for c msg
    by (simp add: decode_factors_object split: option.splits)
  from h show "decode_factors E data \<noteq> Error (FailedToUnmarshalJSON b)" for b
    by (simp add: decode_factors_object split: option.splits)
next
  assume h: "json_decode E data = Some (JObject m)
      \<and> index_map m ''data'' \<noteq> JNull \<and> assert_slice (index_map m ''data'') = None"
  then show "json_Unmarshal intensityResponse_UnmarshalJSON E data = Panic"
    and "json_Unmarshal statisticsResponse_UnmarshalJSON E data = Panic"
    and "decode_factors E data = Panic"
    by (simp_all add: json_Unmarshal_object UnmarshalJSON_value_bytes decode_factors_object)
next
  assume h: "json_decode E data = Some (JObject m)
      \<and> index_map m ''data'' = JNull \<and> index_map m ''error'' \<noteq> JNull
      \<and> \<not> typed_error (index_map m ''error'')"
  then show "json_Unmarshal intensityResponse_UnmarshalJSON E data = Panic"
    and "json_Unmarshal statisticsResponse_UnmarshalJSON E data = Panic"
    and "decode_factors E data = Panic"
    by (simp_all add: json_Unmarshal_object UnmarshalJSON_value_bytes decode_factors_object
        api_error_untyped)
next
  assume h: "json_decode E data = Some j \<and> \<not> is_object j"
  then have d: "json_decode E data = Some j" and n: "\<not> is_object j" by simp_all
  show "json_Unmarshal intensityResponse_UnmarshalJSON E data
        = Error (if j = JNull then FailedToUnmarshalJSON (value_bytes data)
                 else UnmarshalTypeError)"
    and "json_Unmarshal statisticsResponse_UnmarshalJSON E data
        = Error (if j = JNull then FailedToUnmarshalJSON (value_bytes data)
                 else UnmarshalTypeError)"
    and "decode_factors E data
        = Error (if j = JNull then FailedToUnmarshalJSON data else UnmarshalTypeError)"
    by (rule decoders_not_object [OF d n])+
next
  assume h: "decode_text E data = OutOfRange"
  then have "json_decode E data = None" by (simp add: json_decode_None)
  from decoders_rejected [OF this] h
  show "json_Unmarshal intensityResponse_UnmarshalJSON E data = Error UnmarshalTypeError"
    and "json_Unmarshal statisticsResponse_UnmarshalJSON E data = Error UnmarshalTypeError"
    and "decode_factors E data = Error UnmarshalTypeError"
    by simp_all
next
  assume h: "decode_text E data = Invalid"
  then have "json_decode E data = None" by (simp add: json_decode_None)
  from decoders_rejected [OF this] h
  show "json_Unmarshal intensityResponse_UnmarshalJSON E data = Error SyntaxError"
    and "json_Unmarshal statisticsResponse_UnmarshalJSON E data = Error SyntaxError"
    and "decode_factors E data = Error SyntaxError"
    by simp_all
qed

theorem envelope_classified_witness:
  "json_Unmarshal intensityResponse_UnmarshalJSON (stub_env [(body_empty, json_empty)] stamps [])
      body_padded = Error (FailedToUnmarshalJSON body_empty)
   \<and> decode_factors (stub_env [(body_empty, json_empty)] stamps [])
      body_padded = Error (FailedToUnmarshalJSON body_padded)
   \<and> json_Unmarshal intensityResponse_UnmarshalJSON (stub_env [(body_error, json_error)] stamps [])
      body_error = Error (APIError ''400'' ''bad request'')
   \<and> decode_factors (stub_env [(body_error, json_error)] stamps [])
      body_error = Error (APIError ''400'' ''bad request'')
   \<and> json_Unmarshal intensityResponse_UnmarshalJSON (stub_env [(body_one, json_one)] stamps [])
      body_one = entries_loop (intensity_entry (stub_env [(body_one, json_one)] stamps []))
                   [entry_one] []
   \<and> json_Unmarshal statisticsResponse_UnmarshalJSON
        (stub_env [(body_data_text, json_data_text)] stamps []) body_data_text = Panic
   \<and> json_Unmarshal statisticsResponse_UnmarshalJSON
        (stub_env [(body_error_text, json_error_text)] stamps []) body_error_text = Panic
   \<and> json_Unmarshal intensityResponse_UnmarshalJSON (stub_env [(''null'', JNull)] stamps [])
        ''null'' = Error (FailedToUnmarshalJSON ''null'')
   \<and> json_Unmarshal intensityResponse_UnmarshalJSON
        ((stub_env [] stamps []) \<lparr>json_parse := (\<lambda>text. OutOfRange)\<rparr>) body_one
        = Error UnmarshalTypeError
   \<and> decode_factors (stub_env [] stamps []) body_one = Error SyntaxError"
proof -
  note c = envelope_classified
  have w1: "json_Unmarshal intensityResponse_UnmarshalJSON
      (stub_env [(body_empty, json_empty)] stamps []) body_padded
      = Error (FailedToUnmarshalJSON body_empty)
      \<and> decode_factors (stub_env [(body_empty, json_empty)] stamps []) body_padded
      = Error (FailedToUnmarshalJSON body_padded)"
    using c [of "stub_env [(body_empty, json_empty)] stamps []" body_padded "[]", THEN conjunct1]
    by (simp add: stub_env_sel json_empty_def index_map_def)
  have w2: "json_Unmarshal intensityResponse_UnmarshalJSON
      (stub_env [(body_error, json_error)] stamps []) body_error
        = Error (APIError ''400'' ''bad request'')
      \<and> decode_factors (stub_env [(body_error, json_error)] stamps []) body_error
        = Error (APIError ''400'' ''bad request'')"
    using c [of "stub_env [(body_error, json_error)] stamps []" body_error
        "[(''error'', JObject [(''code'', JString ''400''), (''message'', JString ''bad request'')])]"
        "[(''code'', JString ''400''), (''message'', JString ''bad request'')]"
        "''400''" "''bad request''", THEN conjunct2, THEN conjunct1]
    by (simp add: stub_env_sel json_error_def index_map_def)
  have w3: "json_Unmarshal intensityResponse_UnmarshalJSON
      (stub_env [(body_one, json_one)] stamps []) body_one
      = entries_loop (intensity_entry (stub_env [(body_one, json_one)] stamps [])) [entry_one] []"
    using c [of "stub_env [(body_one, json_one)] stamps []" body_one
        "[(''data'', JArray [entry_one])]" _ _ _ "[entry_one]",
        THEN conjunct2, THEN conjunct2, THEN conjunct1]
    by (simp add: stub_env_sel json_one_def index_map_def)
  have w4: "json_Unmarshal statisticsResponse_UnmarshalJSON
        (stub_env [(body_data_text, json_data_text)] stamps []) body_data_text = Panic"
    using c [of "stub_env [(body_data_text, json_data_text)] stamps []" body_data_text
        "[(''data'', JString ''none'')]",
        THEN conjunct2, THEN conjunct2, THEN conjunct2, THEN conjunct1]
    by (simp add: stub_env_sel json_data_text_def index_map_def)
  have w5: "json_Unmarshal statisticsResponse_UnmarshalJSON
        (stub_env [(body_error_text, json_error_text)] stamps []) body_error_text = Panic"
    using c [of "stub_env [(body_error_text, json_error_text)] stamps []" body_error_text
        "[(''error'', JString ''rate limit exceeded'')]",
        THEN conjunct2, THEN conjunct2, THEN conjunct2, THEN conjunct2, THEN conjunct1]
    by (simp add: stub_env_sel json_error_text_def index_map_def typed_error_def)
  have w6: "json_Unmarshal intensityResponse_UnmarshalJSON (stub_env [(''null'', JNull)] stamps [])
        ''null'' = Error (FailedToUnmarshalJSON ''null'')"
    using c [of "stub_env [(''null'', JNull)] stamps []" "''null''" _ _ _ _ _ JNull,
        THEN conjunct2, THEN conjunct2, THEN conjunct2, THEN conjunct2, THEN conjunct2,
        THEN conjunct1]
    by (simp add: stub_env_sel)
  have w7: "json_Unmarshal intensityResponse_UnmarshalJSON
        ((stub_env [] stamps []) \<lparr>json_parse := (\<lambda>text. OutOfRange)\<rparr>) body_one
        = Error UnmarshalTypeError"
    using c [of "(stub_env [] stamps []) \<lparr>json_parse := (\<lambda>text. OutOfRange)\<rparr>" body_one,
        THEN conjunct2, THEN conjunct2, THEN conjunct2, THEN conjunct2, THEN conjunct2,
        THEN conjunct2, THEN conjunct1]
    by (simp add: decode_text_def)
  have w8: "decode_factors (stub_env [] stamps []) body_one = Error SyntaxError"
    using c [of "stub_env [] stamps []" body_one,
        THEN conjunct2, THEN conjunct2, THEN conjunct2, THEN conjunct2, THEN conjunct2,
        THEN conjunct2, THEN conjunct2]
    by (simp add: stub_env_sel)
  from w1 w2 w3 w4 w5 w6 w7 w8 show ?thesis by simp
qed

text \<open>
  The claim as stated fails on three bodies. With \<^verbatim>\<open>"data"\<close> absent and the string
  \<^verbatim>\<open>"rate limit exceeded"\<close> as \<^verbatim>\<open>"error"\<close>, the decode panics instead of failing with an
  error that carries a code and a message. With \<^verbatim>\<open>"data"\<close> present but null, next to an
  error object, the body is not decoded as a success: the API error is returned. And for
  the empty object with a space before and after it, which has neither \<^verbatim>\<open>"data"\<close> nor
  \<^verbatim>\<open>"error"\<close>, the error of the intensity decoder carries the two braces, not the body.
\<close>

theorem envelope_classified_counterexample:
  "json_Unmarshal intensityResponse_UnmarshalJSON
      (stub_env [(body_error_text, json_error_text)] stamps []) body_error_text = Panic
   \<and> decode_factors
      (stub_env [(body_error_text, json_error_text)] stamps []) body_error_text = Panic
   \<and> map_of [(''data'', JNull), (''error'', JObject [(''code'', JString ''400''),
          (''message'', JString ''bad request'')])] ''data'' = Some JNull
   \<and> json_Unmarshal intensityResponse_UnmarshalJSON
      (stub_env [(body_null_data, json_null_data)] stamps []) body_null_data
        = Error (APIError ''400'' ''bad request'')
   \<and> json_Unmarshal intensityResponse_UnmarshalJSON
      (stub_env [(body_empty, json_empty)] stamps []) body_padded
        = Error (FailedToUnmarshalJSON body_empty)
   \<and> body_padded \<noteq> body_empty"
proof -
  have "body_padded \<noteq> body_empty"
    by (simp add: body_padded_def body_empty_def)
  then show ?thesis
    by (simp add: json_Unmarshal_eq intensityResponse_UnmarshalJSON_def UnmarshalJSON_def
        decode_factors_def json_Unmarshal_map_eq stub_env_sel json_error_text_def
        json_null_data_def json_empty_def index_map_def api_error_def)
qed

section \<open>The fuel-mix factors\<close>

lemma factor_number:
  "is_number (index_map d k) \<Longrightarrow> factor E d k = Some (go_int E (num_of (index_map d k)))"
  by (cases "index_map d k") (simp_all add: factor_def)

lemma factor_not_number: "\<not> is_number (index_map d k) \<Longrightarrow> factor E d k = None"
  by (cases "index_map d k") (simp_all add: factor_def)

lemma factors_of_None:
  "k \<in> set factor_keys \<Longrightarrow> factor E d k = None \<Longrightarrow> factors_of E d = None"
  by (auto simp: factor_keys_def factors_of_def split: option.splits)

lemma factors_of_typed:
  assumes "typed_factors (JObject d)"
  shows "factors_of E d =
     Some \<lparr>Biomass = go_int E (num_of (index_map d ''Biomass'')),
           Coal = go_int E (num_of (index_map d ''Coal'')),
           DutchImports = go_int E (num_of (index_map d ''Dutch Imports'')),
           FrenchImports = go_int E (num_of (index_map d ''French Imports'')),
           IrishImports = go_int E (num_of (index_map d ''Irish Imports'')),
           GasCombinedCycle = go_int E (num_of (index_map d ''Gas (Combined Cycle)'')),
           GasOpenCycle = go_int E (num_of (index_map d ''Gas (Open Cycle)'')),
           Hydro = go_int E (num_of (index_map d ''Hydro'')),
           Nuclear = go_int E (num_of (index_map d ''Nuclear'')),
           Oil = go_int E (num_of (index_map d ''Oil'')),
           Other = go_int E (num_of (index_map d ''Other'')),
           PumpedStorage = go_int E (num_of (index_map d ''Pumped Storage'')),
           Solar = go_int E (num_of (index_map d ''Solar'')),
           Wind = go_int E (num_of (index_map d ''Wind''))\<rparr>"
proof -
  from assms have "\<forall>k \<in> set factor_keys. is_number (index_map d k)"
    by (simp add: typed_factors_def list_all_iff)
  then have "\<forall>k \<in> set factor_keys. factor E d k = Some (go_int E (num_of (index_map d k)))"
    using factor_number by blast
  then show ?thesis
    by (simp add: factor_keys_def factors_of_def)
qed

lemma factors_of_untyped:
  assumes "\<not> typed_factors (JObject d)"
  shows "factors_of E d = None"
proof -
  from assms obtain k where "k \<in> set factor_keys" "\<not> is_number (index_map d k)"
    by (auto simp: typed_factors_def list_all_iff)
  then show ?thesis
    using factors_of_None factor_not_number by blast
qed


lemma dict_factors_typed: "typed_factors (JObject dict_factors)"
  by (simp add: typed_factors_def factor_keys_def dict_factors_def index_map_def)

text \<open>
  C4 (as amended). \<^verbatim>\<open>GetIntensityFactors\<close> asks for \<^verbatim>\<open>/intensity/factors\<close> and decodes the
  body. When \<^verbatim>\<open>"data"\<close> is an array that does not have exactly one element the decode fails
  with the unexpected-number-of-entries error. When its one element is an object in which
  each of the fourteen keys, matched as exact strings, holds a number, the decode succeeds
  and every field holds the conversion to \<^verbatim>\<open>int\<close> of the number of its key: the number
  without its fraction when that fits into the 64 bits of an \<^verbatim>\<open>int\<close>, and the \<^verbatim>\<open>int\<close> the
  implementation chooses when it does not. When the one element is anything else, in
  particular an object with one of the fourteen keys missing, the decode neither succeeds
  nor returns an error: it panics.
\<close>

theorem factors_decoded:
  "(json_decode E data = Some (JObject m) \<and> index_map m ''data'' = JArray vs
      \<and> length vs \<noteq> 1 \<longrightarrow>
      decode_factors E data = Error (UnexpectedEntries data))
   \<and> (json_decode E data = Some (JObject m) \<and> index_map m ''data'' = JArray [v]
      \<and> typed_factors v \<longrightarrow>
      decode_factors E data
        = Value \<lparr>Biomass = go_int E (num_of (field v ''Biomass'')),
                  Coal = go_int E (num_of (field v ''Coal'')),
                  DutchImports = go_int E (num_of (field v ''Dutch Imports'')),
                  FrenchImports = go_int E (num_of (field v ''French Imports'')),
                  IrishImports = go_int E (num_of (field v ''Irish Imports'')),
                  GasCombinedCycle = go_int E (num_of (field v ''Gas (Combined Cycle)'')),
                  GasOpenCycle = go_int E (num_of (field v ''Gas (Open Cycle)'')),
                  Hydro = go_int E (num_of (field v ''Hydro'')),
                  Nuclear = go_int E (num_of (field v ''Nuclear'')),
                  Oil = go_int E (num_of (field v ''Oil'')),
                  Other = go_int E (num_of (field v ''Other'')),
                  PumpedStorage = go_int E (num_of (field v ''Pumped Storage'')),
                  Solar = go_int E (num_of (field v ''Solar'')),
                  Wind = go_int E (num_of (field v ''Wind''))\<rparr>)
   \<and> (json_decode E data = Some (JObject m) \<and> index_map m ''data'' = JArray [v]
      \<and> \<not> typed_factors v \<longrightarrow>
      decode_factors E data = Panic)
   \<and> (json_decode E data = Some (JObject m) \<and> index_map m ''data'' = JArray [JObject d]
      \<and> k \<in> set factor_keys \<and> map_of d k = None \<longrightarrow>
      decode_factors E data = Panic)
   \<and> (http_Get E (serverAddress ah @ ''/intensity/factors'') = Inr data \<longrightarrow>
      GetIntensityFactors E ah
        = ([serverAddress ah @ ''/intensity/factors''], decode_factors E data))
   \<and> (- (2 ^ 63) \<le> trunc f \<and> trunc f < 2 ^ 63 \<longrightarrow> go_int E f = trunc f)
   \<and> (trunc f < - (2 ^ 63) \<or> 2 ^ 63 \<le> trunc f \<longrightarrow> go_int E f = int_overflow E f)"
proof (intro conjI impI)
  assume "- (2 ^ 63) \<le> trunc f \<and> trunc f < 2 ^ 63"
  then show "go_int E f = trunc f" by (simp add: go_int_def)
next
  assume "trunc f < - (2 ^ 63) \<or> 2 ^ 63 \<le> trunc f"
  then show "go_int E f = int_overflow E f" by (auto simp: go_int_def)
next
  assume "json_decode E data = Some (JObject m) \<and> index_map m ''data'' = JArray vs
      \<and> length vs \<noteq> 1"
  then show "decode_factors E data = Error (UnexpectedEntries data)"
    by (simp add: decode_factors_object)
next
  assume h: "json_decode E data = Some (JObject m) \<and> index_map m ''data'' = JArray [v]
      \<and> typed_factors v"
  then obtain d where v: "v = JObject d"
    using is_objectE by (auto simp: typed_factors_def)
  with h have "typed_factors (JObject d)" by simp
  from factors_of_typed [OF this] h v
  show "decode_factors E data
        = Value \<lparr>Biomass = go_int E (num_of (field v ''Biomass'')),
                  Coal = go_int E (num_of (field v ''Coal'')),
                  DutchImports = go_int E (num_of (field v ''Dutch Imports'')),
                  FrenchImports = go_int E (num_of (field v ''French Imports'')),
                  IrishImports = go_int E (num_of (field v ''Irish Imports'')),
                  GasCombinedCycle = go_int E (num_of (field v ''Gas (Combined Cycle)'')),
                  GasOpenCycle = go_int E (num_of (field v ''Gas (Open Cycle)'')),
                  Hydro = go_int E (num_of (field v ''Hydro'')),
                  Nuclear = go_int E (num_of (field v ''Nuclear'')),
                  Oil = go_int E (num_of (field v ''Oil'')),
                  Other = go_int E (num_of (field v ''Other'')),
                  PumpedStorage = go_int E (num_of (field v ''Pumped Storage'')),
                  Solar = go_int E (num_of (field v ''Solar'')),
                  Wind = go_int E (num_of (field v ''Wind''))\<rparr>"
    by (simp add: decode_factors_object)
next
  assume h: "json_decode E data = Some (JObject m) \<and> index_map m ''data'' = JArray [v]
      \<and> \<not> typed_factors v"
  show "decode_factors E data = Panic"
  proof (cases "is_object v")
    case True
    then obtain d where v: "v = JObject d" using is_objectE by blast
    with h have "factors_of E d = None" using factors_of_untyped by simp
    with h v show ?thesis by (simp add: decode_factors_object)
  next
    case False
    then have "assert_map v = None" by (cases v) simp_all
    with h show ?thesis by (simp add: decode_factors_object)
  qed
next
  assume h: "json_decode E data = Some (JObject m) \<and> index_map m ''data'' = JArray [JObject d]
      \<and> k \<in> set factor_keys \<and> map_of d k = None"
  then have "factor E d k = None"
    by (simp add: factor_def index_map_def)
  with h have "factors_of E d = None" using factors_of_None by blast
  with h show "decode_factors E data = Panic"
    by (simp add: decode_factors_object)
next
  assume "http_Get E (serverAddress ah @ ''/intensity/factors'') = Inr data"
  then show "GetIntensityFactors E ah
        = ([serverAddress ah @ ''/intensity/factors''], decode_factors E data)"
    by (simp add: GetIntensityFactors_def getAPIResponse_eq)
qed

theorem factors_decoded_witness:
  "decode_factors (stub_env [(body_factors, json_factors)] [] []) body_factors
     = Value record_factors
   \<and> decode_factors (stub_env [(body_factors_no_wind, json_factors_no_wind)] [] [])
       body_factors_no_wind = Panic
   \<and> decode_factors (stub_env [(body_none, json_none)] [] []) body_none
     = Error (UnexpectedEntries body_none)
   \<and> GetIntensityFactors
       (stub_env [(body_factors, json_factors)] [] [(''http://stub/intensity/factors'', body_factors)])
       stub_handler
     = ([''http://stub/intensity/factors''], Value record_factors)
   \<and> go_int (stub_env [] [] []) (937 + 1 / 2) = 937
   \<and> go_int (stub_env [] [] []) (10 ^ 30) = - (2 ^ 63)"
proof -
  note f = factors_decoded
  have w1: "decode_factors (stub_env [(body_factors, json_factors)] ps st) body_factors
     = Value record_factors" for ps st
    using f [of "stub_env [(body_factors, json_factors)] ps st" body_factors
        "[(''data'', JArray [JObject dict_factors])]" _ "JObject dict_factors",
        THEN conjunct2, THEN conjunct1] dict_factors_typed
    by (simp add: stub_env_sel json_factors_def index_map_def)
       (simp add: dict_factors_def record_factors_def go_int_def trunc_def)
  have w2: "decode_factors (stub_env [(body_factors_no_wind, json_factors_no_wind)] [] [])
       body_factors_no_wind = Panic"
    using f [of "stub_env [(body_factors_no_wind, json_factors_no_wind)] [] []"
        body_factors_no_wind "[(''data'', JArray [JObject dict_factors_no_wind])]" _ _
        dict_factors_no_wind "''Wind''",
        THEN conjunct2, THEN conjunct2, THEN conjunct2, THEN conjunct1]
    by (simp add: stub_env_sel json_factors_no_wind_def index_map_def factor_keys_def
        dict_factors_no_wind_def)
  have w3: "decode_factors (stub_env [(body_none, json_none)] [] []) body_none
     = Error (UnexpectedEntries body_none)"
    using f [of "stub_env [(body_none, json_none)] [] []" body_none "[(''data'', JArray [])]" "[]",
        THEN conjunct1]
    by (simp add: stub_env_sel json_none_def index_map_def)
  have w4: "GetIntensityFactors
       (stub_env [(body_factors, json_factors)] [] [(''http://stub/intensity/factors'', body_factors)])
       stub_handler
     = ([''http://stub/intensity/factors''], Value record_factors)"
    using f [where E = "stub_env [(body_factors, json_factors)] []
          [(''http://stub/intensity/factors'', body_factors)]"
        and ah = stub_handler and data = body_factors,
        THEN conjunct2, THEN conjunct2, THEN conjunct2, THEN conjunct2]
    by (simp add: stub_env_sel stub_handler_def w1)
  have w5: "go_int (stub_env [] [] []) (937 + 1 / 2) = 937"
    using f [where E = "stub_env [] [] []" and f = "937 + 1 / 2",
        THEN conjunct2, THEN conjunct2, THEN conjunct2, THEN conjunct2, THEN conjunct2,
        THEN conjunct1]
    by (simp add: trunc_def)
  have w6: "go_int (stub_env [] [] []) (10 ^ 30) = - (2 ^ 63)"
    using f [where E = "stub_env [] [] []" and f = "10 ^ 30",
        THEN conjunct2, THEN conjunct2, THEN conjunct2, THEN conjunct2, THEN conjunct2,
        THEN conjunct2]
    by (simp add: trunc_def stub_env_sel)
  from w1 w2 w3 w4 w5 w6 show ?thesis by simp
qed

text \<open>
  A missing key is not reported as an error: for the fixture that lacks only \<^verbatim>\<open>"Wind"\<close>
  the decode, and the operation as a whole, panic.
\<close>

theorem factors_decoded_counterexample:
  "map_of dict_factors_no_wind ''Wind'' = None
   \<and> decode_factors (stub_env [(body_factors_no_wind, json_factors_no_wind)] [] [])
       body_factors_no_wind = Panic
   \<and> GetIntensityFactors
       (stub_env [(body_factors_no_wind, json_factors_no_wind)] []
          [(''http://stub/intensity/factors'', body_factors_no_wind)])
       stub_handler
     = ([''http://stub/intensity/factors''], Panic)"
  by (simp add: GetIntensityFactors_def getAPIResponse_eq stub_handler_def stub_env_sel
      decode_factors_def json_Unmarshal_map_eq json_factors_no_wind_def index_map_def
      dict_factors_no_wind_def factors_of_def factor_def go_int_def trunc_def)

section \<open>Bodies with the asserted types\<close>

lemma entries_loop_returns:
  "\<forall>v \<in> set vs. body v \<noteq> Fault \<Longrightarrow> returns (entries_loop body vs acc)"
  by (induction vs arbitrary: acc) (auto split: step.splits)

lemma typed_entry_no_Fault:
  "typed_entry intensity_nums v \<Longrightarrow> intensity_entry E v \<noteq> Fault"
  "typed_entry statistics_nums v \<Longrightarrow> statistics_entry E v \<noteq> Fault"
  by (simp_all add: intensity_entry_typed statistics_entry_typed split: option.splits)

lemma api_error_returns:
  "typed_error e \<Longrightarrow> returns (api_error e :: 'a outcome)"
  by (simp add: api_error_typed)

lemma UnmarshalJSON_typed_returns:
  assumes d: "json_decode E data = Some j"
    and t: "typed_body (list_all ok) j"
    and b: "\<And>v. ok v \<Longrightarrow> body v \<noteq> Fault"
  shows "returns (UnmarshalJSON body E data)"
proof (cases "is_object j")
  case False
  with d have "UnmarshalJSON body E data \<noteq> Panic" by (rule UnmarshalJSON_not_object)
  then show ?thesis by (cases "UnmarshalJSON body E data") simp_all
next
  case True
  then obtain m where j: "j = JObject m" using is_objectE by blast
  show ?thesis
  proof (cases "index_map m ''data'' = JNull")
    case True
    with t j have "index_map m ''error'' = JNull \<or> typed_error (index_map m ''error'')"
      by (simp add: typed_body_def)
    with True d j show ?thesis
      by (auto simp: UnmarshalJSON_object api_error_returns)
  next
    case False
    with t j obtain vs where vs: "index_map m ''data'' = JArray vs" "list_all ok vs"
      by (cases "index_map m ''data''") (simp_all add: typed_body_def)
    then have "\<forall>v \<in> set vs. body v \<noteq> Fault" using b by (simp add: list_all_iff)
    then have "returns (entries_loop body vs [])" by (rule entries_loop_returns)
    with False d j vs show ?thesis by (simp add: UnmarshalJSON_object)
  qed
qed

lemma decode_factors_typed_returns:
  assumes d: "json_decode E data = Some j" and t: "typed_body one_typed_factors j"
  shows "returns (decode_factors E data)"
proof (cases "is_object j")
  case False
  with d show ?thesis by (simp add: decoders_not_object)
next
  case True
  then obtain m where j: "j = JObject m" using is_objectE by blast
  show ?thesis
  proof (cases "index_map m ''data'' = JNull")
    case True
    with t j have "index_map m ''error'' = JNull \<or> typed_error (index_map m ''error'')"
      by (simp add: typed_body_def)
    with True d j show ?thesis
      by (auto simp: decode_factors_object api_error_returns)
  next
    case False
    with t j obtain vs where vs: "index_map m ''data'' = JArray vs" "one_typed_factors vs"
      by (cases "index_map m ''data''") (simp_all add: typed_body_def)
    show ?thesis
    proof (cases "length vs = 1")
      case False
      with \<open>index_map m ''data'' \<noteq> JNull\<close> d j vs show ?thesis
        by (simp add: decode_factors_object)
    next
      case True
      then obtain v where v: "vs = [v]" by (cases vs) auto
      with vs have tf: "typed_factors v" by (simp add: one_typed_factors_def)
      then obtain fd where fd: "v = JObject fd"
        using is_objectE by (auto simp: typed_factors_def)
      from factors_of_typed tf fd obtain r where "factors_of E fd = Some r" by blast
      with \<open>index_map m ''data'' \<noteq> JNull\<close> d j vs v fd show ?thesis
        by (simp add: decode_factors_object)
    qed
  qed
qed

lemma json_Unmarshal_typed_returns:
  assumes "\<And>j. json_decode E data = Some j \<Longrightarrow> typed_body (list_all (typed_entry intensity_nums)) j"
  shows "returns (json_Unmarshal intensityResponse_UnmarshalJSON E data)"
proof (cases "json_decode E data")
  case None
  then show ?thesis by (simp add: decoders_rejected)
next
  case (Some j)
  then have "json_decode E (value_bytes data) = Some j" by simp
  from UnmarshalJSON_typed_returns [OF this assms [OF Some] typed_entry_no_Fault(1)]
  show ?thesis
    by (simp add: json_Unmarshal_Some [OF Some] intensityResponse_UnmarshalJSON_def)
qed

lemma json_Unmarshal_statistics_typed_returns:
  assumes "\<And>j. json_decode E data = Some j \<Longrightarrow> typed_body (list_all (typed_entry statistics_nums)) j"
  shows "returns (json_Unmarshal statisticsResponse_UnmarshalJSON E data)"
proof (cases "json_decode E data")
  case None
  then show ?thesis by (simp add: decoders_rejected)
next
  case (Some j)
  then have "json_decode E (value_bytes data) = Some j" by simp
  from UnmarshalJSON_typed_returns [OF this assms [OF Some] typed_entry_no_Fault(2)]
  show ?thesis
    by (simp add: json_Unmarshal_Some [OF Some] statisticsResponse_UnmarshalJSON_def)
qed

lemma decode_factors_returns:
  assumes "\<And>j. json_decode E data = Some j \<Longrightarrow> typed_body one_typed_factors j"
  shows "returns (decode_factors E data)"
proof (cases "json_decode E data")
  case None
  then show ?thesis by (simp add: decoders_rejected)
next
  case (Some j)
  from decode_factors_typed_returns [OF Some assms [OF Some]] show ?thesis .
qed

lemma single_entry_returns: "returns r \<Longrightarrow> returns (single_entry b r)"
  by (cases r) (simp_all add: single_entry_def)

lemma served_typed_body:
  "served_typed E url ok \<Longrightarrow> http_Get E url = Inr body \<Longrightarrow> json_decode E body = Some j \<Longrightarrow>
   typed_body ok j"
  by (simp add: served_typed_def)

lemma sample_bodies_typed:
  "typed_body (list_all (typed_entry intensity_nums)) json_one"
  "typed_body (list_all (typed_entry statistics_nums)) json_stats"
  "typed_body one_typed_factors json_factors"
  by (simp_all add: typed_body_def json_one_def json_stats_def json_factors_def index_map_def
      one_typed_factors_def dict_factors_typed typed_entry_def entry_one_def entry_stats_def
      intensity_nums_def statistics_nums_def)

text \<open>
  C3 (as amended). For every response body that has the types its decoder asserts, the
  decode returns to its caller, with a result or with an error value, and does not panic;
  and every public operation returns in this way when the body served at the URL it
  requests has those types. Nothing is asked of a body the library does not decode (its
  error is returned), of a request that fails in the transport, or of a call that its
  parameter check refuses: these return an error as well. A body has the types when it
  is not a JSON object, or its \<^verbatim>\<open>"data"\<close> is \<^verbatim>\<open>nil\<close> and its \<^verbatim>\<open>"error"\<close> is \<^verbatim>\<open>nil\<close> or an object
  with string \<^verbatim>\<open>"code"\<close> and \<^verbatim>\<open>"message"\<close>, or its \<^verbatim>\<open>"data"\<close> is an array of typed entries
  (for the fuel-mix factors: an array that, if it has one element, has an object with
  the fourteen numeric keys).
\<close>

theorem typed_bodies_return:
  "((\<forall>j. json_decode E body = Some j \<longrightarrow> typed_body (list_all (typed_entry intensity_nums)) j)
      \<longrightarrow> returns (json_Unmarshal intensityResponse_UnmarshalJSON E body))
   \<and> ((\<forall>j. json_decode E body = Some j \<longrightarrow> typed_body (list_all (typed_entry statistics_nums)) j)
      \<longrightarrow> returns (json_Unmarshal statisticsResponse_UnmarshalJSON E body))
   \<and> ((\<forall>j. json_decode E body = Some j \<longrightarrow> typed_body one_typed_factors j)
      \<longrightarrow> returns (decode_factors E body))
   \<and> (served_typed E (serverAddress ah @ ''/intensity/date/'' @ date_path E date)
         (list_all (typed_entry intensity_nums))
      \<longrightarrow> returns (snd (GetIntensityForDay E ah date)))
   \<and> (served_typed E (serverAddress ah @ ''/intensity/date/'' @ date_path E date @ ''/''
                         @ fmt_d 0 p)
         (list_all (typed_entry intensity_nums))
      \<longrightarrow> returns (snd (GetIntensityForDayAndSettlementPeriod E ah date p)))
   \<and> (served_typed E (serverAddress ah @ ''/intensity/date'')
         (list_all (typed_entry intensity_nums))
      \<longrightarrow> returns (snd (GetTodaysIntensity E ah)))
   \<and> (served_typed E (serverAddress ah @ ''/intensity/'' @ time_Format E t)
         (list_all (typed_entry intensity_nums))
      \<longrightarrow> returns (snd (GetIntensityForTimePeriod E ah t)))
   \<and> (served_typed E (serverAddress ah @ ''/intensity'')
         (list_all (typed_entry intensity_nums))
      \<longrightarrow> returns (snd (GetCurrentIntensity E ah)))
   \<and> (served_typed E (serverAddress ah @ ''/intensity/'' @ time_Format E t_from @ ''/''
                         @ time_Format E t_to)
         (list_all (typed_entry intensity_nums))
      \<longrightarrow> returns (snd (GetIntensityBetween E ah t_from t_to)))
   \<and> (served_typed E (serverAddress ah @ ''/intensity/'' @ time_Format E t_from @ ''/fw24h'')
         (list_all (typed_entry intensity_nums))
      \<longrightarrow> returns (snd (GetNext24HourIntensity E ah t_from)))
   \<and> (served_typed E (serverAddress ah @ ''/intensity/'' @ time_Format E t_from @ ''/fw48h'')
         (list_all (typed_entry intensity_nums))
      \<longrightarrow> returns (snd (GetNext48HourIntensity E ah t_from)))
   \<and> (served_typed E (serverAddress ah @ ''/intensity/'' @ time_Format E t_from @ ''/pt24h'')
         (list_all (typed_entry intensity_nums))
      \<longrightarrow> returns (snd (GetPrior24HourIntensity E ah t_from)))
   \<and> (served_typed E (serverAddress ah @ ''/intensity/factors'') one_typed_factors
      \<longrightarrow> returns (snd (GetIntensityFactors E ah)))
   \<and> (served_typed E (serverAddress ah @ ''/intensity/stats/'' @ time_Format E t_from @ ''/''
                         @ time_Format E t_to)
         (list_all (typed_entry statistics_nums))
      \<longrightarrow> returns (snd (GetStatistics E ah t_from t_to)))
   \<and> (served_typed E (serverAddress ah @ ''/intensity/stats/'' @ time_Format E t_from @ ''/''
                         @ time_Format E t_to @ ''/'' @ fmt_d 0 (whole_hours blockSize))
         (list_all (typed_entry statistics_nums))
      \<longrightarrow> returns (snd (GetStatisticsInBlocks E ah t_from t_to blockSize)))"
proof -
  have int: "returns (json_Unmarshal intensityResponse_UnmarshalJSON E b)"
    if "served_typed E u (list_all (typed_entry intensity_nums))" "http_Get E u = Inr b"
    for u b
    using that by (intro json_Unmarshal_typed_returns) (rule served_typed_body)
  have stat: "returns (json_Unmarshal statisticsResponse_UnmarshalJSON E b)"
    if "served_typed E u (list_all (typed_entry statistics_nums))" "http_Get E u = Inr b"
    for u b
    using that by (intro json_Unmarshal_statistics_typed_returns) (rule served_typed_body)
  have fac: "returns (decode_factors E b)"
    if "served_typed E u one_typed_factors" "http_Get E u = Inr b" for u b
    using that by (intro decode_factors_returns) (rule served_typed_body)
  show ?thesis
  proof (intro conjI impI)
    assume "\<forall>j. json_decode E body = Some j
              \<longrightarrow> typed_body (list_all (typed_entry intensity_nums)) j"
    then show "returns (json_Unmarshal intensityResponse_UnmarshalJSON E body)"
      by (intro json_Unmarshal_typed_returns) blast
  next
    assume "\<forall>j. json_decode E body = Some j
              \<longrightarrow> typed_body (list_all (typed_entry statistics_nums)) j"
    then show "returns (json_Unmarshal statisticsResponse_UnmarshalJSON E body)"
      by (intro json_Unmarshal_statistics_typed_returns) blast
  next
    assume "\<forall>j. json_decode E body = Some j \<longrightarrow> typed_body one_typed_factors j"
    then show "returns (decode_factors E body)"
      by (intro decode_factors_returns) blast
  next
    assume h: "served_typed E (serverAddress ah @ ''/intensity/date/'' @ date_path E date)
         (list_all (typed_entry intensity_nums))"
    show "returns (snd (GetIntensityForDay E ah date))"
      using int [OF h]
      by (simp add: GetIntensityForDay_def getAPIResponse_eq split: sum.splits)
  next
    assume h: "served_typed E (serverAddress ah @ ''/intensity/date/'' @ date_path E date
                 @ ''/'' @ fmt_d 0 p) (list_all (typed_entry intensity_nums))"
    show "returns (snd (GetIntensityForDayAndSettlementPeriod E ah date p))"
      using int [OF h]
      by (simp add: GetIntensityForDayAndSettlementPeriod_def getAPIResponse_eq
          single_entry_returns split: sum.splits)
  next
    assume h: "served_typed E (serverAddress ah @ ''/intensity/date'')
         (list_all (typed_entry intensity_nums))"
    show "returns (snd (GetTodaysIntensity E ah))"
      using int [OF h]
      by (simp add: GetTodaysIntensity_def getAPIResponse_eq split: sum.splits)
  next
    assume h: "served_typed E (serverAddress ah @ ''/intensity/'' @ time_Format E t)
         (list_all (typed_entry intensity_nums))"
    show "returns (snd (GetIntensityForTimePeriod E ah t))"
      using int [OF h]
      by (simp add: GetIntensityForTimePeriod_def getAPIResponse_eq single_entry_returns
          split: sum.splits)
  next
    assume h: "served_typed E (serverAddress ah @ ''/intensity'')
         (list_all (typed_entry intensity_nums))"
    show "returns (snd (GetCurrentIntensity E ah))"
      using int [OF h]
      by (simp add: GetCurrentIntensity_def getAPIResponse_eq single_entry_returns
          split: sum.splits)
  next
    assume h: "served_typed E (serverAddress ah @ ''/intensity/'' @ time_Format E t_from
                 @ ''/'' @ time_Format E t_to) (list_all (typed_entry intensity_nums))"
    show "returns (snd (GetIntensityBetween E ah t_from t_to))"
      using int [OF h]
      by (simp add: GetIntensityBetween_def getAPIResponse_eq split: sum.splits)
  next
    assume h: "served_typed E (serverAddress ah @ ''/intensity/'' @ time_Format E t_from
                 @ ''/fw24h'') (list_all (typed_entry intensity_nums))"
    show "returns (snd (GetNext24HourIntensity E ah t_from))"
      using int [OF h]
      by (simp add: GetNext24HourIntensity_def getAPIResponse_eq split: sum.splits)
  next
    assume h: "served_typed E (serverAddress ah @ ''/intensity/'' @ time_Format E t_from
                 @ ''/fw48h'') (list_all (typed_entry intensity_nums))"
    show "returns (snd (GetNext48HourIntensity E ah t_from))"
      using int [OF h]
      by (simp add: GetNext48HourIntensity_def getAPIResponse_eq split: sum.splits)
  next
    assume h: "served_typed E (serverAddress ah @ ''/intensity/'' @ time_Format E t_from
                 @ ''/pt24h'') (list_all (typed_entry intensity_nums))"
    show "returns (snd (GetPrior24HourIntensity E ah t_from))"
      using int [OF h]
      by (simp add: GetPrior24HourIntensity_def getAPIResponse_eq split: sum.splits)
  next
    assume h: "served_typed E (serverAddress ah @ ''/intensity/factors'') one_typed_factors"
    show "returns (snd (GetIntensityFactors E ah))"
      using fac [OF h]
      by (simp add: GetIntensityFactors_def getAPIResponse_eq split: sum.splits)
  next
    assume h: "served_typed E (serverAddress ah @ ''/intensity/stats/'' @ time_Format E t_from
                 @ ''/'' @ time_Format E t_to) (list_all (typed_entry statistics_nums))"
    show "returns (snd (GetStatistics E ah t_from t_to))"
      using stat [OF h]
      by (simp add: GetStatistics_def getAPIResponse_eq single_entry_returns split: sum.splits)
  next
    assume h: "served_typed E (serverAddress ah @ ''/intensity/stats/'' @ time_Format E t_from
                 @ ''/'' @ time_Format E t_to @ ''/'' @ fmt_d 0 (whole_hours blockSize))
         (list_all (typed_entry statistics_nums))"
    show "returns (snd (GetStatisticsInBlocks E ah t_from t_to blockSize))"
      using stat [OF h]
      by (simp add: GetStatisticsInBlocks_def getAPIResponse_eq split: sum.splits)
  qed
qed

text \<open>
  One transport that serves an intensity body, a statistics body and the table of the
  factors side by side, each at the URL of its operation.
\<close>

theorem typed_bodies_return_witness:
  "returns (snd (GetCurrentIntensity
      (stub_env [(body_one, json_one), (body_stats, json_stats), (body_factors, json_factors)]
         stamps
         [(''http://stub/intensity'', body_one),
          (''http://stub/intensity/stats/T0/T9'', body_stats),
          (''http://stub/intensity/factors'', body_factors)])
      stub_handler))
   \<and> returns (snd (GetStatistics
      (stub_env [(body_one, json_one), (body_stats, json_stats), (body_factors, json_factors)]
         stamps
         [(''http://stub/intensity'', body_one),
          (''http://stub/intensity/stats/T0/T9'', body_stats),
          (''http://stub/intensity/factors'', body_factors)])
      stub_handler 0 9))
   \<and> returns (snd (GetIntensityFactors
      (stub_env [(body_one, json_one), (body_stats, json_stats), (body_factors, json_factors)]
         stamps
         [(''http://stub/intensity'', body_one),
          (''http://stub/intensity/stats/T0/T9'', body_stats),
          (''http://stub/intensity/factors'', body_factors)])
      stub_handler))
   \<and> returns (json_Unmarshal intensityResponse_UnmarshalJSON
        (stub_env [(body_one, json_one)] stamps []) body_one)
   \<and> returns (decode_factors (stub_env [(body_factors, json_factors)] stamps []) body_factors)"
proof -
  let ?M = "stub_env [(body_one, json_one), (body_stats, json_stats), (body_factors, json_factors)]
         stamps
         [(''http://stub/intensity'', body_one),
          (''http://stub/intensity/stats/T0/T9'', body_stats),
          (''http://stub/intensity/factors'', body_factors)]"
  have fmt: "fmt_d 0 0 = ''0''" "fmt_d 0 9 = ''9''"
    by (simp_all add: fmt_d_def itoa_nat.simps digit_def)
  have ne: "body_one \<noteq> body_stats" "body_one \<noteq> body_factors" "body_stats \<noteq> body_factors"
    by (simp_all add: body_one_def body_stats_def body_factors_def)
  have "served_typed ?M (serverAddress stub_handler @ ''/intensity'')
          (list_all (typed_entry intensity_nums))"
    by (simp add: served_typed_def stub_env_sel stub_handler_def sample_bodies_typed)
  then have i: "returns (snd (GetCurrentIntensity ?M stub_handler))"
    by (rule typed_bodies_return [where E = ?M and ah = stub_handler,
          THEN conjunct2, THEN conjunct2, THEN conjunct2, THEN conjunct2, THEN conjunct2, THEN conjunct2, THEN conjunct2, THEN conjunct1, THEN mp])
  have "served_typed ?M (serverAddress stub_handler @ ''/intensity/stats/''
          @ time_Format ?M 0 @ ''/'' @ time_Format ?M 9)
          (list_all (typed_entry statistics_nums))"
    using ne by (simp add: served_typed_def stub_env_sel stub_handler_def fmt sample_bodies_typed)
  then have s: "returns (snd (GetStatistics ?M stub_handler 0 9))"
    by (rule typed_bodies_return [where E = ?M and ah = stub_handler and t_from = 0 and t_to = 9,
          THEN conjunct2, THEN conjunct2, THEN conjunct2, THEN conjunct2, THEN conjunct2, THEN conjunct2, THEN conjunct2, THEN conjunct2, THEN conjunct2, THEN conjunct2, THEN conjunct2, THEN conjunct2, THEN conjunct2, THEN conjunct1, THEN mp])
  have "served_typed ?M (serverAddress stub_handler @ ''/intensity/factors'') one_typed_factors"
    using ne by (simp add: served_typed_def stub_env_sel stub_handler_def sample_bodies_typed)
  then have f: "returns (snd (GetIntensityFactors ?M stub_handler))"
    by (rule typed_bodies_return [where E = ?M and ah = stub_handler,
          THEN conjunct2, THEN conjunct2, THEN conjunct2, THEN conjunct2, THEN conjunct2, THEN conjunct2, THEN conjunct2, THEN conjunct2, THEN conjunct2, THEN conjunct2, THEN conjunct2, THEN conjunct2, THEN conjunct1, THEN mp])
  have "\<forall>j. json_decode (stub_env [(body_one, json_one)] stamps []) body_one = Some j
          \<longrightarrow> typed_body (list_all (typed_entry intensity_nums)) j"
    by (simp add: stub_env_sel sample_bodies_typed)
  then have d: "returns (json_Unmarshal intensityResponse_UnmarshalJSON
        (stub_env [(body_one, json_one)] stamps []) body_one)"
    by (rule typed_bodies_return [where E = "stub_env [(body_one, json_one)] stamps []"
          and body = body_one, THEN conjunct1, THEN mp])
  have "\<forall>j. json_decode (stub_env [(body_factors, json_factors)] stamps []) body_factors = Some j
          \<longrightarrow> typed_body one_typed_factors j"
    by (simp add: stub_env_sel sample_bodies_typed)
  then have g: "returns (decode_factors (stub_env [(body_factors, json_factors)] stamps [])
      body_factors)"
    by (rule typed_bodies_return [where E = "stub_env [(body_factors, json_factors)] stamps []"
          and body = body_factors, THEN conjunct2, THEN conjunct2, THEN conjunct1, THEN mp])
  from i s f d g show ?thesis by simp
qed

text \<open>
  Without the condition on the types the claim fails: a body whose \<^verbatim>\<open>"data"\<close> is a string,
  a body whose entry has no \<^verbatim>\<open>"index"\<close>, and a body whose \<^verbatim>\<open>"error"\<close> is a string each make
  the operation panic after its request.
\<close>

theorem typed_bodies_return_counterexample:
  "GetCurrentIntensity
      (stub_env [(body_data_text, json_data_text)] stamps [(''http://stub/intensity'', body_data_text)])
      stub_handler = ([''http://stub/intensity''], Panic)
   \<and> GetTodaysIntensity
      (stub_env [(body_no_index, json_no_index)] stamps [(''http://stub/intensity/date'', body_no_index)])
      stub_handler = ([''http://stub/intensity/date''], Panic)
   \<and> GetStatistics
      (stub_env [(body_error_text, json_error_text)] stamps
         [(''http://stub/intensity/stats/T0/T9'', body_error_text)])
      stub_handler 0 9 = ([''http://stub/intensity/stats/T0/T9''], Panic)"
proof -
  have fmt: "fmt_d 0 0 = ''0''" "fmt_d 0 9 = ''9''"
    by (simp_all add: fmt_d_def itoa_nat.simps digit_def)
  have a: "GetCurrentIntensity
      (stub_env [(body_data_text, json_data_text)] stamps [(''http://stub/intensity'', body_data_text)])
      stub_handler = ([''http://stub/intensity''], Panic)"
    by (simp add: GetCurrentIntensity_def getAPIResponse_eq stub_handler_def stub_env_sel
        json_Unmarshal_eq intensityResponse_UnmarshalJSON_def UnmarshalJSON_def
        json_Unmarshal_map_eq json_data_text_def index_map_def single_entry_def)
  have b: "GetTodaysIntensity
      (stub_env [(body_no_index, json_no_index)] stamps [(''http://stub/intensity/date'', body_no_index)])
      stub_handler = ([''http://stub/intensity/date''], Panic)"
    by (simp add: GetTodaysIntensity_def getAPIResponse_eq stub_handler_def stub_env_sel
        json_Unmarshal_eq intensityResponse_UnmarshalJSON_def UnmarshalJSON_def
        json_Unmarshal_map_eq json_no_index_def index_map_def intensity_entry_def stamps_def
        unmarshalInt_def go_int_def trunc_def)
  have c: "GetStatistics
      (stub_env [(body_error_text, json_error_text)] stamps
         [(''http://stub/intensity/stats/T0/T9'', body_error_text)])
      stub_handler 0 9 = ([''http://stub/intensity/stats/T0/T9''], Panic)"
    by (simp add: GetStatistics_def getAPIResponse_eq stub_handler_def stub_env_sel fmt
        time_Before_def time_Sub_def Hour_def maxDuration_def minDuration_def
        json_Unmarshal_eq statisticsResponse_UnmarshalJSON_def UnmarshalJSON_def
        json_Unmarshal_map_eq json_error_text_def index_map_def api_error_def single_entry_def)
  from a b c show ?thesis by simp
qed

end
